theory Spec2Isabelle
  imports Main "HOL-Library.Sublist"
begin

section \<open>Strings and formatting\<close>

text \<open>
  Go strings are byte sequences, and so is \<^typ>\<open>string\<close>.  The two quote characters
  that the identifier safety layer doubles are written by their byte values.
\<close>

definition dquote :: char where
  "dquote = CHR 0x22"

definition squote :: char where
  "squote = CHR 0x27"

text \<open>
  \<open>strings.ReplaceAll(s, old, new)\<close> where \<open>old\<close> is a single byte: every occurrence
  of the byte is replaced, scanning from the left.  Both uses in the program have a one-byte
  pattern.
\<close>

fun ReplaceAll :: "string \<Rightarrow> char \<Rightarrow> string \<Rightarrow> string" where
  "ReplaceAll [] old new = []"
| "ReplaceAll (c # cs) old new =
     (if c = old then new @ ReplaceAll cs old new else c # ReplaceAll cs old new)"

text \<open>The verb \<open>%d\<close> of \<open>fmt.Sprintf\<close>: decimal digits, with a minus sign below zero.\<close>

definition digit :: "nat \<Rightarrow> char" where
  "digit n = ''0123456789'' ! n"

fun digits :: "nat \<Rightarrow> string" where
  "digits n = (if n < 10 then [digit n] else digits (n div 10) @ [digit (n mod 10)])"

declare digits.simps [simp del]

definition fmt_d :: "int \<Rightarrow> string" where
  "fmt_d i = (if i < 0 then CHR ''-'' # digits (nat (- i)) else digits (nat i))"

section \<open>Data model (package structs)\<close>

record UserConfig =
  Username :: string
  Password :: string
  Groups :: "string list"
  Privileges :: "string list"
  Databases :: "string list"
  Enabled :: bool
  Description :: string
  AuthMethod :: string
  IAMRole :: string
  CanLogin :: bool
  ConnectionLimit :: int

record GroupConfig =
  Name :: string
  GPrivileges :: "string list"
  GDatabases :: "string list"
  GDescription :: string
  Inherit :: bool

record Config =
  Users :: "UserConfig list"
  CGroups :: "GroupConfig list"

record DatabaseUser =
  DUsername :: string
  DGroups :: "string list"
  DPrivileges :: "string list"
  DDatabases :: "string list"
  Exists :: bool
  LastChecked :: nat

record DatabaseConnection =
  Host :: string
  Port :: int
  Database :: string
  ConnUsername :: string
  ConnPassword :: string
  SSLMode :: string
  IAMAuth :: bool
  AWSRegion :: string
  IAMToken :: string

text \<open>
  Field names are global in a theory, so the fields that several Go structs share carry a
  prefix in all but the first record: \<open>GPrivileges\<close>, \<open>GDatabases\<close>, \<open>GDescription\<close>
  of \<open>GroupConfig\<close>, \<open>CGroups\<close> of \<open>Config\<close>, the \<open>D\<close> fields of \<open>DatabaseUser\<close> and
  \<open>ConnUsername\<close>, \<open>ConnPassword\<close> of \<open>DatabaseConnection\<close>.  Go's \<open>int\<close> is modelled by
  \<^typ>\<open>int\<close>: no arithmetic is done on these fields, they are only compared and printed.
\<close>

section \<open>Errors, the driver and the observable world\<close>

text \<open>
  A Go \<open>error\<close> is the sentinel \<open>sql.ErrNoRows\<close>, an error with a message, or
  \<open>fmt.Errorf("<prefix>%w", cause)\<close>, which keeps its cause.
\<close>

datatype error = ErrNoRows | Err string | Wrap string error

fun Error :: "error \<Rightarrow> string" where
  "Error ErrNoRows = ''sql: no rows in result set''"
| "Error (Err msg) = msg"
| "Error (Wrap msg cause) = msg @ Error cause"

datatype 'a result = Ok 'a | Failed error

text \<open>
  What the program does to the outside is recorded as a chronological list of events: its
  log lines (logrus message and fields), and every call it makes on the \<open>database/sql\<close>
  handle.  \<open>Exec\<close> records the statement text and what the server answered.
\<close>

datatype fieldval = Str string | Strs "string list" | Num nat

datatype level = Info | Warn | ErrorLevel

datatype event =
    Log level string "(string \<times> fieldval) list"
  | Open string "error option"
  | Ping "error option"
  | Exec string "error option"
  | QueryRow string "string list"
  | Query string "string list"

text \<open>
  The driver and the server behind it are not part of the program: they are a parameter.
  \<open>'db\<close> is the state of the server.  A statement may fail and may change the state;
  the two catalog reads are \<open>SELECT\<close>s and only observe it.  \<open>drv_queryRow\<close> is
  \<open>QueryRow(query, args...).Scan(&exists)\<close>: \<open>None\<close> when a row was scanned.
  \<open>drv_query\<close> is \<open>Query(query, args...)\<close> followed by the \<open>Next\<close>/\<open>Scan\<close> loop: the rows,
  each of which scans to a string or to an error.
\<close>

record 'db driver =
  drv_open :: "string \<Rightarrow> error option"
  drv_ping :: "'db \<Rightarrow> string \<Rightarrow> error option"
  drv_exec :: "'db \<Rightarrow> string \<Rightarrow> error option \<times> 'db"
  drv_queryRow :: "'db \<Rightarrow> string \<Rightarrow> string list \<Rightarrow> error option"
  drv_query :: "'db \<Rightarrow> string \<Rightarrow> string list \<Rightarrow> (string result list) result"

record 'db world =
  dbstate :: 'db
  events :: "event list"

definition logf :: "level \<Rightarrow> string \<Rightarrow> (string \<times> fieldval) list \<Rightarrow> 'db world \<Rightarrow> 'db world" where
  "logf lvl msg flds w = w\<lparr>events := events w @ [Log lvl msg flds]\<rparr>"

definition dbExec :: "'db driver \<Rightarrow> string \<Rightarrow> 'db world \<Rightarrow> error option \<times> 'db world" where
  "dbExec drv query w =
     (let (r, s) = drv_exec drv (dbstate w) query
      in (r, \<lparr>dbstate = s, events = events w @ [Exec query r]\<rparr>))"

definition dbQueryRow :: "'db driver \<Rightarrow> string \<Rightarrow> string list \<Rightarrow> 'db world \<Rightarrow> error option \<times> 'db world" where
  "dbQueryRow drv query args w =
     (drv_queryRow drv (dbstate w) query args, w\<lparr>events := events w @ [QueryRow query args]\<rparr>)"

text \<open>The \<open>Manager\<close> of package \<open>database\<close>: the handle (its data source name) and the mode flag.\<close>

record Manager =
  db :: string
  dryRun :: bool

section \<open>Identifier safety layer\<close>

text \<open>\<open>quoteIdentifier\<close>: \<open>fmt.Sprintf(`"%s"`, strings.ReplaceAll(name, `"`, `""`))\<close>.\<close>

definition quoteIdentifier :: "string \<Rightarrow> string" where
  "quoteIdentifier name = [dquote] @ ReplaceAll name dquote [dquote, dquote] @ [dquote]"

text \<open>\<open>escapeString\<close>: \<open>strings.ReplaceAll(s, "'", "''")\<close>.\<close>

definition escapeString :: "string \<Rightarrow> string" where
  "escapeString s = ReplaceAll s squote [squote, squote]"


section \<open>Principal state reader\<close>

definition UserExists :: "'db driver \<Rightarrow> Manager \<Rightarrow> string \<Rightarrow> 'db world \<Rightarrow> (bool \<times> error option) \<times> 'db world" where
  "UserExists drv m username w =
     (let query = ''SELECT 1 FROM pg_user WHERE usename = $1'';
          (err, w) = dbQueryRow drv query [username] w
      in if err = Some ErrNoRows then ((False, None), w)
         else if err \<noteq> None then ((False, err), w)
         else ((True, None), w))"

definition GroupExists :: "'db driver \<Rightarrow> Manager \<Rightarrow> string \<Rightarrow> 'db world \<Rightarrow> (bool \<times> error option) \<times> 'db world" where
  "GroupExists drv m groupName w =
     (let query = ''SELECT 1 FROM pg_roles WHERE rolname = $1'';
          (err, w) = dbQueryRow drv query [groupName] w
      in if err = Some ErrNoRows then ((False, None), w)
         else if err \<noteq> None then ((False, err), w)
         else ((True, None), w))"

text \<open>
  The membership query of \<open>GetUserInfo\<close> is a raw string literal over five lines; its line
  breaks and tabs are bytes of the statement text.
\<close>

definition groupQuery :: string where
  "groupQuery =
     [CHR 0x0A, CHR 0x09, CHR 0x09] @ ''SELECT r.rolname '' @
     [CHR 0x0A, CHR 0x09, CHR 0x09] @ ''FROM pg_auth_members m '' @
     [CHR 0x0A, CHR 0x09, CHR 0x09] @ ''JOIN pg_roles r ON m.roleid = r.oid '' @
     [CHR 0x0A, CHR 0x09, CHR 0x09] @ ''JOIN pg_roles u ON m.member = u.oid '' @
     [CHR 0x0A, CHR 0x09, CHR 0x09] @ ''WHERE u.rolname = $1''"

text \<open>
  The \<open>rows.Next\<close>/\<open>rows.Scan\<close> loop: a row that fails to scan ends the call with that error,
  otherwise the group name is appended.
\<close>

fun scanGroups :: "string result list \<Rightarrow> DatabaseUser \<Rightarrow> DatabaseUser result" where
  "scanGroups [] user = Ok user"
| "scanGroups (Failed e # rows) user = Failed e"
| "scanGroups (Ok groupName # rows) user = scanGroups rows (user\<lparr>DGroups := DGroups user @ [groupName]\<rparr>)"

text \<open>\<open>GetUserInfo\<close>; the reading of the clock (\<open>time.Now()\<close>) is the parameter \<open>now\<close>.\<close>

definition GetUserInfo :: "'db driver \<Rightarrow> Manager \<Rightarrow> nat \<Rightarrow> string \<Rightarrow> 'db world \<Rightarrow> DatabaseUser result \<times> 'db world" where
  "GetUserInfo drv m now username w =
     (let user = \<lparr>DUsername = username, DGroups = [], DPrivileges = [], DDatabases = [],
                   Exists = False, LastChecked = now\<rparr>;
          ((exists, err), w) = UserExists drv m username w
      in case err of
           Some e \<Rightarrow> (Failed e, w)
         | None \<Rightarrow>
             (let user = user\<lparr>Exists := exists\<rparr>
              in if \<not> exists then (Ok user, w)
                 else
                   (let rows = drv_query drv (dbstate w) groupQuery [username];
                        w = w\<lparr>events := events w @ [Query groupQuery [username]]\<rparr>
                    in case rows of
                         Failed e \<Rightarrow> (Failed (Wrap ''failed to get user groups: '' e), w)
                       | Ok rs \<Rightarrow> (scanGroups rs user, w))))"

section \<open>Principal mutator\<close>

text \<open>\<open>buildCreateUserQuery\<close>: the statement text, and the log line of the IAM branch.\<close>

definition buildCreateUserQuery :: "Manager \<Rightarrow> UserConfig \<Rightarrow> 'db world \<Rightarrow> string \<times> 'db world" where
  "buildCreateUserQuery m user w =
     (let query = ''CREATE USER '' @ quoteIdentifier (Username user);
          (query, w) =
            (if AuthMethod user = ''iam''
             then (query, logf Info ''Creating user for IAM authentication (no password)''
                            [(''username'', Str (Username user))] w)
             else if Password user \<noteq> []
             then (query @ '' WITH PASSWORD '' @ [squote] @ escapeString (Password user) @ [squote], w)
             else (query, w));
          query = (if CanLogin user then query @ '' LOGIN'' else query @ '' NOLOGIN'');
          query =
            (if ConnectionLimit user \<noteq> 0
             then (if ConnectionLimit user = - 1 then query @ '' CONNECTION LIMIT -1''
                   else query @ '' CONNECTION LIMIT '' @ fmt_d (ConnectionLimit user))
             else query)
      in (query, w))"

definition grantRDSIAMRole :: "'db driver \<Rightarrow> Manager \<Rightarrow> string \<Rightarrow> 'db world \<Rightarrow> error option \<times> 'db world" where
  "grantRDSIAMRole drv m username w =
     (let w = logf Info ''Granting rds_iam role for IAM authentication'' [(''username'', Str username)] w;
          query = ''GRANT rds_iam TO '' @ quoteIdentifier username
      in if dryRun m then (None, logf Info ''DRY RUN: Would execute query'' [(''query'', Str query)] w)
         else
           (let (r, w) = dbExec drv query w
            in case r of
                 Some e \<Rightarrow> (Some (Wrap ''failed to grant rds_iam role: '' e), w)
               | None \<Rightarrow> (None, logf Info ''Successfully granted rds_iam role'' [(''username'', Str username)] w)))"

definition revokeRDSIAMRole :: "'db driver \<Rightarrow> Manager \<Rightarrow> string \<Rightarrow> 'db world \<Rightarrow> error option \<times> 'db world" where
  "revokeRDSIAMRole drv m username w =
     (let w = logf Info ''Revoking rds_iam role'' [(''username'', Str username)] w;
          query = ''REVOKE rds_iam FROM '' @ quoteIdentifier username
      in if dryRun m then (None, logf Info ''DRY RUN: Would execute query'' [(''query'', Str query)] w)
         else
           (let (r, w) = dbExec drv query w
            in case r of
                 Some e \<Rightarrow> (Some (Wrap ''failed to revoke rds_iam role: '' e), w)
               | None \<Rightarrow> (None, logf Info ''Successfully revoked rds_iam role'' [(''username'', Str username)] w)))"

definition CreateUser :: "'db driver \<Rightarrow> Manager \<Rightarrow> UserConfig \<Rightarrow> 'db world \<Rightarrow> error option \<times> 'db world" where
  "CreateUser drv m user w =
     (let w = logf Info ''Creating user''
                [(''username'', Str (Username user)), (''auth_method'', Str (AuthMethod user))] w;
          ((exists, err), w) = UserExists drv m (Username user) w
      in case err of
           Some e \<Rightarrow> (Some (Wrap ''failed to check if user exists: '' e), w)
         | None \<Rightarrow>
             if exists
             then (None, logf Info ''User already exists, skipping creation''
                           [(''username'', Str (Username user))] w)
             else
               (let (query, w) = buildCreateUserQuery m user w
                in if dryRun m
                   then (None, logf Info ''DRY RUN: Would execute query'' [(''query'', Str query)] w)
                   else
                     (let (r, w) = dbExec drv query w
                      in case r of
                           Some e \<Rightarrow> (Some (Wrap (''failed to create user '' @ Username user @ '': '') e), w)
                         | None \<Rightarrow>
                             if AuthMethod user = ''iam''
                             then
                               (let (r, w) = grantRDSIAMRole drv m (Username user) w
                                in case r of
                                     Some e \<Rightarrow>
                                       (Some (Wrap (''failed to grant rds_iam role to user '' @ Username user @ '': '') e), w)
                                   | None \<Rightarrow>
                                       (None, logf Info ''User created successfully''
                                                [(''username'', Str (Username user))] w))
                             else (None, logf Info ''User created successfully''
                                           [(''username'', Str (Username user))] w))))"

definition DropUser :: "'db driver \<Rightarrow> Manager \<Rightarrow> string \<Rightarrow> 'db world \<Rightarrow> error option \<times> 'db world" where
  "DropUser drv m username w =
     (let w = logf Info ''Dropping user'' [(''username'', Str username)] w;
          ((exists, err), w) = UserExists drv m username w
      in case err of
           Some e \<Rightarrow> (Some (Wrap ''failed to check if user exists: '' e), w)
         | None \<Rightarrow>
             if \<not> exists
             then (None, logf Info ''User does not exist, skipping deletion'' [(''username'', Str username)] w)
             else
               (let query = ''DROP USER '' @ quoteIdentifier username
                in if dryRun m
                   then (None, logf Info ''DRY RUN: Would execute query'' [(''query'', Str query)] w)
                   else
                     (let (r, w) = dbExec drv query w
                      in case r of
                           Some e \<Rightarrow> (Some (Wrap (''failed to drop user '' @ username @ '': '') e), w)
                         | None \<Rightarrow> (None, logf Info ''User dropped successfully'' [(''username'', Str username)] w))))"

definition CreateGroup :: "'db driver \<Rightarrow> Manager \<Rightarrow> GroupConfig \<Rightarrow> 'db world \<Rightarrow> error option \<times> 'db world" where
  "CreateGroup drv m grp w =
     (let w = logf Info ''Creating group'' [(''group'', Str (Name grp))] w;
          ((exists, err), w) = GroupExists drv m (Name grp) w
      in case err of
           Some e \<Rightarrow> (Some (Wrap ''failed to check if group exists: '' e), w)
         | None \<Rightarrow>
             if exists
             then (None, logf Info ''Group already exists, skipping creation'' [(''group'', Str (Name grp))] w)
             else
               (let query = ''CREATE ROLE '' @ quoteIdentifier (Name grp);
                    query = (if Inherit grp then query @ '' INHERIT'' else query @ '' NOINHERIT'')
                in if dryRun m
                   then (None, logf Info ''DRY RUN: Would execute query'' [(''query'', Str query)] w)
                   else
                     (let (r, w) = dbExec drv query w
                      in case r of
                           Some e \<Rightarrow> (Some (Wrap (''failed to create group '' @ Name grp @ '': '') e), w)
                         | None \<Rightarrow> (None, logf Info ''Group created successfully'' [(''group'', Str (Name grp))] w))))"

text \<open>
  \<open>GrantPrivileges\<close>: the inner loop over the privileges of one database, the outer loop
  over the databases.  \<open>return\<close> inside the inner loop leaves both loops; in dry-run mode
  \<open>continue\<close> goes on to the next privilege.
\<close>

fun grantPrivs :: "'db driver \<Rightarrow> Manager \<Rightarrow> string \<Rightarrow> string \<Rightarrow> string list \<Rightarrow> 'db world \<Rightarrow> error option \<times> 'db world" where
  "grantPrivs drv m target dbname [] w = (None, w)"
| "grantPrivs drv m target dbname (priv # privs) w =
     (let query = ''GRANT '' @ priv @ '' ON DATABASE '' @ quoteIdentifier dbname @ '' TO '' @ quoteIdentifier target
      in if dryRun m
         then grantPrivs drv m target dbname privs
                (logf Info ''DRY RUN: Would execute query'' [(''query'', Str query)] w)
         else
           (let (r, w) = dbExec drv query w
            in case r of
                 Some e \<Rightarrow>
                   (Some (Wrap (''failed to grant '' @ priv @ '' on '' @ dbname @ '' to '' @ target @ '': '') e), w)
               | None \<Rightarrow> grantPrivs drv m target dbname privs w))"

fun grantDbs :: "'db driver \<Rightarrow> Manager \<Rightarrow> string \<Rightarrow> string list \<Rightarrow> string list \<Rightarrow> 'db world \<Rightarrow> error option \<times> 'db world" where
  "grantDbs drv m target privileges [] w = (None, w)"
| "grantDbs drv m target privileges (dbname # dbs) w =
     (let (r, w) = grantPrivs drv m target dbname privileges w
      in case r of
           Some e \<Rightarrow> (Some e, w)
         | None \<Rightarrow> grantDbs drv m target privileges dbs w)"

definition GrantPrivileges :: "'db driver \<Rightarrow> Manager \<Rightarrow> string \<Rightarrow> string list \<Rightarrow> string list \<Rightarrow> 'db world \<Rightarrow> error option \<times> 'db world" where
  "GrantPrivileges drv m target privileges databases w =
     (let w = logf Info ''Granting privileges''
                [(''target'', Str target), (''privileges'', Strs privileges), (''databases'', Strs databases)] w;
          (r, w) = grantDbs drv m target privileges databases w
      in case r of
           Some e \<Rightarrow> (Some e, w)
         | None \<Rightarrow> (None, logf Info ''Privileges granted successfully'' [(''target'', Str target)] w))"

fun revokePrivs :: "'db driver \<Rightarrow> Manager \<Rightarrow> string \<Rightarrow> string \<Rightarrow> string list \<Rightarrow> 'db world \<Rightarrow> error option \<times> 'db world" where
  "revokePrivs drv m target dbname [] w = (None, w)"
| "revokePrivs drv m target dbname (priv # privs) w =
     (let query = ''REVOKE '' @ priv @ '' ON DATABASE '' @ quoteIdentifier dbname @ '' FROM '' @ quoteIdentifier target
      in if dryRun m
         then revokePrivs drv m target dbname privs
                (logf Info ''DRY RUN: Would execute query'' [(''query'', Str query)] w)
         else
           (let (r, w) = dbExec drv query w
            in case r of
                 Some e \<Rightarrow>
                   (Some (Wrap (''failed to revoke '' @ priv @ '' on '' @ dbname @ '' from '' @ target @ '': '') e), w)
               | None \<Rightarrow> revokePrivs drv m target dbname privs w))"

fun revokeDbs :: "'db driver \<Rightarrow> Manager \<Rightarrow> string \<Rightarrow> string list \<Rightarrow> string list \<Rightarrow> 'db world \<Rightarrow> error option \<times> 'db world" where
  "revokeDbs drv m target privileges [] w = (None, w)"
| "revokeDbs drv m target privileges (dbname # dbs) w =
     (let (r, w) = revokePrivs drv m target dbname privileges w
      in case r of
           Some e \<Rightarrow> (Some e, w)
         | None \<Rightarrow> revokeDbs drv m target privileges dbs w)"

definition RevokePrivileges :: "'db driver \<Rightarrow> Manager \<Rightarrow> string \<Rightarrow> string list \<Rightarrow> string list \<Rightarrow> 'db world \<Rightarrow> error option \<times> 'db world" where
  "RevokePrivileges drv m target privileges databases w =
     (let w = logf Info ''Revoking privileges''
                [(''target'', Str target), (''privileges'', Strs privileges), (''databases'', Strs databases)] w;
          (r, w) = revokeDbs drv m target privileges databases w
      in case r of
           Some e \<Rightarrow> (Some e, w)
         | None \<Rightarrow> (None, logf Info ''Privileges revoked successfully'' [(''target'', Str target)] w))"

definition AddUserToGroup :: "'db driver \<Rightarrow> Manager \<Rightarrow> string \<Rightarrow> string \<Rightarrow> 'db world \<Rightarrow> error option \<times> 'db world" where
  "AddUserToGroup drv m username groupName w =
     (let w = logf Info ''Adding user to group'' [(''username'', Str username), (''group'', Str groupName)] w;
          query = ''GRANT '' @ quoteIdentifier groupName @ '' TO '' @ quoteIdentifier username
      in if dryRun m then (None, logf Info ''DRY RUN: Would execute query'' [(''query'', Str query)] w)
         else
           (let (r, w) = dbExec drv query w
            in case r of
                 Some e \<Rightarrow>
                   (Some (Wrap (''failed to add user '' @ username @ '' to group '' @ groupName @ '': '') e), w)
               | None \<Rightarrow>
                   (None, logf Info ''User added to group successfully''
                            [(''username'', Str username), (''group'', Str groupName)] w)))"

definition RemoveUserFromGroup :: "'db driver \<Rightarrow> Manager \<Rightarrow> string \<Rightarrow> string \<Rightarrow> 'db world \<Rightarrow> error option \<times> 'db world" where
  "RemoveUserFromGroup drv m username groupName w =
     (let w = logf Info ''Removing user from group'' [(''username'', Str username), (''group'', Str groupName)] w;
          query = ''REVOKE '' @ quoteIdentifier groupName @ '' FROM '' @ quoteIdentifier username
      in if dryRun m then (None, logf Info ''DRY RUN: Would execute query'' [(''query'', Str query)] w)
         else
           (let (r, w) = dbExec drv query w
            in case r of
                 Some e \<Rightarrow>
                   (Some (Wrap (''failed to remove user '' @ username @ '' from group '' @ groupName @ '': '') e), w)
               | None \<Rightarrow>
                   (None, logf Info ''User removed from group successfully''
                            [(''username'', Str username), (''group'', Str groupName)] w)))"

section \<open>Reconciliation orchestrator\<close>

record SyncResult =
  UsersCreated :: "string list"
  UsersModified :: "string list"
  UsersRemoved :: "string list"
  GroupsCreated :: "string list"
  GroupsModified :: "string list"
  GroupsRemoved :: "string list"
  Errors :: "error list"

text \<open>
  The bodies of the three \<open>for\<close> loops of \<open>SyncConfiguration\<close>, each taking the result so far
  and the world and giving them back; \<open>continue\<close> is the early exit of a body.
\<close>

definition syncGroup :: "'db driver \<Rightarrow> Manager \<Rightarrow> GroupConfig \<Rightarrow> SyncResult \<times> 'db world \<Rightarrow> SyncResult \<times> 'db world" where
  "syncGroup drv m grp = (\<lambda>(result, w).
     (let (r, w) = CreateGroup drv m grp w
      in case r of
           Some e \<Rightarrow>
             (result\<lparr>Errors := Errors result @ [Wrap (''failed to create group '' @ Name grp @ '': '') e]\<rparr>, w)
         | None \<Rightarrow>
             (let result = result\<lparr>GroupsCreated := GroupsCreated result @ [Name grp]\<rparr>;
                  (r, w) = GrantPrivileges drv m (Name grp) (GPrivileges grp) (GDatabases grp) w
              in case r of
                   Some e \<Rightarrow>
                     (result\<lparr>Errors := Errors result @
                        [Wrap (''failed to grant privileges to group '' @ Name grp @ '': '') e]\<rparr>, w)
                 | None \<Rightarrow> (result, w))))"

definition syncMembership :: "'db driver \<Rightarrow> Manager \<Rightarrow> UserConfig \<Rightarrow> string \<Rightarrow> SyncResult \<times> 'db world \<Rightarrow> SyncResult \<times> 'db world" where
  "syncMembership drv m user groupName = (\<lambda>(result, w).
     (let (r, w) = AddUserToGroup drv m (Username user) groupName w
      in case r of
           Some e \<Rightarrow>
             (result\<lparr>Errors := Errors result @
                [Wrap (''failed to add user '' @ Username user @ '' to group '' @ groupName @ '': '') e]\<rparr>, w)
         | None \<Rightarrow> (result, w)))"

definition syncUser :: "'db driver \<Rightarrow> Manager \<Rightarrow> UserConfig \<Rightarrow> SyncResult \<times> 'db world \<Rightarrow> SyncResult \<times> 'db world" where
  "syncUser drv m user = (\<lambda>(result, w).
     if \<not> Enabled user
     then (result, logf Info ''User is disabled, skipping'' [(''username'', Str (Username user))] w)
     else
       (let (r, w) = CreateUser drv m user w
        in case r of
             Some e \<Rightarrow>
               (result\<lparr>Errors := Errors result @ [Wrap (''failed to create user '' @ Username user @ '': '') e]\<rparr>, w)
           | None \<Rightarrow>
               (let result = result\<lparr>UsersCreated := UsersCreated result @ [Username user]\<rparr>;
                    (result, w) = fold (syncMembership drv m user) (Groups user) (result, w);
                    (r, w) = GrantPrivileges drv m (Username user) (Privileges user) (Databases user) w
                in case r of
                     Some e \<Rightarrow>
                       (result\<lparr>Errors := Errors result @
                          [Wrap (''failed to grant privileges to user '' @ Username user @ '': '') e]\<rparr>, w)
                   | None \<Rightarrow> (result, w))))"

definition SyncConfiguration :: "'db driver \<Rightarrow> Manager \<Rightarrow> Config \<Rightarrow> 'db world \<Rightarrow> (SyncResult \<times> error option) \<times> 'db world" where
  "SyncConfiguration drv m config w =
     (let w = logf Info ''Starting configuration synchronization'' [] w;
          result = \<lparr>UsersCreated = [], UsersModified = [], UsersRemoved = [], GroupsCreated = [],
                     GroupsModified = [], GroupsRemoved = [], Errors = []\<rparr>;
          (result, w) = fold (syncGroup drv m) (CGroups config) (result, w);
          (result, w) = fold (syncUser drv m) (Users config) (result, w);
          w = logf Info ''Configuration synchronization completed''
                [(''users_created'', Num (length (UsersCreated result))),
                 (''groups_created'', Num (length (GroupsCreated result))),
                 (''errors'', Num (length (Errors result)))] w
      in ((result, None), w))"

section \<open>Connection establishment\<close>

text \<open>
  \<open>NewManager\<close> of package \<open>database\<close>.  \<open>sql.Open\<close> and \<open>db.Ping\<close> are calls on the driver
  and are recorded as events with the data source name they were given.
\<close>

definition NewManager :: "'db driver \<Rightarrow> DatabaseConnection \<Rightarrow> bool \<Rightarrow> 'db world \<Rightarrow> Manager result \<times> 'db world" where
  "NewManager drv conn dry w =
     (let (connStr, w) =
            (if IAMAuth conn
             then
               (let w = logf Info ''Setting up database connection with IAM authentication'' [] w;
                    password = IAMToken conn;
                    (password, w) =
                      (if password = []
                       then (''PLACEHOLDER_IAM_TOKEN'',
                             logf Warn ''IAM token not provided - in production this would be generated using AWS SDK'' [] w)
                       else (password, w))
                in (''host='' @ Host conn @ '' port='' @ fmt_d (Port conn) @ '' user='' @ ConnUsername conn @
                    '' password='' @ password @ '' dbname='' @ Database conn @ '' sslmode='' @ SSLMode conn, w))
             else
               (let w = logf Info ''Setting up database connection with password authentication'' [] w
                in (''host='' @ Host conn @ '' port='' @ fmt_d (Port conn) @ '' user='' @ ConnUsername conn @
                    '' password='' @ ConnPassword conn @ '' dbname='' @ Database conn @ '' sslmode='' @ SSLMode conn, w)));
          r = drv_open drv connStr;
          w = w\<lparr>events := events w @ [Open connStr r]\<rparr>
      in case r of
           Some e \<Rightarrow> (Failed (Wrap ''failed to open database connection: '' e), w)
         | None \<Rightarrow>
             if \<not> dry
             then
               (let p = drv_ping drv (dbstate w) connStr;
                    w = w\<lparr>events := events w @ [Ping p]\<rparr>
                in case p of
                     Some e \<Rightarrow> (Failed (Wrap ''failed to ping database: '' e), w)
                   | None \<Rightarrow>
                       (Ok \<lparr>db = connStr, dryRun = dry\<rparr>,
                        logf Info ''Database connection established successfully'' [] w))
             else
               (Ok \<lparr>db = connStr, dryRun = dry\<rparr>,
                logf Info ''Database connection configured (skipping ping in dry-run mode)'' [] w))"

text \<open>
  \<open>strconv.Atoi\<close>: an optional sign, then one or more decimal digits and nothing else; the
  value must fit Go's 64-bit \<open>int\<close>.
\<close>

definition is_digit :: "char \<Rightarrow> bool" where
  "is_digit c = (48 \<le> (of_char c :: nat) \<and> (of_char c :: nat) \<le> 57)"

definition digits_value :: "string \<Rightarrow> nat" where
  "digits_value ds = foldl (\<lambda>a c. 10 * a + ((of_char c :: nat) - 48)) 0 ds"

definition Atoi :: "string \<Rightarrow> int option" where
  "Atoi s =
     (let (neg, ds) =
            (case s of
               [] \<Rightarrow> (False, [])
             | c # cs \<Rightarrow> if c = CHR ''-'' then (True, cs) else if c = CHR ''+'' then (False, cs) else (False, s))
      in if ds = [] \<or> \<not> list_all is_digit ds then None
         else
           (let v = (if neg then - int (digits_value ds) else int (digits_value ds))
            in if - (2 ^ 63) \<le> v \<and> v < 2 ^ 63 then Some v else None))"

text \<open>
  \<open>GetDatabaseConnection\<close> of package \<open>config\<close> reads the process environment and nothing
  else; \<open>env\<close> is \<open>os.Getenv\<close>, which gives the empty string for a variable that is not set.
  The log lines of this function are left out.
\<close>

definition getEnvOrDefault :: "(string \<Rightarrow> string) \<Rightarrow> string \<Rightarrow> string \<Rightarrow> string" where
  "getEnvOrDefault env key defaultValue = (if env key \<noteq> [] then env key else defaultValue)"

definition GetDatabaseConnection :: "(string \<Rightarrow> string) \<Rightarrow> DatabaseConnection result" where
  "GetDatabaseConnection env =
     (let conn = \<lparr>Host = getEnvOrDefault env ''POSTGRES_HOST'' ''localhost'',
                   Port = 0,
                   Database = getEnvOrDefault env ''POSTGRES_DB'' ''postgres'',
                   ConnUsername = getEnvOrDefault env ''POSTGRES_USER'' ''postgres'',
                   ConnPassword = env ''POSTGRES_PASSWORD'',
                   SSLMode = getEnvOrDefault env ''POSTGRES_SSLMODE'' ''require'',
                   IAMAuth = (getEnvOrDefault env ''POSTGRES_IAM_AUTH'' ''false'' = ''true''),
                   AWSRegion = getEnvOrDefault env ''AWS_REGION'' ''us-east-1'',
                   IAMToken = []\<rparr>;
          portStr = getEnvOrDefault env ''POSTGRES_PORT'' ''5432''
      in case Atoi portStr of
           None \<Rightarrow> Failed (Err (''invalid POSTGRES_PORT: '' @ portStr))
         | Some port \<Rightarrow>
             (let conn = conn\<lparr>Port := port\<rparr>
              in if IAMAuth conn
                 then
                   (if AWSRegion conn = []
                    then Failed (Err ''AWS_REGION environment variable is required for IAM authentication'')
                    else
                      (let conn = (if SSLMode conn = ''disable'' then conn\<lparr>SSLMode := ''require''\<rparr> else conn);
                           conn = conn\<lparr>IAMToken := env ''POSTGRES_IAM_TOKEN''\<rparr>
                       in Ok conn))
                 else
                   (if ConnPassword conn = []
                    then Failed (Err ''POSTGRES_PASSWORD environment variable is required for password authentication'')
                    else Ok conn)))"

section \<open>Commands (package cmd)\<close>

text \<open>
  The four commands that reach the database.  Each reads the connection parameters from
  the environment, returns at once when that fails, and only then hands them to
  \<open>NewManager\<close>.  The logger of the commands is the one the managers log to.  \<open>dry\<close> is the
  global \<open>--dry-run\<close> flag, \<open>loaded\<close> is what \<open>LoadConfig(configPath)\<close> returned, and
  \<open>flags\<close> are the flags of \<open>create-user\<close>.  The deferred \<open>Close\<close> of the handle and the line
  that \<open>list-users\<close> prints on standard output are left out.
\<close>

record CreateUserFlags =
  flag_password :: string
  flag_groups :: "string list"
  flag_privileges :: "string list"
  flag_databases :: "string list"
  flag_auth_method :: string
  flag_iam_role :: string
  flag_can_login :: bool
  flag_connection_limit :: int
  flag_description :: string

definition runSync :: "'db driver \<Rightarrow> (string \<Rightarrow> string) \<Rightarrow> bool \<Rightarrow> Config result \<Rightarrow> 'db world \<Rightarrow> error option \<times> 'db world" where
  "runSync drv env dry loaded w =
     (let w = logf Info ''Starting sync operation'' [] w
      in case loaded of
           Failed e \<Rightarrow> (Some (Wrap ''failed to load configuration: '' e), w)
         | Ok cfg \<Rightarrow>
             (case GetDatabaseConnection env of
                Failed e \<Rightarrow> (Some (Wrap ''failed to get database connection: '' e), w)
              | Ok dbConn \<Rightarrow>
                  (let (r, w) = NewManager drv dbConn dry w
                   in case r of
                        Failed e \<Rightarrow> (Some (Wrap ''failed to initialize database manager: '' e), w)
                      | Ok dbManager \<Rightarrow>
                          (let ((result, err), w) = SyncConfiguration drv dbManager cfg w
                           in case err of
                                Some e \<Rightarrow> (Some (Wrap ''sync failed: '' e), w)
                              | None \<Rightarrow>
                                  (let w = logf Info ''Sync completed''
                                             [(''users_created'', Num (length (UsersCreated result))),
                                              (''users_modified'', Num (length (UsersModified result))),
                                              (''users_removed'', Num (length (UsersRemoved result))),
                                              (''groups_created'', Num (length (GroupsCreated result))),
                                              (''errors'', Num (length (Errors result)))] w;
                                       w = fold (\<lambda>err w. logf ErrorLevel (Error err) [] w) (Errors result) w
                                   in if length (Errors result) > 0
                                      then (Some (Err (''sync completed with '' @
                                                       fmt_d (int (length (Errors result))) @ '' errors'')), w)
                                      else (None, w))))))"

text \<open>The body of the loop over the groups in \<open>runCreateUser\<close>: a failure is logged, not returned.\<close>

definition warnGroup :: "'db driver \<Rightarrow> Manager \<Rightarrow> string \<Rightarrow> string \<Rightarrow> 'db world \<Rightarrow> 'db world" where
  "warnGroup drv dbManager username grp w =
     (let (r, w) = AddUserToGroup drv dbManager username grp w
      in case r of
           Some err \<Rightarrow> logf Warn (''Failed to add user to group '' @ grp) [(''error'', Str (Error err))] w
         | None \<Rightarrow> w)"

definition runCreateUser :: "'db driver \<Rightarrow> (string \<Rightarrow> string) \<Rightarrow> bool \<Rightarrow> string \<Rightarrow> CreateUserFlags \<Rightarrow> 'db world \<Rightarrow> error option \<times> 'db world" where
  "runCreateUser drv env dry username flags w =
     (let w = logf Info ''Creating user''
                [(''username'', Str username), (''auth_method'', Str (flag_auth_method flags))] w
      in if flag_auth_method flags \<noteq> ''password'' \<and> flag_auth_method flags \<noteq> ''iam''
         then (Some (Err (''invalid auth-method: '' @ flag_auth_method flags @
                          '' (must be '' @ [squote] @ ''password'' @ [squote] @ '' or '' @
                          [squote] @ ''iam'' @ [squote] @ '')'')), w)
         else
           (let w = (if flag_auth_method flags = ''iam''
                     then (if flag_password flags \<noteq> []
                           then logf Warn ''Password specified for IAM authentication user - password will be ignored'' [] w
                           else w)
                     else (if flag_iam_role flags \<noteq> []
                           then logf Warn ''IAM role specified for password authentication user - IAM role will be ignored'' [] w
                           else w))
            in case GetDatabaseConnection env of
                 Failed e \<Rightarrow> (Some (Wrap ''failed to get database connection: '' e), w)
               | Ok dbConn \<Rightarrow>
                   (let (r, w) = NewManager drv dbConn dry w
                    in case r of
                         Failed e \<Rightarrow> (Some (Wrap ''failed to initialize database manager: '' e), w)
                       | Ok dbManager \<Rightarrow>
                           (let userConfig =
                                  \<lparr>Username = username, Password = flag_password flags,
                                   Groups = flag_groups flags, Privileges = flag_privileges flags,
                                   Databases = flag_databases flags, Enabled = True,
                                   Description = flag_description flags, AuthMethod = flag_auth_method flags,
                                   IAMRole = flag_iam_role flags, CanLogin = flag_can_login flags,
                                   ConnectionLimit = flag_connection_limit flags\<rparr>;
                                (r, w) = CreateUser drv dbManager userConfig w
                            in case r of
                                 Some e \<Rightarrow> (Some (Wrap ''failed to create user: '' e), w)
                               | None \<Rightarrow>
                                   (let w = fold (warnGroup drv dbManager username) (flag_groups flags) w;
                                        w = (if length (flag_privileges flags) > 0 \<and> length (flag_databases flags) > 0
                                             then (let (r, w) = GrantPrivileges drv dbManager username
                                                                  (flag_privileges flags) (flag_databases flags) w
                                                   in case r of
                                                        Some err \<Rightarrow> logf Warn ''Failed to grant privileges''
                                                                     [(''error'', Str (Error err))] w
                                                      | None \<Rightarrow> w)
                                             else w)
                                    in (None, logf Info ''User created successfully''
                                                [(''username'', Str username),
                                                 (''auth_method'', Str (flag_auth_method flags))] w))))))"

definition runDropUser :: "'db driver \<Rightarrow> (string \<Rightarrow> string) \<Rightarrow> bool \<Rightarrow> string \<Rightarrow> 'db world \<Rightarrow> error option \<times> 'db world" where
  "runDropUser drv env dry username w =
     (let w = logf Info ''Dropping user'' [(''username'', Str username)] w
      in case GetDatabaseConnection env of
           Failed e \<Rightarrow> (Some (Wrap ''failed to get database connection: '' e), w)
         | Ok dbConn \<Rightarrow>
             (let (r, w) = NewManager drv dbConn dry w
              in case r of
                   Failed e \<Rightarrow> (Some (Wrap ''failed to initialize database manager: '' e), w)
                 | Ok dbManager \<Rightarrow>
                     (let (r, w) = DropUser drv dbManager username w
                      in case r of
                           Some e \<Rightarrow> (Some (Wrap ''failed to drop user: '' e), w)
                         | None \<Rightarrow> (None, logf Info ''User dropped successfully'' [(''username'', Str username)] w))))"

definition runListUsers :: "'db driver \<Rightarrow> (string \<Rightarrow> string) \<Rightarrow> bool \<Rightarrow> 'db world \<Rightarrow> error option \<times> 'db world" where
  "runListUsers drv env dry w =
     (let w = logf Info ''Listing users'' [] w
      in case GetDatabaseConnection env of
           Failed e \<Rightarrow> (Some (Wrap ''failed to get database connection: '' e), w)
         | Ok dbConn \<Rightarrow>
             (let (r, w) = NewManager drv dbConn dry w
              in case r of
                   Failed e \<Rightarrow> (Some (Wrap ''failed to initialize database manager: '' e), w)
                 | Ok dbManager \<Rightarrow> (None, w)))"

section \<open>Reading the event list\<close>

text \<open>
  The statements sent with \<open>Exec\<close> (with the server's answers), the names sent as query
  parameters to a given query text, and the lines logged in dry-run mode in place of a
  statement.
\<close>

fun execs_of :: "event list \<Rightarrow> (string \<times> error option) list" where
  "execs_of [] = []"
| "execs_of (Exec q r # es) = (q, r) # execs_of es"
| "execs_of (e # es) = execs_of es"

fun reads_of :: "event list \<Rightarrow> (string \<times> string list) list" where
  "reads_of [] = []"
| "reads_of (QueryRow q args # es) = (q, args) # reads_of es"
| "reads_of (Query q args # es) = (q, args) # reads_of es"
| "reads_of (e # es) = reads_of es"

fun would_execute :: "event list \<Rightarrow> string list" where
  "would_execute [] = []"
| "would_execute (Log lvl msg flds # es) =
     (if msg = ''DRY RUN: Would execute query''
      then (case flds of [(k, Str q)] \<Rightarrow> q # would_execute es | _ \<Rightarrow> would_execute es)
      else would_execute es)"
| "would_execute (e # es) = would_execute es"

text \<open>The calls made on the driver: every event that is not a log line.\<close>

fun driver_calls :: "event list \<Rightarrow> event list" where
  "driver_calls [] = []"
| "driver_calls (Log lvl msg flds # es) = driver_calls es"
| "driver_calls (e # es) = e # driver_calls es"

text \<open>The events of a call: those added to the world between its start and its end.\<close>

definition since :: "'db world \<Rightarrow> 'db world \<Rightarrow> event list" where
  "since w w' = drop (length (events w)) (events w')"

text \<open>
  Sending a list of statements one after the other and stopping after the first one the
  server rejects: the statements sent with their answers, and the state of the server at
  the end.
\<close>

fun exec_seq :: "'db driver \<Rightarrow> string list \<Rightarrow> 'db \<Rightarrow> (string \<times> error option) list \<times> 'db" where
  "exec_seq drv [] s = ([], s)"
| "exec_seq drv (q # qs) s =
     (case drv_exec drv s q of
        (Some e, s') \<Rightarrow> ([(q, Some e)], s')
      | (None, s') \<Rightarrow> (let (xs, s'') = exec_seq drv qs s' in ((q, None) # xs, s'')))"

section \<open>A small server for running the operations on concrete inputs\<close>

text \<open>
  The state of this server is the list of statements it has accepted.  It rejects the
  statements listed in \<open>rejected\<close>; a role is in the catalogs once a \<open>CREATE USER\<close> or
  \<open>CREATE ROLE\<close> statement for its quoted name has been accepted.
\<close>

definition creates :: "string \<Rightarrow> string \<Rightarrow> bool" where
  "creates name stmt =
     (prefix (''CREATE USER '' @ quoteIdentifier name) stmt \<or> prefix (''CREATE ROLE '' @ quoteIdentifier name) stmt)"

definition toy :: "string list \<Rightarrow> (string list) driver" where
  "toy rejected =
     \<lparr>drv_open = (\<lambda>dsn. None),
      drv_ping = (\<lambda>s dsn. None),
      drv_exec = (\<lambda>s q. if q \<in> set rejected then (Some (Err ''rejected''), s) else (None, s @ [q])),
      drv_queryRow = (\<lambda>s q args. case args of [name] \<Rightarrow> if list_ex (creates name) s then None else Some ErrNoRows
                                      | _ \<Rightarrow> Some (Err ''bad arguments'')),
      drv_query = (\<lambda>s q args. Ok [])\<rparr>"

text \<open>A server whose connection is down: every call on the handle fails.\<close>

definition down :: "(string list) driver" where
  "down =
     \<lparr>drv_open = (\<lambda>dsn. None),
      drv_ping = (\<lambda>s dsn. Some (Err ''connection refused'')),
      drv_exec = (\<lambda>s q. (Some (Err ''connection refused''), s)),
      drv_queryRow = (\<lambda>s q args. Some (Err ''connection refused'')),
      drv_query = (\<lambda>s q args. Failed (Err ''connection refused''))\<rparr>"

definition w0 :: "(string list) world" where
  "w0 = \<lparr>dbstate = [], events = []\<rparr>"

definition m_real :: Manager where
  "m_real = \<lparr>db = ''host=localhost'', dryRun = False\<rparr>"

definition m_dry :: Manager where
  "m_dry = \<lparr>db = ''host=localhost'', dryRun = True\<rparr>"

definition alice :: UserConfig where
  "alice =
     \<lparr>Username = ''al'' @ [dquote] @ ''ice'', Password = ''p'' @ [squote] @ ''ss'', Groups = [''app_group''],
      Privileges = [''CONNECT''], Databases = [''app''], Enabled = True, Description = [],
      AuthMethod = ''password'', IAMRole = [], CanLogin = True, ConnectionLimit = 10\<rparr>"

definition app_group :: GroupConfig where
  "app_group =
     \<lparr>Name = ''app_group'', GPrivileges = [''CONNECT''], GDatabases = [''app''], GDescription = [],
      Inherit = True\<rparr>"

text \<open>
  A configuration of two groups and three users, and a server that rejects the creation
  of the first group and of the first user; the third user is disabled.
\<close>

definition bad_group :: GroupConfig where
  "bad_group = \<lparr>Name = ''bad'', GPrivileges = [''CONNECT''], GDatabases = [''app''], GDescription = [], Inherit = True\<rparr>"

definition eve :: UserConfig where
  "eve = \<lparr>Username = ''eve'', Password = ''pw'', Groups = [''app_group''], Privileges = [''CONNECT''],
           Databases = [''app''], Enabled = True, Description = [], AuthMethod = ''password'', IAMRole = [],
           CanLogin = True, ConnectionLimit = 0\<rparr>"

definition carol :: UserConfig where
  "carol = \<lparr>Username = ''carol'', Password = ''pw'', Groups = [''app_group''], Privileges = [''CONNECT''],
           Databases = [''app''], Enabled = False, Description = [], AuthMethod = ''password'', IAMRole = [],
           CanLogin = True, ConnectionLimit = 0\<rparr>"

definition config1 :: Config where
  "config1 = \<lparr>Users = [eve, alice, carol], CGroups = [bad_group, app_group]\<rparr>"

definition picky :: "(string list) driver" where
  "picky = toy [''CREATE ROLE '' @ quoteIdentifier ''bad'' @ '' INHERIT'',
                ''CREATE USER '' @ quoteIdentifier ''eve'' @ '' WITH PASSWORD '' @ [squote] @ ''pw'' @ [squote] @ '' LOGIN'']"

text \<open>
  Two more configurations for the same server: groups only, the last of which is rejected,
  and the two groups with two users, the last of which is rejected.
\<close>

definition config_groups :: Config where
  "config_groups = \<lparr>Users = [], CGroups = [app_group, bad_group]\<rparr>"

definition config_users :: Config where
  "config_users = \<lparr>Users = [alice, eve], CGroups = [bad_group, app_group]\<rparr>"

text \<open>A user whose first group does not exist on the server, which rejects that membership.\<close>

definition dave :: UserConfig where
  "dave = \<lparr>Username = ''dave'', Password = ''pw'', Groups = [''doesNotExist'', ''app_group''],
            Privileges = [''CONNECT''], Databases = [''app''], Enabled = True, Description = [],
            AuthMethod = ''password'', IAMRole = [], CanLogin = True, ConnectionLimit = 0\<rparr>"

definition strict :: "(string list) driver" where
  "strict = toy [''GRANT '' @ quoteIdentifier ''doesNotExist'' @ '' TO '' @ quoteIdentifier ''dave'']"

definition no_result :: SyncResult where
  "no_result = \<lparr>UsersCreated = [], UsersModified = [], UsersRemoved = [], GroupsCreated = [],
                 GroupsModified = [], GroupsRemoved = [], Errors = []\<rparr>"

text \<open>An environment in which neither a password nor the IAM flag is set.\<close>

definition env0 :: "string \<Rightarrow> string" where
  "env0 = (\<lambda>key. if key = ''POSTGRES_HOST'' then ''db.internal'' else [])"

text \<open>A name with both quote characters and a statement separator in it.\<close>

definition obrien :: string where
  "obrien = ''o'' @ [squote] @ ''brien'' @ [dquote] @ ''; DROP USER x; --''"

section \<open>Notions used to state the properties\<close>

text \<open>The texts of the two existence queries.\<close>

definition user_query :: string where
  "user_query = ''SELECT 1 FROM pg_user WHERE usename = $1''"

definition role_query :: string where
  "role_query = ''SELECT 1 FROM pg_roles WHERE rolname = $1''"

text \<open>A call only adds events: the event list before it is an initial segment of the one after.\<close>

definition extends :: "'db world \<Rightarrow> 'db world \<Rightarrow> bool" where
  "extends w w' = prefix (events w) (events w')"

text \<open>
  The (database, privilege) pairs in the order of the two nested loops, databases outside,
  and for each pair the statement text and the message of the error returned for it.
\<close>

definition pairs :: "string list \<Rightarrow> string list \<Rightarrow> (string \<times> string) list" where
  "pairs databases privileges = concat (map (\<lambda>dbname. map (\<lambda>priv. (dbname, priv)) privileges) databases)"

definition grant_stmt :: "string \<Rightarrow> string \<times> string \<Rightarrow> string" where
  "grant_stmt target = (\<lambda>(dbname, priv).
     ''GRANT '' @ priv @ '' ON DATABASE '' @ quoteIdentifier dbname @ '' TO '' @ quoteIdentifier target)"

definition grant_msg :: "string \<Rightarrow> string \<times> string \<Rightarrow> string" where
  "grant_msg target = (\<lambda>(dbname, priv).
     ''failed to grant '' @ priv @ '' on '' @ dbname @ '' to '' @ target @ '': '')"

definition revoke_stmt :: "string \<Rightarrow> string \<times> string \<Rightarrow> string" where
  "revoke_stmt target = (\<lambda>(dbname, priv).
     ''REVOKE '' @ priv @ '' ON DATABASE '' @ quoteIdentifier dbname @ '' FROM '' @ quoteIdentifier target)"

definition revoke_msg :: "string \<Rightarrow> string \<times> string \<Rightarrow> string" where
  "revoke_msg target = (\<lambda>(dbname, priv).
     ''failed to revoke '' @ priv @ '' on '' @ dbname @ '' from '' @ target @ '': '')"

text \<open>
  The texts of the other statements the mutator builds, and the messages of the errors of
  the two membership operations.
\<close>

definition create_user_stmt :: "UserConfig \<Rightarrow> string" where
  "create_user_stmt user =
     ''CREATE USER '' @ quoteIdentifier (Username user)
     @ (if AuthMethod user = ''iam'' then []
        else if Password user = [] then []
        else '' WITH PASSWORD '' @ [squote] @ escapeString (Password user) @ [squote])
     @ (if CanLogin user then '' LOGIN'' else '' NOLOGIN'')
     @ (if ConnectionLimit user = 0 then []
        else if ConnectionLimit user = - 1 then '' CONNECTION LIMIT -1''
        else '' CONNECTION LIMIT '' @ fmt_d (ConnectionLimit user))"

definition rds_iam_stmt :: "string \<Rightarrow> string" where
  "rds_iam_stmt username = ''GRANT rds_iam TO '' @ quoteIdentifier username"

definition drop_user_stmt :: "string \<Rightarrow> string" where
  "drop_user_stmt username = ''DROP USER '' @ quoteIdentifier username"

definition create_role_stmt :: "GroupConfig \<Rightarrow> string" where
  "create_role_stmt grp =
     ''CREATE ROLE '' @ quoteIdentifier (Name grp) @ (if Inherit grp then '' INHERIT'' else '' NOINHERIT'')"

definition member_stmt :: "string \<Rightarrow> string \<Rightarrow> string" where
  "member_stmt username groupName = ''GRANT '' @ quoteIdentifier groupName @ '' TO '' @ quoteIdentifier username"

definition member_msg :: "string \<Rightarrow> string \<Rightarrow> string" where
  "member_msg username groupName = ''failed to add user '' @ username @ '' to group '' @ groupName @ '': ''"

definition unmember_stmt :: "string \<Rightarrow> string \<Rightarrow> string" where
  "unmember_stmt username groupName = ''REVOKE '' @ quoteIdentifier groupName @ '' FROM '' @ quoteIdentifier username"

definition unmember_msg :: "string \<Rightarrow> string \<Rightarrow> string" where
  "unmember_msg username groupName = ''failed to remove user '' @ username @ '' from group '' @ groupName @ '': ''"

text \<open>
  The errors that \<open>SyncConfiguration\<close> records for the memberships of one user, read off
  the statements sent for the user's groups: one error for each rejected statement, the
  server's error wrapped by \<open>AddUserToGroup\<close> and wrapped once more by the membership loop.
\<close>

fun membership_errors :: "string \<Rightarrow> string list \<Rightarrow> (string \<times> error option) list \<Rightarrow> error list" where
  "membership_errors username (g # gs) ((q, r) # xs) =
     (case r of
        None \<Rightarrow> membership_errors username gs xs
      | Some e \<Rightarrow> Wrap (member_msg username g) (Wrap (member_msg username g) e) # membership_errors username gs xs)"
| "membership_errors username gs xs = []"

text \<open>
  The common shape of the four privilege loops: one statement per item, logged instead of
  sent in dry-run mode, and the first rejection returned at once.
\<close>

fun pair_loop :: "'db driver \<Rightarrow> bool \<Rightarrow> ('a \<Rightarrow> string) \<Rightarrow> ('a \<Rightarrow> string) \<Rightarrow> 'a list \<Rightarrow> 'db world \<Rightarrow> error option \<times> 'db world" where
  "pair_loop drv dry stmt msg [] w = (None, w)"
| "pair_loop drv dry stmt msg (p # ps) w =
     (if dry
      then pair_loop drv dry stmt msg ps (logf Info ''DRY RUN: Would execute query'' [(''query'', Str (stmt p))] w)
      else
        (let (r, w) = dbExec drv (stmt p) w
         in case r of
              Some e \<Rightarrow> (Some (Wrap (msg p) e), w)
            | None \<Rightarrow> pair_loop drv dry stmt msg ps w))"

text \<open>
  A list of sent statements \<open>xs\<close> stops at the first failure among \<open>qs\<close>: it is an initial
  segment of \<open>qs\<close>, only its last statement can have been rejected, and it is all of \<open>qs\<close>
  unless its last statement was rejected.
\<close>

definition stops_at_first_failure :: "string list \<Rightarrow> (string \<times> error option) list \<Rightarrow> bool" where
  "stops_at_first_failure qs xs =
     (map fst xs = take (length xs) qs \<and>
      list_all (\<lambda>x. snd x = None) (butlast xs) \<and>
      (if xs = [] \<or> snd (last xs) = None then length xs = length qs else True))"

text \<open>
  The error a privilege call returns for the statements it sent: none if the last one was
  accepted, otherwise the server's error wrapped in the message of the pair it was sent for.
\<close>

definition first_failure :: "('a \<Rightarrow> string) \<Rightarrow> 'a list \<Rightarrow> (string \<times> error option) list \<Rightarrow> error option" where
  "first_failure msg ps xs =
     (if xs = [] then None
      else case snd (last xs) of None \<Rightarrow> None | Some e \<Rightarrow> Some (Wrap (msg (ps ! (length xs - 1))) e))"

text \<open>
  Attempting the membership of a user in every group of a list, one after the other
  whatever the outcome of the earlier ones, and collecting one error, prefixed with the
  user and the group, for each attempt that failed.
\<close>

fun add_all :: "'db driver \<Rightarrow> Manager \<Rightarrow> string \<Rightarrow> string list \<Rightarrow> 'db world \<Rightarrow> error list \<times> 'db world" where
  "add_all drv m username [] w = ([], w)"
| "add_all drv m username (groupName # groupNames) w =
     (let (r, w) = AddUserToGroup drv m username groupName w;
          (errs, w) = add_all drv m username groupNames w
      in (case r of
            None \<Rightarrow> errs
          | Some e \<Rightarrow> Wrap (''failed to add user '' @ username @ '' to group '' @ groupName @ '': '') e # errs,
          w))"

text \<open>
  Two runs of a step, started in the worlds \<open>w1\<close> and \<open>w2\<close>, are alike when they return the
  same value, leave the server in the same state and add the same events.
\<close>

definition alike :: "'db world \<Rightarrow> 'a \<times> 'db world \<Rightarrow> 'db world \<Rightarrow> 'a \<times> 'db world \<Rightarrow> bool" where
  "alike w1 x1 w2 x2 =
     (fst x1 = fst x2 \<and> dbstate (snd x1) = dbstate (snd x2) \<and> since w1 (snd x1) = since w2 (snd x2))"

text \<open>The result and the world of \<open>SyncConfiguration\<close> before its last log line.\<close>

definition sync_core :: "'db driver \<Rightarrow> Manager \<Rightarrow> Config \<Rightarrow> 'db world \<Rightarrow> SyncResult \<times> 'db world" where
  "sync_core drv m config w =
     fold (syncUser drv m) (Users config)
       (fold (syncGroup drv m) (CGroups config)
          (no_result, logf Info ''Starting configuration synchronization'' [] w))"

text \<open>
  The statements of a call: the texts it sent with \<open>Exec\<close> or, in dry-run mode, logged in
  their place.
\<close>

definition statements :: "'db world \<Rightarrow> 'db world \<Rightarrow> string set" where
  "statements w w' = set (map fst (execs_of (since w w'))) \<union> set (would_execute (since w w'))"

text \<open>
  How a delimited token is read back from statement text, as SQL reads a quoted identifier
  (delimiter \<open>"\<close>) or a string literal (delimiter \<open>'\<close>, without backslash escapes): the
  token starts with the delimiter, a doubled delimiter inside it stands for one delimiter
  character, and a single delimiter ends it.  The result is the content of the token and
  the text that follows it.
\<close>

fun scan_quoted :: "char \<Rightarrow> string \<Rightarrow> (string \<times> string) option" where
  "scan_quoted d [] = None"
| "scan_quoted d [c] = (if c = d then Some ([], []) else None)"
| "scan_quoted d (c # c' # cs) =
     (if c = d
      then (if c' = d then map_option (\<lambda>(body, rest). (d # body, rest)) (scan_quoted d cs)
            else Some ([], c' # cs))
      else map_option (\<lambda>(body, rest). (c # body, rest)) (scan_quoted d (c' # cs)))"

definition scan_token :: "char \<Rightarrow> string \<Rightarrow> (string \<times> string) option" where
  "scan_token d s = (case s of [] \<Rightarrow> None | c # cs \<Rightarrow> if c = d then scan_quoted d cs else None)"

text \<open>
  The error of \<open>GetDatabaseConnection\<close> when there is no password and IAM authentication
  is off: the one about the password, or the one about the port when the port does not
  parse, which is checked first.
\<close>

definition password_error :: "(string \<Rightarrow> string) \<Rightarrow> error" where
  "password_error env =
     (case Atoi (getEnvOrDefault env ''POSTGRES_PORT'' ''5432'') of
        None \<Rightarrow> Err (''invalid POSTGRES_PORT: '' @ getEnvOrDefault env ''POSTGRES_PORT'' ''5432'')
      | Some port \<Rightarrow> Err ''POSTGRES_PASSWORD environment variable is required for password authentication'')"

section \<open>A server with the two catalogs of PostgreSQL\<close>

text \<open>
  The state of this server is the list of its roles, each with its login attribute.  It
  reads a \<open>CREATE USER\<close> or \<open>CREATE ROLE\<close> statement as PostgreSQL does: the quoted name,
  an optional password literal, and the login attribute, which is on for \<open>CREATE USER\<close>
  unless \<open>NOLOGIN\<close> follows and off for \<open>CREATE ROLE\<close>.  Creating a role whose name is
  taken is an error; every other statement is accepted and changes no role.  The view
  \<open>pg_user\<close> lists only the roles that can log in, \<open>pg_roles\<close> lists all roles.
\<close>

definition parse_create :: "string \<Rightarrow> (string \<times> bool) option" where
  "parse_create q =
     (if prefix ''CREATE USER '' q
      then (case scan_token dquote (drop 12 q) of
              None \<Rightarrow> None
            | Some (name, rest) \<Rightarrow>
                (let rest = (if prefix '' WITH PASSWORD '' rest
                             then (case scan_token squote (drop 15 rest) of
                                     None \<Rightarrow> rest
                                   | Some (password, rest') \<Rightarrow> rest')
                             else rest)
                 in Some (name, \<not> prefix '' NOLOGIN'' rest)))
      else if prefix ''CREATE ROLE '' q
      then (case scan_token dquote (drop 12 q) of
              None \<Rightarrow> None
            | Some (name, rest) \<Rightarrow> Some (name, False))
      else None)"

definition pg :: "((string \<times> bool) list) driver" where
  "pg =
     \<lparr>drv_open = (\<lambda>dsn. None),
      drv_ping = (\<lambda>s dsn. None),
      drv_exec = (\<lambda>s q.
        case parse_create q of
          None \<Rightarrow> (None, s)
        | Some (name, login) \<Rightarrow>
            if name \<in> set (map fst s)
            then (Some (Err (''pq: role '' @ [dquote] @ name @ [dquote] @ '' already exists'')), s)
            else (None, s @ [(name, login)])),
      drv_queryRow = (\<lambda>s q args.
        case args of
          [name] \<Rightarrow>
            if q = ''SELECT 1 FROM pg_user WHERE usename = $1''
            then (if (name, True) \<in> set s then None else Some ErrNoRows)
            else if q = ''SELECT 1 FROM pg_roles WHERE rolname = $1''
            then (if name \<in> set (map fst s) then None else Some ErrNoRows)
            else Some (Err ''pq: syntax error'')
        | _ \<Rightarrow> Some (Err ''pq: bad arguments'')),
      drv_query = (\<lambda>s q args. Ok [])\<rparr>"

definition pg_w0 :: "((string \<times> bool) list) world" where
  "pg_w0 = \<lparr>dbstate = [], events = []\<rparr>"

text \<open>
  The user of the case "Create user with no login" of the repository's \<open>TestCreateUser\<close>,
  and the same user with login.
\<close>

definition nologin_user :: UserConfig where
  "nologin_user =
     \<lparr>Username = ''nologin_user'', Password = ''test_pass'', Groups = [], Privileges = [], Databases = [],
      Enabled = True, Description = [], AuthMethod = ''password'', IAMRole = [], CanLogin = False,
      ConnectionLimit = 0\<rparr>"

definition login_user :: UserConfig where
  "login_user = nologin_user\<lparr>Username := ''test_user'', CanLogin := True\<rparr>"

section \<open>Properties\<close>

subsection \<open>Decimal formatting\<close>

lemma digit_code: "n < 10 \<Longrightarrow> (of_char (digit n) :: nat) = 48 + n"
proof -
  assume "n < 10"
  then have "n \<in> {0, 1, 2, 3, 4, 5, 6, 7, 8, 9}" by auto
  then show ?thesis by (auto simp: digit_def)
qed

lemma digits_all_digit: "list_all is_digit (digits n)"
proof (induction n rule: digits.induct)
  case (1 n)
  show ?case
  proof (cases "n < 10")
    case True
    then show ?thesis by (subst digits.simps) (simp add: is_digit_def digit_code)
  next
    case False
    have "n mod 10 < 10" by simp
    then have "is_digit (digit (n mod 10))" by (simp add: is_digit_def digit_code)
    with 1 False show ?thesis by (subst digits.simps) simp
  qed
qed

lemma digits_value_snoc: "digits_value (ds @ [c]) = 10 * digits_value ds + (of_char c - 48)"
  by (simp add: digits_value_def)

lemma digits_value_digits: "digits_value (digits n) = n"
proof (induction n rule: digits.induct)
  case (1 n)
  show ?case
  proof (cases "n < 10")
    case True
    then show ?thesis by (subst digits.simps) (simp add: digits_value_def digit_code)
  next
    case False
    with 1 show ?thesis by (subst digits.simps) (simp add: digits_value_snoc digit_code)
  qed
qed

subsection \<open>Events and projections of the basic steps\<close>

lemma since_append [simp]: "events w' = events w @ d \<Longrightarrow> since w w' = d"
  by (simp add: since_def)

lemma logf_simps [simp]:
  "events (logf lvl msg flds w) = events w @ [Log lvl msg flds]"
  "dbstate (logf lvl msg flds w) = dbstate w"
  by (simp_all add: logf_def)

lemma dbQueryRow_simps [simp]:
  "fst (dbQueryRow drv q args w) = drv_queryRow drv (dbstate w) q args"
  "events (snd (dbQueryRow drv q args w)) = events w @ [QueryRow q args]"
  "dbstate (snd (dbQueryRow drv q args w)) = dbstate w"
  by (simp_all add: dbQueryRow_def)

lemma dbExec_simps [simp]:
  "fst (dbExec drv q w) = fst (drv_exec drv (dbstate w) q)"
  "events (snd (dbExec drv q w)) = events w @ [Exec q (fst (drv_exec drv (dbstate w) q))]"
  "dbstate (snd (dbExec drv q w)) = snd (drv_exec drv (dbstate w) q)"
  by (simp_all add: dbExec_def split: prod.splits)

lemma UserExists_world [simp]:
  "events (snd (UserExists drv m name w)) = events w @ [QueryRow ''SELECT 1 FROM pg_user WHERE usename = $1'' [name]]"
  "dbstate (snd (UserExists drv m name w)) = dbstate w"
  by (simp_all add: UserExists_def Let_def split: prod.splits) (auto simp: dbQueryRow_def)

lemma UserExists_result:
  "fst (UserExists drv m name w) =
     (case drv_queryRow drv (dbstate w) ''SELECT 1 FROM pg_user WHERE usename = $1'' [name] of
        None \<Rightarrow> (True, None)
      | Some e \<Rightarrow> if e = ErrNoRows then (False, None) else (False, Some e))"
  by (auto simp: UserExists_def Let_def dbQueryRow_def split: prod.splits option.splits)

lemma GroupExists_world [simp]:
  "events (snd (GroupExists drv m name w)) = events w @ [QueryRow ''SELECT 1 FROM pg_roles WHERE rolname = $1'' [name]]"
  "dbstate (snd (GroupExists drv m name w)) = dbstate w"
  by (simp_all add: GroupExists_def Let_def split: prod.splits) (auto simp: dbQueryRow_def)

lemma GroupExists_result:
  "fst (GroupExists drv m name w) =
     (case drv_queryRow drv (dbstate w) ''SELECT 1 FROM pg_roles WHERE rolname = $1'' [name] of
        None \<Rightarrow> (True, None)
      | Some e \<Rightarrow> if e = ErrNoRows then (False, None) else (False, Some e))"
  by (auto simp: GroupExists_def Let_def dbQueryRow_def split: prod.splits option.splits)

lemma GetUserInfo_reads:
  "reads_of (since w (snd (GetUserInfo drv m now name w))) =
     (if fst (UserExists drv m name w) = (True, None)
      then [(''SELECT 1 FROM pg_user WHERE usename = $1'', [name]), (groupQuery, [name])]
      else [(''SELECT 1 FROM pg_user WHERE usename = $1'', [name])])"
  apply (cases "UserExists drv m name w")
  subgoal for r w'
    using UserExists_world [of drv m name w] UserExists_result [of drv m name w]
    by (auto simp: GetUserInfo_def Let_def split: prod.splits option.splits result.splits if_splits)
  done

lemma GetUserInfo_absent:
  "drv_queryRow drv (dbstate w) ''SELECT 1 FROM pg_user WHERE usename = $1'' [name] = Some ErrNoRows \<Longrightarrow>
   fst (GetUserInfo drv m now name w) =
     Ok \<lparr>DUsername = name, DGroups = [], DPrivileges = [], DDatabases = [], Exists = False, LastChecked = now\<rparr>"
  apply (cases "UserExists drv m name w")
  subgoal for r w'
    using UserExists_result [of drv m name w]
    by (auto simp: GetUserInfo_def Let_def split: prod.splits option.splits result.splits if_splits)
  done

lemma GetUserInfo_dbstate:
  "dbstate (snd (GetUserInfo drv m now name w)) = dbstate w"
  apply (cases "UserExists drv m name w")
  subgoal for r w'
    using UserExists_world [of drv m name w]
    by (auto simp: GetUserInfo_def Let_def split: prod.splits option.splits result.splits if_splits)
  done

subsection \<open>Runs of statements and the privilege loops\<close>

lemma exec_seq_Cons:
  "exec_seq drv (q # qs) s =
     (if fst (drv_exec drv s q) = None
      then ((q, None) # fst (exec_seq drv qs (snd (drv_exec drv s q))), snd (exec_seq drv qs (snd (drv_exec drv s q))))
      else ([(q, fst (drv_exec drv s q))], snd (drv_exec drv s q)))"
  by (auto split: prod.splits option.splits)

lemma exec_seq_prefix:
  "map fst (fst (exec_seq drv qs s)) = take (length (fst (exec_seq drv qs s))) qs"
proof (induction qs arbitrary: s)
  case Nil
  show ?case by simp
next
  case (Cons q qs)
  show ?case using Cons [of "snd (drv_exec drv s q)"] by (simp add: exec_seq_Cons del: exec_seq.simps)
qed

lemma exec_seq_butlast:
  "x \<in> set (butlast (fst (exec_seq drv qs s))) \<Longrightarrow> snd x = None"
proof (induction qs arbitrary: s)
  case Nil
  then show ?case by simp
next
  case (Cons q qs)
  show ?case using Cons.prems Cons.IH [of "snd (drv_exec drv s q)"]
    by (auto simp: exec_seq_Cons simp del: exec_seq.simps split: if_splits)
qed

lemma exec_seq_all_sent:
  "fst (exec_seq drv qs s) = [] \<or> snd (last (fst (exec_seq drv qs s))) = None \<Longrightarrow>
   length (fst (exec_seq drv qs s)) = length qs"
proof (induction qs arbitrary: s)
  case Nil
  then show ?case by simp
next
  case (Cons q qs)
  show ?case using Cons.prems Cons.IH [of "snd (drv_exec drv s q)"]
    by (auto simp: exec_seq_Cons simp del: exec_seq.simps split: if_splits)
qed

lemma pair_loop_append:
  "pair_loop drv dry stmt msg (ps @ qs) w =
     (case pair_loop drv dry stmt msg ps w of
        (Some e, w') \<Rightarrow> (Some e, w')
      | (None, w') \<Rightarrow> pair_loop drv dry stmt msg qs w')"
  by (induction ps arbitrary: w) (auto split: prod.splits option.splits)

lemma grantPrivs_pair_loop:
  "grantPrivs drv m target dbname privs w =
     pair_loop drv (dryRun m) (grant_stmt target) (grant_msg target) (map (Pair dbname) privs) w"
  by (induction privs arbitrary: w) (auto simp: grant_stmt_def grant_msg_def Let_def split: prod.splits option.splits)

lemma grantDbs_pair_loop:
  "grantDbs drv m target privs dbs w =
     pair_loop drv (dryRun m) (grant_stmt target) (grant_msg target) (List.product dbs privs) w"
  by (induction dbs arbitrary: w)
     (auto simp: pair_loop_append grantPrivs_pair_loop split: prod.splits option.splits)

lemma pair_loop_dry:
  "pair_loop drv True stmt msg ps w =
     (None, w\<lparr>events := events w @ map (\<lambda>p. Log Info ''DRY RUN: Would execute query'' [(''query'', Str (stmt p))]) ps\<rparr>)"
  by (induction ps arbitrary: w) (auto simp: logf_def)

lemma pair_loop_real_events:
  "events (snd (pair_loop drv False stmt msg ps w)) =
     events w @ map (\<lambda>x. Exec (fst x) (snd x)) (fst (exec_seq drv (map stmt ps) (dbstate w)))"
  by (induction ps arbitrary: w) (auto simp: dbExec_def Let_def split: prod.splits option.splits)

lemma pair_loop_real_dbstate:
  "dbstate (snd (pair_loop drv False stmt msg ps w)) = snd (exec_seq drv (map stmt ps) (dbstate w))"
  by (induction ps arbitrary: w) (auto simp: dbExec_def Let_def split: prod.splits option.splits)

lemma pair_loop_real_result:
  "fst (pair_loop drv False stmt msg ps w) =
     (let xs = fst (exec_seq drv (map stmt ps) (dbstate w))
      in if xs = [] then None
         else case snd (last xs) of None \<Rightarrow> None | Some e \<Rightarrow> Some (Wrap (msg (ps ! (length xs - 1))) e))"
  by (induction ps arbitrary: w) (auto simp: dbExec_def Let_def split: prod.splits option.splits)

lemma execs_of_append [simp]: "execs_of (xs @ ys) = execs_of xs @ execs_of ys"
  by (induction xs rule: execs_of.induct) auto

lemma reads_of_append [simp]: "reads_of (xs @ ys) = reads_of xs @ reads_of ys"
  by (induction xs rule: reads_of.induct) auto

lemma would_execute_append [simp]: "would_execute (xs @ ys) = would_execute xs @ would_execute ys"
  by (induction xs rule: would_execute.induct) (auto split: list.splits fieldval.splits prod.splits)

lemma execs_of_Exec [simp]: "execs_of (map (\<lambda>x. Exec (fst x) (snd x)) xs) = xs"
  by (induction xs) auto

lemma reads_of_Exec [simp]: "reads_of (map (\<lambda>x. Exec (fst x) (snd x)) xs) = []"
  by (induction xs) auto

lemma would_execute_Exec [simp]: "would_execute (map (\<lambda>x. Exec (fst x) (snd x)) xs) = []"
  by (induction xs) auto

lemma execs_of_dry [simp]:
  "execs_of (map (\<lambda>p. Log Info ''DRY RUN: Would execute query'' [(''query'', Str (stmt p))]) ps) = []"
  by (induction ps) auto

lemma reads_of_dry [simp]:
  "reads_of (map (\<lambda>p. Log Info ''DRY RUN: Would execute query'' [(''query'', Str (stmt p))]) ps) = []"
  by (induction ps) auto

lemma would_execute_dry [simp]:
  "would_execute (map (\<lambda>p. Log Info ''DRY RUN: Would execute query'' [(''query'', Str (stmt p))]) ps) = map stmt ps"
  by (induction ps) auto

lemma revokePrivs_pair_loop:
  "revokePrivs drv m target dbname privs w =
     pair_loop drv (dryRun m) (revoke_stmt target) (revoke_msg target) (map (Pair dbname) privs) w"
  by (induction privs arbitrary: w) (auto simp: revoke_stmt_def revoke_msg_def Let_def split: prod.splits option.splits)

lemma revokeDbs_pair_loop:
  "revokeDbs drv m target privs dbs w =
     pair_loop drv (dryRun m) (revoke_stmt target) (revoke_msg target) (List.product dbs privs) w"
  by (induction dbs arbitrary: w)
     (auto simp: pair_loop_append revokePrivs_pair_loop split: prod.splits option.splits)

lemma pair_loop_events [simp]:
  "events (snd (pair_loop drv dry stmt msg ps w)) = events w @
     (if dry then map (\<lambda>p. Log Info ''DRY RUN: Would execute query'' [(''query'', Str (stmt p))]) ps
      else map (\<lambda>x. Exec (fst x) (snd x)) (fst (exec_seq drv (map stmt ps) (dbstate w))))"
  by (cases dry) (simp_all add: pair_loop_dry pair_loop_real_events)

lemma pair_loop_dbstate [simp]:
  "dbstate (snd (pair_loop drv dry stmt msg ps w)) =
     (if dry then dbstate w else snd (exec_seq drv (map stmt ps) (dbstate w)))"
  by (cases dry) (simp_all add: pair_loop_dry pair_loop_real_dbstate)

lemma pair_loop_result [simp]:
  "fst (pair_loop drv dry stmt msg ps w) =
     (if dry then None else first_failure msg ps (fst (exec_seq drv (map stmt ps) (dbstate w))))"
  by (cases dry) (simp_all add: pair_loop_dry pair_loop_real_result first_failure_def Let_def)

subsection \<open>The operations of the mutator\<close>

lemma extends_refl [simp]: "extends w w" by (simp add: extends_def)

lemma extends_trans: "extends w w1 \<Longrightarrow> extends w1 w2 \<Longrightarrow> extends w w2"
  by (auto simp: extends_def)

lemma extends_events: "extends w w' \<Longrightarrow> events w' = events w @ since w w'"
  by (auto simp: extends_def since_def prefix_def)

lemma since_trans:
  "extends w w1 \<Longrightarrow> extends w1 w2 \<Longrightarrow> since w w2 = since w w1 @ since w1 w2"
  by (auto simp: extends_def since_def prefix_def)

lemma buildCreateUserQuery_events [simp]:
  "events (snd (buildCreateUserQuery m user w)) = events w @
     (if AuthMethod user = ''iam''
      then [Log Info ''Creating user for IAM authentication (no password)'' [(''username'', Str (Username user))]]
      else [])"
  "dbstate (snd (buildCreateUserQuery m user w)) = dbstate w"
  by (simp_all add: buildCreateUserQuery_def Let_def split_def)

lemma grantRDSIAMRole_events [simp]:
  "events (snd (grantRDSIAMRole drv m name w)) = events w @
     Log Info ''Granting rds_iam role for IAM authentication'' [(''username'', Str name)] #
     (if dryRun m then [Log Info ''DRY RUN: Would execute query'' [(''query'', Str (''GRANT rds_iam TO '' @ quoteIdentifier name))]]
      else Exec (''GRANT rds_iam TO '' @ quoteIdentifier name) (fst (drv_exec drv (dbstate w) (''GRANT rds_iam TO '' @ quoteIdentifier name))) #
           (if fst (drv_exec drv (dbstate w) (''GRANT rds_iam TO '' @ quoteIdentifier name)) = None
            then [Log Info ''Successfully granted rds_iam role'' [(''username'', Str name)]] else []))"
  by (simp add: grantRDSIAMRole_def Let_def split_def split: option.splits)

lemmas unfold_op = Let_def split_def since_def extends_def user_query_def role_query_def

lemma CreateUser_extends: "extends w (snd (CreateUser drv m user w))"
  by (simp add: CreateUser_def unfold_op split: option.splits)

lemma CreateUser_reads:
  "reads_of (since w (snd (CreateUser drv m user w))) = [(user_query, [Username user])]"
  by (simp add: CreateUser_def unfold_op split: option.splits)

lemma CreateUser_dry:
  "dryRun m \<Longrightarrow> execs_of (since w (snd (CreateUser drv m user w))) = [] \<and> dbstate (snd (CreateUser drv m user w)) = dbstate w"
  by (simp add: CreateUser_def unfold_op split: option.splits)

lemma CreateUser_dry_result:
  "dryRun m \<Longrightarrow> fst (CreateUser drv m user w) =
     (case drv_queryRow drv (dbstate w) user_query [Username user] of
        None \<Rightarrow> None
      | Some e \<Rightarrow> if e = ErrNoRows then None else Some (Wrap ''failed to check if user exists: '' e))"
  by (simp add: CreateUser_def UserExists_result unfold_op split: option.splits)

lemma DropUser_extends: "extends w (snd (DropUser drv m name w))"
  by (simp add: DropUser_def unfold_op split: option.splits)

lemma DropUser_reads:
  "reads_of (since w (snd (DropUser drv m name w))) = [(user_query, [name])]"
  by (simp add: DropUser_def unfold_op split: option.splits)

lemma DropUser_dry:
  "dryRun m \<Longrightarrow> execs_of (since w (snd (DropUser drv m name w))) = [] \<and> dbstate (snd (DropUser drv m name w)) = dbstate w"
  by (simp add: DropUser_def unfold_op split: option.splits)

lemma DropUser_dry_result:
  "dryRun m \<Longrightarrow> fst (DropUser drv m name w) =
     (case drv_queryRow drv (dbstate w) user_query [name] of
        None \<Rightarrow> None
      | Some e \<Rightarrow> if e = ErrNoRows then None else Some (Wrap ''failed to check if user exists: '' e))"
  by (simp add: DropUser_def UserExists_result unfold_op split: option.splits)

lemma CreateGroup_extends: "extends w (snd (CreateGroup drv m grp w))"
  by (simp add: CreateGroup_def unfold_op split: option.splits)

lemma CreateGroup_reads:
  "reads_of (since w (snd (CreateGroup drv m grp w))) = [(role_query, [Name grp])]"
  by (simp add: CreateGroup_def unfold_op split: option.splits)

lemma CreateGroup_dry:
  "dryRun m \<Longrightarrow> execs_of (since w (snd (CreateGroup drv m grp w))) = [] \<and> dbstate (snd (CreateGroup drv m grp w)) = dbstate w"
  by (simp add: CreateGroup_def unfold_op split: option.splits)

lemma CreateGroup_dry_result:
  "dryRun m \<Longrightarrow> fst (CreateGroup drv m grp w) =
     (case drv_queryRow drv (dbstate w) role_query [Name grp] of
        None \<Rightarrow> None
      | Some e \<Rightarrow> if e = ErrNoRows then None else Some (Wrap ''failed to check if group exists: '' e))"
  by (simp add: CreateGroup_def GroupExists_result unfold_op split: option.splits)

lemma AddUserToGroup_extends: "extends w (snd (AddUserToGroup drv m u g w))"
  by (simp add: AddUserToGroup_def unfold_op split: option.splits)

lemma AddUserToGroup_reads: "reads_of (since w (snd (AddUserToGroup drv m u g w))) = []"
  by (simp add: AddUserToGroup_def unfold_op split: option.splits)

lemma AddUserToGroup_dry:
  "dryRun m \<Longrightarrow> execs_of (since w (snd (AddUserToGroup drv m u g w))) = [] \<and>
     dbstate (snd (AddUserToGroup drv m u g w)) = dbstate w \<and> fst (AddUserToGroup drv m u g w) = None"
  by (simp add: AddUserToGroup_def unfold_op split: option.splits)

lemma AddUserToGroup_real:
  "\<not> dryRun m \<Longrightarrow>
     execs_of (since w (snd (AddUserToGroup drv m u g w))) =
       [(''GRANT '' @ quoteIdentifier g @ '' TO '' @ quoteIdentifier u,
         fst (drv_exec drv (dbstate w) (''GRANT '' @ quoteIdentifier g @ '' TO '' @ quoteIdentifier u)))] \<and>
     fst (AddUserToGroup drv m u g w) =
       map_option (Wrap (''failed to add user '' @ u @ '' to group '' @ g @ '': ''))
         (fst (drv_exec drv (dbstate w) (''GRANT '' @ quoteIdentifier g @ '' TO '' @ quoteIdentifier u)))"
  by (simp add: AddUserToGroup_def unfold_op split: option.splits)

lemma RemoveUserFromGroup_extends: "extends w (snd (RemoveUserFromGroup drv m u g w))"
  by (simp add: RemoveUserFromGroup_def unfold_op split: option.splits)

lemma RemoveUserFromGroup_reads: "reads_of (since w (snd (RemoveUserFromGroup drv m u g w))) = []"
  by (simp add: RemoveUserFromGroup_def unfold_op split: option.splits)

lemma RemoveUserFromGroup_dry:
  "dryRun m \<Longrightarrow> execs_of (since w (snd (RemoveUserFromGroup drv m u g w))) = [] \<and>
     dbstate (snd (RemoveUserFromGroup drv m u g w)) = dbstate w \<and> fst (RemoveUserFromGroup drv m u g w) = None"
  by (simp add: RemoveUserFromGroup_def unfold_op split: option.splits)

lemma RemoveUserFromGroup_real:
  "\<not> dryRun m \<Longrightarrow>
     execs_of (since w (snd (RemoveUserFromGroup drv m u g w))) =
       [(''REVOKE '' @ quoteIdentifier g @ '' FROM '' @ quoteIdentifier u,
         fst (drv_exec drv (dbstate w) (''REVOKE '' @ quoteIdentifier g @ '' FROM '' @ quoteIdentifier u)))] \<and>
     fst (RemoveUserFromGroup drv m u g w) =
       map_option (Wrap (''failed to remove user '' @ u @ '' from group '' @ g @ '': ''))
         (fst (drv_exec drv (dbstate w) (''REVOKE '' @ quoteIdentifier g @ '' FROM '' @ quoteIdentifier u)))"
  by (simp add: RemoveUserFromGroup_def unfold_op split: option.splits)

lemma GrantPrivileges_extends: "extends w (snd (GrantPrivileges drv m t privs dbs w))"
  by (simp add: GrantPrivileges_def grantDbs_pair_loop unfold_op split: option.splits)

lemma GrantPrivileges_reads: "reads_of (since w (snd (GrantPrivileges drv m t privs dbs w))) = []"
  by (simp add: GrantPrivileges_def grantDbs_pair_loop unfold_op split: option.splits)

lemma GrantPrivileges_dry:
  "dryRun m \<Longrightarrow> execs_of (since w (snd (GrantPrivileges drv m t privs dbs w))) = [] \<and>
     would_execute (since w (snd (GrantPrivileges drv m t privs dbs w))) = map (grant_stmt t) (List.product dbs privs) \<and>
     dbstate (snd (GrantPrivileges drv m t privs dbs w)) = dbstate w \<and>
     fst (GrantPrivileges drv m t privs dbs w) = None"
  by (simp add: GrantPrivileges_def grantDbs_pair_loop unfold_op split: option.splits)

lemma GrantPrivileges_real:
  "\<not> dryRun m \<Longrightarrow>
     execs_of (since w (snd (GrantPrivileges drv m t privs dbs w))) =
       fst (exec_seq drv (map (grant_stmt t) (List.product dbs privs)) (dbstate w)) \<and>
     dbstate (snd (GrantPrivileges drv m t privs dbs w)) =
       snd (exec_seq drv (map (grant_stmt t) (List.product dbs privs)) (dbstate w)) \<and>
     fst (GrantPrivileges drv m t privs dbs w) =
       first_failure (grant_msg t) (List.product dbs privs)
         (fst (exec_seq drv (map (grant_stmt t) (List.product dbs privs)) (dbstate w)))"
  by (simp add: GrantPrivileges_def grantDbs_pair_loop unfold_op split: option.splits)

lemma RevokePrivileges_extends: "extends w (snd (RevokePrivileges drv m t privs dbs w))"
  by (simp add: RevokePrivileges_def revokeDbs_pair_loop unfold_op split: option.splits)

lemma RevokePrivileges_reads: "reads_of (since w (snd (RevokePrivileges drv m t privs dbs w))) = []"
  by (simp add: RevokePrivileges_def revokeDbs_pair_loop unfold_op split: option.splits)

lemma RevokePrivileges_dry:
  "dryRun m \<Longrightarrow> execs_of (since w (snd (RevokePrivileges drv m t privs dbs w))) = [] \<and>
     would_execute (since w (snd (RevokePrivileges drv m t privs dbs w))) = map (revoke_stmt t) (List.product dbs privs) \<and>
     dbstate (snd (RevokePrivileges drv m t privs dbs w)) = dbstate w \<and>
     fst (RevokePrivileges drv m t privs dbs w) = None"
  by (simp add: RevokePrivileges_def revokeDbs_pair_loop unfold_op split: option.splits)

lemma RevokePrivileges_real:
  "\<not> dryRun m \<Longrightarrow>
     execs_of (since w (snd (RevokePrivileges drv m t privs dbs w))) =
       fst (exec_seq drv (map (revoke_stmt t) (List.product dbs privs)) (dbstate w)) \<and>
     dbstate (snd (RevokePrivileges drv m t privs dbs w)) =
       snd (exec_seq drv (map (revoke_stmt t) (List.product dbs privs)) (dbstate w)) \<and>
     fst (RevokePrivileges drv m t privs dbs w) =
       first_failure (revoke_msg t) (List.product dbs privs)
         (fst (exec_seq drv (map (revoke_stmt t) (List.product dbs privs)) (dbstate w)))"
  by (simp add: RevokePrivileges_def revokeDbs_pair_loop unfold_op split: option.splits)

subsection \<open>Helpers for the claims\<close>

lemma pairs_product: "pairs dbs privs = List.product dbs privs"
  by (induction dbs) (simp_all add: pairs_def)

lemma exec_seq_stops: "stops_at_first_failure qs (fst (exec_seq drv qs s))"
  unfolding stops_at_first_failure_def list_all_iff
  using exec_seq_prefix [of drv qs s] exec_seq_butlast [of _ drv qs s] exec_seq_all_sent [of drv qs s]
  by auto

lemma toy_exec [simp]:
  "drv_exec (toy rejected) s q = (if q \<in> set rejected then (Some (Err ''rejected''), s) else (None, s @ [q]))"
  by (simp add: toy_def)

lemma UserExists_reads:
  "reads_of (since w (snd (UserExists drv m name w))) = [(user_query, [name])]"
  "execs_of (since w (snd (UserExists drv m name w))) = []"
  by (simp_all add: unfold_op)

lemma GroupExists_reads:
  "reads_of (since w (snd (GroupExists drv m name w))) = [(role_query, [name])]"
  "execs_of (since w (snd (GroupExists drv m name w))) = []"
  by (simp_all add: unfold_op)

lemma GetUserInfo_execs:
  "execs_of (since w (snd (GetUserInfo drv m now name w))) = []"
  by (simp add: GetUserInfo_def unfold_op split: option.splits result.splits)

lemma toy_queryRow [simp]:
  "drv_queryRow (toy rejected) s q [name] = (if list_ex (creates name) s then None else Some ErrNoRows)"
  by (simp add: toy_def)

subsection \<open>The loops of the orchestrator\<close>

lemma syncMembership_world:
  "snd (syncMembership drv m user g (res, w)) = snd (AddUserToGroup drv m (Username user) g w)"
  by (simp add: syncMembership_def split_def Let_def split: option.splits)

lemma syncMembership_result:
  "fst (syncMembership drv m user g (res, w)) =
     (case fst (AddUserToGroup drv m (Username user) g w) of
        None \<Rightarrow> res
      | Some e \<Rightarrow> res\<lparr>Errors := Errors res @ [Wrap (member_msg (Username user) g) e]\<rparr>)"
  by (simp add: syncMembership_def split_def Let_def member_msg_def split: option.splits)

lemma memberships_extends:
  "extends w (snd (fold (syncMembership drv m user) gs (res, w)))"
proof (induction gs arbitrary: res w)
  case Nil
  show ?case by simp
next
  case (Cons g gs)
  obtain res1 w1 where s: "syncMembership drv m user g (res, w) = (res1, w1)" by force
  have "extends w w1"
    using AddUserToGroup_extends [of w drv m "Username user" g] syncMembership_world [of drv m user g res w] s
    by simp
  moreover have "extends w1 (snd (fold (syncMembership drv m user) gs (res1, w1)))" by (rule Cons.IH)
  ultimately show ?case using s by (simp add: extends_trans)
qed

lemma memberships_reads:
  "reads_of (since w (snd (fold (syncMembership drv m user) gs (res, w)))) = []"
proof (induction gs arbitrary: res w)
  case Nil
  show ?case by simp
next
  case (Cons g gs)
  obtain res1 w1 where s: "syncMembership drv m user g (res, w) = (res1, w1)" by force
  have w1: "w1 = snd (AddUserToGroup drv m (Username user) g w)"
    using syncMembership_world [of drv m user g res w] s by simp
  have "since w (snd (fold (syncMembership drv m user) gs (res1, w1))) =
        since w w1 @ since w1 (snd (fold (syncMembership drv m user) gs (res1, w1)))"
    by (rule since_trans) (simp_all add: w1 AddUserToGroup_extends memberships_extends)
  then show ?case using s Cons.IH [where res = res1 and w = w1] by (simp add: w1 AddUserToGroup_reads)
qed

lemma memberships_dry:
  "dryRun m \<Longrightarrow>
   execs_of (since w (snd (fold (syncMembership drv m user) gs (res, w)))) = [] \<and>
   dbstate (snd (fold (syncMembership drv m user) gs (res, w))) = dbstate w"
proof (induction gs arbitrary: res w)
  case Nil
  show ?case by simp
next
  case (Cons g gs)
  obtain res1 w1 where s: "syncMembership drv m user g (res, w) = (res1, w1)" by force
  have w1: "w1 = snd (AddUserToGroup drv m (Username user) g w)"
    using syncMembership_world [of drv m user g res w] s by simp
  have "since w (snd (fold (syncMembership drv m user) gs (res1, w1))) =
        since w w1 @ since w1 (snd (fold (syncMembership drv m user) gs (res1, w1)))"
    by (rule since_trans) (simp_all add: w1 AddUserToGroup_extends memberships_extends)
  then show ?case using s Cons.IH [where res = res1 and w = w1] Cons.prems by (simp add: w1 AddUserToGroup_dry)
qed

lemma memberships_real:
  "\<not> dryRun m \<Longrightarrow>
   map fst (execs_of (since w (snd (fold (syncMembership drv m user) gs (res, w))))) =
     map (member_stmt (Username user)) gs"
proof (induction gs arbitrary: res w)
  case Nil
  show ?case by simp
next
  case (Cons g gs)
  obtain res1 w1 where s: "syncMembership drv m user g (res, w) = (res1, w1)" by force
  have w1: "w1 = snd (AddUserToGroup drv m (Username user) g w)"
    using syncMembership_world [of drv m user g res w] s by simp
  have "since w (snd (fold (syncMembership drv m user) gs (res1, w1))) =
        since w w1 @ since w1 (snd (fold (syncMembership drv m user) gs (res1, w1)))"
    by (rule since_trans) (simp_all add: w1 AddUserToGroup_extends memberships_extends)
  then show ?case using s Cons.IH [where res = res1 and w = w1] Cons.prems
    by (simp add: w1 AddUserToGroup_real member_stmt_def)
qed

lemma memberships_result:
  "\<not> dryRun m \<Longrightarrow>
   fst (fold (syncMembership drv m user) gs (res, w)) =
     res\<lparr>Errors := Errors res @
       membership_errors (Username user) gs
         (execs_of (since w (snd (fold (syncMembership drv m user) gs (res, w)))))\<rparr>"
proof (induction gs arbitrary: res w)
  case Nil
  show ?case by simp
next
  case (Cons g gs)
  obtain res1 w1 where s: "syncMembership drv m user g (res, w) = (res1, w1)" by force
  have w1: "w1 = snd (AddUserToGroup drv m (Username user) g w)"
    using syncMembership_world [of drv m user g res w] s by simp
  have res1: "res1 = (case fst (AddUserToGroup drv m (Username user) g w) of
        None \<Rightarrow> res
      | Some e \<Rightarrow> res\<lparr>Errors := Errors res @ [Wrap (member_msg (Username user) g) e]\<rparr>)"
    using syncMembership_result [of drv m user g res w] s by simp
  have "since w (snd (fold (syncMembership drv m user) gs (res1, w1))) =
        since w w1 @ since w1 (snd (fold (syncMembership drv m user) gs (res1, w1)))"
    by (rule since_trans) (simp_all add: w1 AddUserToGroup_extends memberships_extends)
  then show ?case using s Cons.IH [where res = res1 and w = w1] Cons.prems
    by (simp add: w1 [symmetric] res1 AddUserToGroup_real [of m w drv "Username user" g, folded w1]
          member_msg_def split: option.splits)
qed

lemma memberships_created:
  "UsersCreated (fst (fold (syncMembership drv m user) gs (res, w))) = UsersCreated res \<and>
   GroupsCreated (fst (fold (syncMembership drv m user) gs (res, w))) = GroupsCreated res"
proof (induction gs arbitrary: res w)
  case Nil
  show ?case by simp
next
  case (Cons g gs)
  obtain res1 w1 where s: "syncMembership drv m user g (res, w) = (res1, w1)" by force
  have "UsersCreated res1 = UsersCreated res \<and> GroupsCreated res1 = GroupsCreated res"
    using syncMembership_result [of drv m user g res w] s by (simp split: option.splits)
  then show ?case using s Cons.IH [where res = res1 and w = w1] by simp
qed

lemma syncGroup_world:
  "snd (syncGroup drv m grp (res, w)) =
     (if fst (CreateGroup drv m grp w) = None
      then snd (GrantPrivileges drv m (Name grp) (GPrivileges grp) (GDatabases grp) (snd (CreateGroup drv m grp w)))
      else snd (CreateGroup drv m grp w))"
  by (simp add: syncGroup_def split_def Let_def split: option.splits)

lemma syncGroup_extends: "extends w (snd (syncGroup drv m grp (res, w)))"
  unfolding syncGroup_world
  using CreateGroup_extends [of w drv m grp]
    GrantPrivileges_extends [of "snd (CreateGroup drv m grp w)" drv m "Name grp" "GPrivileges grp" "GDatabases grp"]
  by (auto intro: extends_trans)

lemma syncGroup_reads:
  "reads_of (since w (snd (syncGroup drv m grp (res, w)))) = [(role_query, [Name grp])]"
proof (cases "fst (CreateGroup drv m grp w) = None")
  case True
  let ?w1 = "snd (CreateGroup drv m grp w)"
  let ?w2 = "snd (GrantPrivileges drv m (Name grp) (GPrivileges grp) (GDatabases grp) ?w1)"
  have "since w ?w2 = since w ?w1 @ since ?w1 ?w2"
    by (rule since_trans) (simp_all add: CreateGroup_extends GrantPrivileges_extends)
  then show ?thesis using True by (simp add: syncGroup_world CreateGroup_reads GrantPrivileges_reads)
next
  case False
  then show ?thesis by (simp add: syncGroup_world CreateGroup_reads del: not_None_eq)
qed

lemma syncGroups_extends: "extends w (snd (fold (syncGroup drv m) gs (res, w)))"
proof (induction gs arbitrary: res w)
  case Nil
  show ?case by simp
next
  case (Cons g gs)
  obtain res1 w1 where s: "syncGroup drv m g (res, w) = (res1, w1)" by force
  have "extends w w1" using syncGroup_extends [of w drv m g res] s by simp
  moreover have "extends w1 (snd (fold (syncGroup drv m) gs (res1, w1)))" by (rule Cons.IH)
  ultimately show ?case using s by (simp add: extends_trans)
qed

lemma syncGroups_reads:
  "reads_of (since w (snd (fold (syncGroup drv m) gs (res, w)))) = map (\<lambda>g. (role_query, [Name g])) gs"
proof (induction gs arbitrary: res w)
  case Nil
  show ?case by simp
next
  case (Cons g gs)
  obtain res1 w1 where s: "syncGroup drv m g (res, w) = (res1, w1)" by force
  have e: "extends w w1" using syncGroup_extends [of w drv m g res] s by simp
  have r: "reads_of (since w w1) = [(role_query, [Name g])]"
    using syncGroup_reads [of w drv m g res] s by simp
  have "since w (snd (fold (syncGroup drv m) gs (res1, w1))) =
        since w w1 @ since w1 (snd (fold (syncGroup drv m) gs (res1, w1)))"
    by (rule since_trans) (simp_all add: e syncGroups_extends)
  then show ?case using s r Cons.IH [where res = res1 and w = w1] by simp
qed

lemma syncUser_world:
  "snd (syncUser drv m user (res, w)) =
     (if \<not> Enabled user then logf Info ''User is disabled, skipping'' [(''username'', Str (Username user))] w
      else if fst (CreateUser drv m user w) = None
      then snd (GrantPrivileges drv m (Username user) (Privileges user) (Databases user)
             (snd (fold (syncMembership drv m user) (Groups user)
                (res\<lparr>UsersCreated := UsersCreated res @ [Username user]\<rparr>, snd (CreateUser drv m user w)))))
      else snd (CreateUser drv m user w))"
  by (simp add: syncUser_def split_def Let_def split: option.splits)

lemma syncUser_extends: "extends w (snd (syncUser drv m user (res, w)))"
proof -
  let ?w1 = "snd (CreateUser drv m user w)"
  let ?w2 = "snd (fold (syncMembership drv m user) (Groups user)
                (res\<lparr>UsersCreated := UsersCreated res @ [Username user]\<rparr>, ?w1))"
  let ?w3 = "snd (GrantPrivileges drv m (Username user) (Privileges user) (Databases user) ?w2)"
  have 1: "extends w ?w1" by (rule CreateUser_extends)
  have 2: "extends ?w1 ?w2" by (rule memberships_extends)
  have 3: "extends ?w2 ?w3" by (rule GrantPrivileges_extends)
  have "extends w ?w3" using 1 2 3 by (blast intro: extends_trans)
  moreover have "extends w (logf Info ''User is disabled, skipping'' [(''username'', Str (Username user))] w)"
    by (simp add: extends_def)
  ultimately show ?thesis using 1 by (simp add: syncUser_world)
qed

lemma syncUser_reads:
  "reads_of (since w (snd (syncUser drv m user (res, w)))) =
     (if Enabled user then [(user_query, [Username user])] else [])"
proof -
  let ?w1 = "snd (CreateUser drv m user w)"
  let ?w2 = "snd (fold (syncMembership drv m user) (Groups user)
                (res\<lparr>UsersCreated := UsersCreated res @ [Username user]\<rparr>, ?w1))"
  let ?w3 = "snd (GrantPrivileges drv m (Username user) (Privileges user) (Databases user) ?w2)"
  have 1: "extends w ?w1" by (rule CreateUser_extends)
  have 2: "extends ?w1 ?w2" by (rule memberships_extends)
  have 3: "extends ?w2 ?w3" by (rule GrantPrivileges_extends)
  have 12: "extends w ?w2" using 1 2 by (rule extends_trans)
  have "since w ?w3 = since w ?w2 @ since ?w2 ?w3" using 12 3 by (rule since_trans)
  moreover have "since w ?w2 = since w ?w1 @ since ?w1 ?w2" using 1 2 by (rule since_trans)
  ultimately have "reads_of (since w ?w3) = [(user_query, [Username user])]"
    by (simp add: CreateUser_reads memberships_reads GrantPrivileges_reads)
  then show ?thesis by (simp add: syncUser_world CreateUser_reads)
qed

lemma syncUsers_extends: "extends w (snd (fold (syncUser drv m) us (res, w)))"
proof (induction us arbitrary: res w)
  case Nil
  show ?case by simp
next
  case (Cons u us)
  obtain res1 w1 where s: "syncUser drv m u (res, w) = (res1, w1)" by force
  have "extends w w1" using syncUser_extends [of w drv m u res] s by simp
  moreover have "extends w1 (snd (fold (syncUser drv m) us (res1, w1)))" by (rule Cons.IH)
  ultimately show ?case using s by (simp add: extends_trans)
qed

lemma syncUsers_reads:
  "reads_of (since w (snd (fold (syncUser drv m) us (res, w)))) =
     map (\<lambda>u. (user_query, [Username u])) (filter Enabled us)"
proof (induction us arbitrary: res w)
  case Nil
  show ?case by simp
next
  case (Cons u us)
  obtain res1 w1 where s: "syncUser drv m u (res, w) = (res1, w1)" by force
  have e: "extends w w1" using syncUser_extends [of w drv m u res] s by simp
  have r: "reads_of (since w w1) = (if Enabled u then [(user_query, [Username u])] else [])"
    using syncUser_reads [of w drv m u res] s by simp
  have "since w (snd (fold (syncUser drv m) us (res1, w1))) =
        since w w1 @ since w1 (snd (fold (syncUser drv m) us (res1, w1)))"
    by (rule since_trans) (simp_all add: e syncUsers_extends)
  then show ?case using s r Cons.IH [where res = res1 and w = w1] by simp
qed

lemma SyncConfiguration_world:
  "snd (SyncConfiguration drv m config w) =
     (let rw1 = fold (syncGroup drv m) (CGroups config)
                  (\<lparr>UsersCreated = [], UsersModified = [], UsersRemoved = [], GroupsCreated = [],
                     GroupsModified = [], GroupsRemoved = [], Errors = []\<rparr>,
                   logf Info ''Starting configuration synchronization'' [] w);
          rw2 = fold (syncUser drv m) (Users config) rw1
      in logf Info ''Configuration synchronization completed''
                [(''users_created'', Num (length (UsersCreated (fst rw2)))),
                 (''groups_created'', Num (length (GroupsCreated (fst rw2)))),
                 (''errors'', Num (length (Errors (fst rw2))))] (snd rw2))"
  by (simp add: SyncConfiguration_def split_def Let_def)

lemma SyncConfiguration_reads:
  "reads_of (since w (snd (SyncConfiguration drv m config w))) =
     map (\<lambda>g. (role_query, [Name g])) (CGroups config) @
     map (\<lambda>u. (user_query, [Username u])) (filter Enabled (Users config))"
proof -
  let ?r0 = "\<lparr>UsersCreated = [], UsersModified = [], UsersRemoved = [], GroupsCreated = [],
                     GroupsModified = [], GroupsRemoved = [], Errors = []\<rparr>"
  let ?w0 = "logf Info ''Starting configuration synchronization'' [] w"
  obtain r1 w1 where g: "fold (syncGroup drv m) (CGroups config) (?r0, ?w0) = (r1, w1)" by force
  obtain r2 w2 where u: "fold (syncUser drv m) (Users config) (r1, w1) = (r2, w2)" by force
  have 0: "extends w ?w0" by (simp add: extends_def)
  have 1: "extends ?w0 w1" using syncGroups_extends [of ?w0 drv m "CGroups config" ?r0] g by simp
  have 2: "extends w1 w2" using syncUsers_extends [of w1 drv m "Users config" r1] u by simp
  have r1: "reads_of (since ?w0 w1) = map (\<lambda>g. (role_query, [Name g])) (CGroups config)"
    using syncGroups_reads [of ?w0 drv m "CGroups config" ?r0] g by simp
  have r2: "reads_of (since w1 w2) = map (\<lambda>u. (user_query, [Username u])) (filter Enabled (Users config))"
    using syncUsers_reads [of w1 drv m "Users config" r1] u by simp
  have 01: "extends w w1" using 0 1 by (rule extends_trans)
  have 02: "extends w w2" using 01 2 by (rule extends_trans)
  have a: "since w w2 = since w w1 @ since w1 w2" using 01 2 by (rule since_trans)
  have b: "since w w1 = since w ?w0 @ since ?w0 w1" using 0 1 by (rule since_trans)
  have c: "reads_of (since w ?w0) = []" by (simp add: since_def)
  have rd: "reads_of (since w w2) = map (\<lambda>g. (role_query, [Name g])) (CGroups config) @
     map (\<lambda>u. (user_query, [Username u])) (filter Enabled (Users config))"
    by (simp add: a b c r1 r2)
  obtain l where w3: "snd (SyncConfiguration drv m config w) = logf Info ''Configuration synchronization completed'' l w2"
    using g u by (simp add: SyncConfiguration_world)
  have 3: "extends w2 (snd (SyncConfiguration drv m config w))" by (simp add: w3 extends_def)
  have "since w (snd (SyncConfiguration drv m config w)) = since w w2 @ since w2 (snd (SyncConfiguration drv m config w))"
    using 02 3 by (rule since_trans)
  then show ?thesis by (simp add: rd w3)
qed

lemma buildCreateUserQuery_stmt [simp]: "fst (buildCreateUserQuery m user w) = create_user_stmt user"
  by (simp add: buildCreateUserQuery_def create_user_stmt_def Let_def split_def)

lemma CreateUser_execs:
  "set (map fst (execs_of (since w (snd (CreateUser drv m user w))))) \<subseteq>
     {create_user_stmt user, rds_iam_stmt (Username user)}"
  by (simp add: CreateUser_def unfold_op rds_iam_stmt_def split: option.splits)

lemma CreateUser_would_execute:
  "set (would_execute (since w (snd (CreateUser drv m user w)))) \<subseteq> {create_user_stmt user}"
  by (simp add: CreateUser_def unfold_op rds_iam_stmt_def split: option.splits)

lemma DropUser_execs:
  "set (map fst (execs_of (since w (snd (DropUser drv m name w))))) \<subseteq> {drop_user_stmt name}"
  "set (would_execute (since w (snd (DropUser drv m name w)))) \<subseteq> {drop_user_stmt name}"
  by (simp_all add: DropUser_def unfold_op drop_user_stmt_def split: option.splits)

lemma CreateGroup_execs:
  "set (map fst (execs_of (since w (snd (CreateGroup drv m grp w))))) \<subseteq> {create_role_stmt grp}"
  "set (would_execute (since w (snd (CreateGroup drv m grp w)))) \<subseteq> {create_role_stmt grp}"
  by (simp_all add: CreateGroup_def unfold_op create_role_stmt_def split: option.splits)

lemma membership_execs:
  "set (map fst (execs_of (since w (snd (AddUserToGroup drv m u g w))))) \<subseteq> {member_stmt u g}"
  "set (would_execute (since w (snd (AddUserToGroup drv m u g w)))) \<subseteq> {member_stmt u g}"
  "set (map fst (execs_of (since w (snd (RemoveUserFromGroup drv m u g w))))) \<subseteq> {unmember_stmt u g}"
  "set (would_execute (since w (snd (RemoveUserFromGroup drv m u g w)))) \<subseteq> {unmember_stmt u g}"
  by (simp_all add: AddUserToGroup_def RemoveUserFromGroup_def unfold_op member_stmt_def unmember_stmt_def
        split: option.splits)

lemma syncGroup_failed:
  "fst (CreateGroup drv m grp w) = Some e \<Longrightarrow>
   syncGroup drv m grp (res, w) =
     (res\<lparr>Errors := Errors res @ [Wrap (''failed to create group '' @ Name grp @ '': '') e]\<rparr>,
      snd (CreateGroup drv m grp w))"
  by (simp add: syncGroup_def split_def Let_def)

lemma syncUser_failed:
  "Enabled user \<Longrightarrow> fst (CreateUser drv m user w) = Some e \<Longrightarrow>
   syncUser drv m user (res, w) =
     (res\<lparr>Errors := Errors res @ [Wrap (''failed to create user '' @ Username user @ '': '') e]\<rparr>,
      snd (CreateUser drv m user w))"
  by (simp add: syncUser_def split_def Let_def)

lemma syncUser_created:
  "Enabled user \<Longrightarrow> fst (CreateUser drv m user w) = None \<Longrightarrow>
   UsersCreated (fst (syncUser drv m user (res, w))) = UsersCreated res @ [Username user]"
  by (simp add: syncUser_def split_def Let_def memberships_created split: option.splits)

lemma syncUser_execs:
  assumes "Enabled user" "fst (CreateUser drv m user w) = None" "\<not> dryRun m"
  shows "\<exists>ys. map fst (execs_of (since w (snd (syncUser drv m user (res, w))))) =
           map fst (execs_of (since w (snd (CreateUser drv m user w)))) @
           map (member_stmt (Username user)) (Groups user) @ ys \<and>
           prefix ys (map (grant_stmt (Username user)) (pairs (Databases user) (Privileges user)))"
proof -
  let ?w1 = "snd (CreateUser drv m user w)"
  let ?w2 = "snd (fold (syncMembership drv m user) (Groups user)
                (res\<lparr>UsersCreated := UsersCreated res @ [Username user]\<rparr>, ?w1))"
  let ?w3 = "snd (GrantPrivileges drv m (Username user) (Privileges user) (Databases user) ?w2)"
  have 1: "extends w ?w1" by (rule CreateUser_extends)
  have 2: "extends ?w1 ?w2" by (rule memberships_extends)
  have 3: "extends ?w2 ?w3" by (rule GrantPrivileges_extends)
  have 12: "extends w ?w2" using 1 2 by (rule extends_trans)
  have a: "since w ?w3 = since w ?w2 @ since ?w2 ?w3" using 12 3 by (rule since_trans)
  have b: "since w ?w2 = since w ?w1 @ since ?w1 ?w2" using 1 2 by (rule since_trans)
  have w3: "snd (syncUser drv m user (res, w)) = ?w3" using assms by (simp add: syncUser_world)
  have "map fst (execs_of (since ?w2 ?w3)) =
        take (length (execs_of (since ?w2 ?w3))) (map (grant_stmt (Username user)) (pairs (Databases user) (Privileges user)))"
    using exec_seq_prefix [of drv "map (grant_stmt (Username user)) (List.product (Databases user) (Privileges user))" "dbstate ?w2"]
    by (simp add: GrantPrivileges_real [OF assms(3)] pairs_product)
  then have "prefix (map fst (execs_of (since ?w2 ?w3)))
               (map (grant_stmt (Username user)) (pairs (Databases user) (Privileges user)))"
    by (metis take_is_prefix)
  then show ?thesis unfolding w3 a b using memberships_real [OF assms(3), of ?w1 drv user "Groups user"]
    by simp
qed

lemma config1_run:
  "fst (SyncConfiguration picky m_real config1 w0) =
     (\<lparr>UsersCreated = [Username alice], UsersModified = [], UsersRemoved = [],
       GroupsCreated = [''app_group''], GroupsModified = [], GroupsRemoved = [],
       Errors = [Wrap ''failed to create group bad: '' (Wrap ''failed to create group bad: '' (Err ''rejected'')),
                 Wrap ''failed to create user eve: '' (Wrap ''failed to create user eve: '' (Err ''rejected''))]\<rparr>,
      None)"
  by code_simp

lemma config1_steps:
  "fst (CreateGroup picky m_real bad_group w0) = Some (Wrap ''failed to create group bad: '' (Err ''rejected''))"
  "Enabled eve"
  "fst (CreateUser picky m_real eve w0) = Some (Wrap ''failed to create user eve: '' (Err ''rejected''))"
  "since w0 (snd (SyncConfiguration picky m_real config1 w0)) = events (snd (SyncConfiguration picky m_real config1 w0))"
  by code_simp+

lemma dave_run:
  "\<not> dryRun m_real"
  "Enabled dave"
  "fst (CreateUser strict m_real dave w0) = None"
  "fst (AddUserToGroup strict m_real ''dave'' ''doesNotExist'' w0) =
     Some (Wrap ''failed to add user dave to group doesNotExist: '' (Err ''rejected''))"
  "fst (syncUser strict m_real dave (no_result, w0)) =
     no_result\<lparr>UsersCreated := [''dave''],
       Errors := [Wrap ''failed to add user dave to group doesNotExist: ''
                    (Wrap ''failed to add user dave to group doesNotExist: '' (Err ''rejected''))]\<rparr>"
  "map fst (execs_of (events (snd (syncUser strict m_real dave (no_result, w0))))) =
     [create_user_stmt dave, member_stmt ''dave'' ''doesNotExist'', member_stmt ''dave'' ''app_group'',
      grant_stmt ''dave'' (''app'', ''CONNECT'')]"
  by code_simp+

lemma create_skips_existing:
  "(drv_queryRow drv (dbstate w) user_query [Username user] = None \<longrightarrow>
      fst (CreateUser drv m user w) = None \<and>
      dbstate (snd (CreateUser drv m user w)) = dbstate w \<and>
      since w (snd (CreateUser drv m user w)) =
        [Log Info ''Creating user'' [(''username'', Str (Username user)), (''auth_method'', Str (AuthMethod user))],
         QueryRow user_query [Username user],
         Log Info ''User already exists, skipping creation'' [(''username'', Str (Username user))]]) \<and>
   (drv_queryRow drv (dbstate w) role_query [Name grp] = None \<longrightarrow>
      fst (CreateGroup drv m grp w) = None \<and>
      dbstate (snd (CreateGroup drv m grp w)) = dbstate w \<and>
      since w (snd (CreateGroup drv m grp w)) =
        [Log Info ''Creating group'' [(''group'', Str (Name grp))],
         QueryRow role_query [Name grp],
         Log Info ''Group already exists, skipping creation'' [(''group'', Str (Name grp))]])"
  by (simp add: CreateUser_def UserExists_result CreateGroup_def GroupExists_result unfold_op)

subsection \<open>Statement texts and quoting\<close>

lemma scan_quoted_ReplaceAll:
  "rest = [] \<or> hd rest \<noteq> d \<Longrightarrow>
   scan_quoted d (ReplaceAll name d [d, d] @ d # rest) = Some (name, rest)"
proof (induction name)
  case Nil
  then show ?case by (cases rest) auto
next
  case (Cons c name)
  show ?case
  proof (cases "c = d")
    case True
    then show ?thesis using Cons by simp
  next
    case False
    obtain x xs where "ReplaceAll name d [d, d] @ d # rest = x # xs"
      by (cases "ReplaceAll name d [d, d] @ d # rest") auto
    then show ?thesis using False Cons by simp
  qed
qed

lemma quoteIdentifier_scans_back:
  "rest = [] \<or> hd rest \<noteq> dquote \<Longrightarrow> scan_token dquote (quoteIdentifier name @ rest) = Some (name, rest)"
  by (simp add: scan_token_def quoteIdentifier_def scan_quoted_ReplaceAll)

lemma escapeString_scans_back:
  "rest = [] \<or> hd rest \<noteq> squote \<Longrightarrow>
   scan_token squote ([squote] @ escapeString s @ [squote] @ rest) = Some (s, rest)"
  by (simp add: scan_token_def escapeString_def scan_quoted_ReplaceAll)

lemma exec_seq_subset: "set (map fst (fst (exec_seq drv qs s))) \<subseteq> set qs"
proof -
  have "set (take (length (fst (exec_seq drv qs s))) qs) \<subseteq> set qs" by (rule set_take_subset)
  then show ?thesis using exec_seq_prefix [of drv qs s] by simp
qed

lemma GrantPrivileges_stmts:
  "set (map fst (execs_of (since w (snd (GrantPrivileges drv m t privs dbs w))))) \<union>
   set (would_execute (since w (snd (GrantPrivileges drv m t privs dbs w)))) \<subseteq>
     set (map (grant_stmt t) (pairs dbs privs))"
proof (cases "dryRun m")
  case True
  then show ?thesis by (simp add: GrantPrivileges_dry pairs_product)
next
  case False
  have "would_execute (since w (snd (GrantPrivileges drv m t privs dbs w))) = []"
    using False by (simp add: GrantPrivileges_def grantDbs_pair_loop unfold_op split: option.splits)
  then show ?thesis
    using False exec_seq_subset [of drv "map (grant_stmt t) (List.product dbs privs)" "dbstate w"]
    by (simp add: GrantPrivileges_real pairs_product)
qed

lemma RevokePrivileges_stmts:
  "set (map fst (execs_of (since w (snd (RevokePrivileges drv m t privs dbs w))))) \<union>
   set (would_execute (since w (snd (RevokePrivileges drv m t privs dbs w)))) \<subseteq>
     set (map (revoke_stmt t) (pairs dbs privs))"
proof (cases "dryRun m")
  case True
  then show ?thesis by (simp add: RevokePrivileges_dry pairs_product)
next
  case False
  have "would_execute (since w (snd (RevokePrivileges drv m t privs dbs w))) = []"
    using False by (simp add: RevokePrivileges_def revokeDbs_pair_loop unfold_op split: option.splits)
  then show ?thesis
    using False exec_seq_subset [of drv "map (revoke_stmt t) (List.product dbs privs)" "dbstate w"]
    by (simp add: RevokePrivileges_real pairs_product)
qed

lemma set_pairs: "set (pairs dbs privs) = set dbs \<times> set privs"
  by (simp add: pairs_product)

lemma quoting_run:
  "create_user_stmt alice \<in> statements w0 (snd (CreateUser (toy []) m_real alice w0))"
  "grant_stmt obrien (''app'', ''CONNECT'') \<in>
     statements w0 (snd (GrantPrivileges (toy []) m_dry obrien [''CONNECT''] [''app''] w0))"
  "'' LOGIN'' = [] \<or> hd '' LOGIN'' \<noteq> dquote"
  "'' LOGIN'' = [] \<or> hd '' LOGIN'' \<noteq> squote"
  by code_simp+

subsection \<open>Connection establishment\<close>

lemma GetDatabaseConnection_no_password:
  "getEnvOrDefault env ''POSTGRES_IAM_AUTH'' ''false'' \<noteq> ''true'' \<Longrightarrow> env ''POSTGRES_PASSWORD'' = [] \<Longrightarrow>
   GetDatabaseConnection env = Failed (password_error env)"
  by (simp add: GetDatabaseConnection_def password_error_def Let_def split: option.splits)

lemma env0_run:
  "getEnvOrDefault env0 ''POSTGRES_IAM_AUTH'' ''false'' \<noteq> ''true''"
  "env0 ''POSTGRES_PASSWORD'' = []"
  "password_error env0 = Err ''POSTGRES_PASSWORD environment variable is required for password authentication''"
  "snd (runDropUser (toy []) env0 False ''bob'' w0) =
     \<lparr>dbstate = [], events = [Log Info ''Dropping user'' [(''username'', Str ''bob'')]]\<rparr>"
  by code_simp+

subsection \<open>The result of a synchronization, entity by entity\<close>

lemma CreateGroup_alike:
  "dbstate w1 = dbstate w2 \<Longrightarrow> alike w1 (CreateGroup drv m g w1) w2 (CreateGroup drv m g w2)"
  by (simp add: alike_def CreateGroup_def GroupExists_result unfold_op split: option.splits)

lemma CreateUser_alike:
  "dbstate w1 = dbstate w2 \<Longrightarrow> alike w1 (CreateUser drv m u w1) w2 (CreateUser drv m u w2)"
  by (simp add: alike_def CreateUser_def UserExists_result unfold_op grantRDSIAMRole_def split: option.splits)

lemma AddUserToGroup_alike:
  "dbstate w1 = dbstate w2 \<Longrightarrow> alike w1 (AddUserToGroup drv m u g w1) w2 (AddUserToGroup drv m u g w2)"
  by (simp add: alike_def AddUserToGroup_def unfold_op split: option.splits)

lemma GrantPrivileges_alike:
  "dbstate w1 = dbstate w2 \<Longrightarrow>
   alike w1 (GrantPrivileges drv m t ps ds w1) w2 (GrantPrivileges drv m t ps ds w2)"
  by (simp add: alike_def GrantPrivileges_def grantDbs_pair_loop unfold_op split: option.splits)

lemma alikeI:
  "fst x1 = fst x2 \<Longrightarrow> dbstate (snd x1) = dbstate (snd x2) \<Longrightarrow> since w1 (snd x1) = since w2 (snd x2) \<Longrightarrow>
   alike w1 x1 w2 x2"
  by (simp add: alike_def)

lemma alikeD:
  "alike w1 x1 w2 x2 \<Longrightarrow> fst x1 = fst x2"
  "alike w1 x1 w2 x2 \<Longrightarrow> dbstate (snd x1) = dbstate (snd x2)"
  "alike w1 x1 w2 x2 \<Longrightarrow> since w1 (snd x1) = since w2 (snd x2)"
  by (simp_all add: alike_def)

lemma add_all_extends: "extends w (snd (add_all drv m u gs w))"
proof (induction gs arbitrary: w)
  case Nil
  show ?case by simp
next
  case (Cons g gs)
  have "extends w (snd (AddUserToGroup drv m u g w))" by (rule AddUserToGroup_extends)
  moreover have "extends (snd (AddUserToGroup drv m u g w)) (snd (add_all drv m u gs (snd (AddUserToGroup drv m u g w))))"
    by (rule Cons.IH)
  ultimately show ?case by (simp add: split_def Let_def extends_trans)
qed

lemma add_all_alike:
  "dbstate w1 = dbstate w2 \<Longrightarrow> alike w1 (add_all drv m u gs w1) w2 (add_all drv m u gs w2)"
proof (induction gs arbitrary: w1 w2)
  case Nil
  then show ?case by (simp add: alike_def)
next
  case (Cons g gs)
  let ?a1 = "AddUserToGroup drv m u g w1" and ?a2 = "AddUserToGroup drv m u g w2"
  let ?b1 = "add_all drv m u gs (snd ?a1)" and ?b2 = "add_all drv m u gs (snd ?a2)"
  have a: "alike w1 ?a1 w2 ?a2" using Cons.prems by (rule AddUserToGroup_alike)
  have b: "alike (snd ?a1) ?b1 (snd ?a2) ?b2" using alikeD(2) [OF a] by (rule Cons.IH)
  have s1: "since w1 (snd ?b1) = since w1 (snd ?a1) @ since (snd ?a1) (snd ?b1)"
    by (rule since_trans) (simp_all add: AddUserToGroup_extends add_all_extends)
  have s2: "since w2 (snd ?b2) = since w2 (snd ?a2) @ since (snd ?a2) (snd ?b2)"
    by (rule since_trans) (simp_all add: AddUserToGroup_extends add_all_extends)
  have f: "fst (add_all drv m u (g # gs) w1) = fst (add_all drv m u (g # gs) w2)"
    using alikeD(1) [OF a] alikeD(1) [OF b] by (simp add: split_def Let_def split: option.splits)
  have d: "dbstate (snd (add_all drv m u (g # gs) w1)) = dbstate (snd (add_all drv m u (g # gs) w2))"
    using alikeD(2) [OF b] by (simp add: split_def Let_def)
  have "since w1 (snd ?b1) = since w2 (snd ?b2)"
    unfolding s1 s2 using alikeD(3) [OF a] alikeD(3) [OF b] by simp
  then have s: "since w1 (snd (add_all drv m u (g # gs) w1)) = since w2 (snd (add_all drv m u (g # gs) w2))"
    by (simp add: split_def Let_def)
  show ?case using f d s by (rule alikeI)
qed

lemma memberships_add_all:
  "fold (syncMembership drv m user) gs (res, w) =
     (res\<lparr>Errors := Errors res @ fst (add_all drv m (Username user) gs w)\<rparr>,
      snd (add_all drv m (Username user) gs w))"
proof (induction gs arbitrary: res w)
  case Nil
  show ?case by simp
next
  case (Cons g gs)
  let ?a = "AddUserToGroup drv m (Username user) g w"
  obtain res1 w1 where s: "syncMembership drv m user g (res, w) = (res1, w1)" by force
  have w1: "w1 = snd ?a" using syncMembership_world [of drv m user g res w] s by simp
  have res1: "res1 = (case fst ?a of None \<Rightarrow> res
      | Some e \<Rightarrow> res\<lparr>Errors := Errors res @ [Wrap (member_msg (Username user) g) e]\<rparr>)"
    using syncMembership_result [of drv m user g res w] s by simp
  have "fold (syncMembership drv m user) (g # gs) (res, w) = fold (syncMembership drv m user) gs (res1, w1)"
    using s by simp
  then show ?case
    unfolding Cons.IH [where res = res1 and w = w1]
    by (simp add: w1 res1 member_msg_def split_def Let_def split: option.splits)
qed

lemma syncGroup_result:
  "fst (syncGroup drv m grp (res, w)) =
     (case fst (CreateGroup drv m grp w) of
        Some e \<Rightarrow> res\<lparr>Errors := Errors res @ [Wrap (''failed to create group '' @ Name grp @ '': '') e]\<rparr>
      | None \<Rightarrow>
          res\<lparr>GroupsCreated := GroupsCreated res @ [Name grp],
              Errors := Errors res @
                (case fst (GrantPrivileges drv m (Name grp) (GPrivileges grp) (GDatabases grp)
                             (snd (CreateGroup drv m grp w))) of
                   None \<Rightarrow> []
                 | Some e \<Rightarrow> [Wrap (''failed to grant privileges to group '' @ Name grp @ '': '') e])\<rparr>)"
  by (simp add: syncGroup_def split_def Let_def split: option.splits)

lemma syncUser_result:
  "fst (syncUser drv m user (res, w)) =
     (if \<not> Enabled user then res
      else case fst (CreateUser drv m user w) of
        Some e \<Rightarrow> res\<lparr>Errors := Errors res @ [Wrap (''failed to create user '' @ Username user @ '': '') e]\<rparr>
      | None \<Rightarrow>
          res\<lparr>UsersCreated := UsersCreated res @ [Username user],
              Errors := Errors res @
                fst (add_all drv m (Username user) (Groups user) (snd (CreateUser drv m user w))) @
                (case fst (GrantPrivileges drv m (Username user) (Privileges user) (Databases user)
                             (snd (add_all drv m (Username user) (Groups user) (snd (CreateUser drv m user w))))) of
                   None \<Rightarrow> []
                 | Some e \<Rightarrow> [Wrap (''failed to grant privileges to user '' @ Username user @ '': '') e])\<rparr>)"
  by (simp add: syncUser_def memberships_add_all split_def Let_def split: option.splits)

lemma syncUser_world':
  "snd (syncUser drv m user (res, w)) =
     (if \<not> Enabled user then logf Info ''User is disabled, skipping'' [(''username'', Str (Username user))] w
      else if fst (CreateUser drv m user w) = None
      then snd (GrantPrivileges drv m (Username user) (Privileges user) (Databases user)
             (snd (add_all drv m (Username user) (Groups user) (snd (CreateUser drv m user w)))))
      else snd (CreateUser drv m user w))"
  by (simp add: syncUser_def memberships_add_all split_def Let_def split: option.splits)

lemma sync_core_result: "fst (fst (SyncConfiguration drv m config w)) = fst (sync_core drv m config w)"
  by (simp add: SyncConfiguration_def sync_core_def no_result_def split_def Let_def)

lemma sync_core_world:
  "snd (SyncConfiguration drv m config w) =
     logf Info ''Configuration synchronization completed''
       [(''users_created'', Num (length (UsersCreated (fst (sync_core drv m config w))))),
        (''groups_created'', Num (length (GroupsCreated (fst (sync_core drv m config w))))),
        (''errors'', Num (length (Errors (fst (sync_core drv m config w)))))]
       (snd (sync_core drv m config w))"
  by (simp add: SyncConfiguration_def sync_core_def no_result_def split_def Let_def)

lemma sync_core_extends: "extends w (snd (sync_core drv m config w))"
proof -
  let ?w0 = "logf Info ''Starting configuration synchronization'' [] w"
  obtain r1 w1 where g: "fold (syncGroup drv m) (CGroups config) (no_result, ?w0) = (r1, w1)" by force
  have 0: "extends w ?w0" by (simp add: extends_def)
  have 1: "extends ?w0 w1" using syncGroups_extends [of ?w0 drv m "CGroups config" no_result] g by simp
  have 2: "extends w1 (snd (fold (syncUser drv m) (Users config) (r1, w1)))" by (rule syncUsers_extends)
  show ?thesis using 0 1 2 g by (auto simp: sync_core_def intro: extends_trans)
qed

lemma sync_core_groups_snoc:
  "Users config = [] \<Longrightarrow> CGroups config = gs @ [grp] \<Longrightarrow>
   sync_core drv m config w = syncGroup drv m grp (sync_core drv m (config\<lparr>CGroups := gs\<rparr>) w)"
  by (simp add: sync_core_def)

lemma sync_core_users_snoc:
  "Users config = us @ [user] \<Longrightarrow>
   sync_core drv m config w = syncUser drv m user (sync_core drv m (config\<lparr>Users := us\<rparr>) w)"
  by (simp add: sync_core_def)

lemma sync_core_empty:
  "Users config = [] \<Longrightarrow> CGroups config = [] \<Longrightarrow>
   sync_core drv m config w = (no_result, logf Info ''Starting configuration synchronization'' [] w)"
  by (simp add: sync_core_def)

lemma alike_seq:
  assumes a: "alike w1 a1 w2 a2" and b: "alike (snd a1) b1 (snd a2) b2"
    and e: "extends w1 (snd a1)" "extends (snd a1) (snd b1)" "extends w2 (snd a2)" "extends (snd a2) (snd b2)"
  shows "alike w1 b1 w2 b2"
proof -
  have "since w1 (snd b1) = since w1 (snd a1) @ since (snd a1) (snd b1)" using e(1,2) by (rule since_trans)
  moreover have "since w2 (snd b2) = since w2 (snd a2) @ since (snd a2) (snd b2)" using e(3,4) by (rule since_trans)
  ultimately show ?thesis using alikeD [OF a] alikeD [OF b] by (simp add: alike_def)
qed

lemma sync_world_facts:
  "dbstate (snd (SyncConfiguration drv m config w)) = dbstate (snd (sync_core drv m config w))"
  "execs_of (since w (snd (SyncConfiguration drv m config w))) = execs_of (since w (snd (sync_core drv m config w)))"
proof -
  let ?x = "snd (sync_core drv m config w)"
  let ?R = "snd (SyncConfiguration drv m config w)"
  show "dbstate ?R = dbstate ?x" by (subst sync_core_world) simp
  have "extends ?x ?R" by (subst sync_core_world) (simp add: extends_def)
  then have "since w ?R = since w ?x @ since ?x ?R" using sync_core_extends by (rule since_trans [rotated])
  moreover have "execs_of (since ?x ?R) = []" by (subst sync_core_world) simp
  ultimately show "execs_of (since w ?R) = execs_of (since w ?x)" by simp
qed

lemma step_after_prefix:
  assumes step: "snd (sync_core drv m config w) = snd sx"
    and ext: "extends (snd (sync_core drv m pre w)) (snd sx)"
    and al: "alike (snd (sync_core drv m pre w)) sx (snd (SyncConfiguration drv m pre w)) sp"
  shows "execs_of (since w (snd (SyncConfiguration drv m config w))) =
           execs_of (since w (snd (SyncConfiguration drv m pre w))) @
           execs_of (since (snd (SyncConfiguration drv m pre w)) (snd sp))"
    and "dbstate (snd (SyncConfiguration drv m config w)) = dbstate (snd sp)"
proof -
  let ?x = "snd (sync_core drv m pre w)"
  have "since w (snd sx) = since w ?x @ since ?x (snd sx)"
    using sync_core_extends ext by (rule since_trans)
  then show "execs_of (since w (snd (SyncConfiguration drv m config w))) =
           execs_of (since w (snd (SyncConfiguration drv m pre w))) @
           execs_of (since (snd (SyncConfiguration drv m pre w)) (snd sp))"
    using alikeD(3) [OF al] by (simp add: sync_world_facts step)
  show "dbstate (snd (SyncConfiguration drv m config w)) = dbstate (snd sp)"
    using alikeD(2) [OF al] by (simp add: sync_world_facts step)
qed

lemma prefix_same_db:
  "dbstate (snd (sync_core drv m pre w)) = dbstate (snd (SyncConfiguration drv m pre w))"
  by (simp add: sync_world_facts)

lemma syncGroup_result_pair:
  "fst (syncGroup drv m grp rw) =
     (case fst (CreateGroup drv m grp (snd rw)) of
        Some e \<Rightarrow> (fst rw)\<lparr>Errors := Errors (fst rw) @ [Wrap (''failed to create group '' @ Name grp @ '': '') e]\<rparr>
      | None \<Rightarrow>
          (fst rw)\<lparr>GroupsCreated := GroupsCreated (fst rw) @ [Name grp],
              Errors := Errors (fst rw) @
                (case fst (GrantPrivileges drv m (Name grp) (GPrivileges grp) (GDatabases grp)
                             (snd (CreateGroup drv m grp (snd rw)))) of
                   None \<Rightarrow> []
                 | Some e \<Rightarrow> [Wrap (''failed to grant privileges to group '' @ Name grp @ '': '') e])\<rparr>)"
  by (cases rw) (simp only: syncGroup_result fst_conv snd_conv)

lemma syncGroup_world_pair:
  "snd (syncGroup drv m grp rw) =
     (if fst (CreateGroup drv m grp (snd rw)) = None
      then snd (GrantPrivileges drv m (Name grp) (GPrivileges grp) (GDatabases grp) (snd (CreateGroup drv m grp (snd rw))))
      else snd (CreateGroup drv m grp (snd rw)))"
  by (cases rw) (simp only: syncGroup_world fst_conv snd_conv)

lemma syncUser_result_pair:
  "fst (syncUser drv m user rw) =
     (if \<not> Enabled user then fst rw
      else case fst (CreateUser drv m user (snd rw)) of
        Some e \<Rightarrow> (fst rw)\<lparr>Errors := Errors (fst rw) @ [Wrap (''failed to create user '' @ Username user @ '': '') e]\<rparr>
      | None \<Rightarrow>
          (fst rw)\<lparr>UsersCreated := UsersCreated (fst rw) @ [Username user],
              Errors := Errors (fst rw) @
                fst (add_all drv m (Username user) (Groups user) (snd (CreateUser drv m user (snd rw)))) @
                (case fst (GrantPrivileges drv m (Username user) (Privileges user) (Databases user)
                             (snd (add_all drv m (Username user) (Groups user) (snd (CreateUser drv m user (snd rw)))))) of
                   None \<Rightarrow> []
                 | Some e \<Rightarrow> [Wrap (''failed to grant privileges to user '' @ Username user @ '': '') e])\<rparr>)"
  by (cases rw) (simp only: syncUser_result fst_conv snd_conv)

lemma syncUser_world_pair:
  "snd (syncUser drv m user rw) =
     (if \<not> Enabled user then logf Info ''User is disabled, skipping'' [(''username'', Str (Username user))] (snd rw)
      else if fst (CreateUser drv m user (snd rw)) = None
      then snd (GrantPrivileges drv m (Username user) (Privileges user) (Databases user)
             (snd (add_all drv m (Username user) (Groups user) (snd (CreateUser drv m user (snd rw))))))
      else snd (CreateUser drv m user (snd rw)))"
  by (cases rw) (simp only: syncUser_world' fst_conv snd_conv)

lemma sync_group_failed:
  assumes "Users config = []" "CGroups config = gs @ [grp]"
    and c: "fst (CreateGroup drv m grp (snd (SyncConfiguration drv m (config\<lparr>CGroups := gs\<rparr>) w))) = Some e"
  shows "fst (fst (SyncConfiguration drv m config w)) =
           (fst (fst (SyncConfiguration drv m (config\<lparr>CGroups := gs\<rparr>) w)))
             \<lparr>Errors := Errors (fst (fst (SyncConfiguration drv m (config\<lparr>CGroups := gs\<rparr>) w))) @
                [Wrap (''failed to create group '' @ Name grp @ '': '') e]\<rparr>"
    and "execs_of (since w (snd (SyncConfiguration drv m config w))) =
           execs_of (since w (snd (SyncConfiguration drv m (config\<lparr>CGroups := gs\<rparr>) w))) @
           execs_of (since (snd (SyncConfiguration drv m (config\<lparr>CGroups := gs\<rparr>) w))
             (snd (CreateGroup drv m grp (snd (SyncConfiguration drv m (config\<lparr>CGroups := gs\<rparr>) w)))))"
    and "dbstate (snd (SyncConfiguration drv m config w)) =
           dbstate (snd (CreateGroup drv m grp (snd (SyncConfiguration drv m (config\<lparr>CGroups := gs\<rparr>) w))))"
proof -
  let ?pre = "config\<lparr>CGroups := gs\<rparr>"
  let ?x = "sync_core drv m ?pre w"
  let ?wp = "snd (SyncConfiguration drv m ?pre w)"
  have core: "sync_core drv m config w = syncGroup drv m grp ?x"
    by (rule sync_core_groups_snoc [OF assms(1,2)])
  have al: "alike (snd ?x) (CreateGroup drv m grp (snd ?x)) ?wp (CreateGroup drv m grp ?wp)"
    by (rule CreateGroup_alike) (rule prefix_same_db)
  have cx: "fst (CreateGroup drv m grp (snd ?x)) = Some e" using alikeD(1) [OF al] c by simp
  show "fst (fst (SyncConfiguration drv m config w)) =
           (fst (fst (SyncConfiguration drv m ?pre w)))
             \<lparr>Errors := Errors (fst (fst (SyncConfiguration drv m ?pre w))) @
                [Wrap (''failed to create group '' @ Name grp @ '': '') e]\<rparr>"
    by (simp add: sync_core_result core syncGroup_result_pair cx)
  have step: "snd (sync_core drv m config w) = snd (CreateGroup drv m grp (snd ?x))"
    by (simp add: core syncGroup_world_pair cx)
  show "execs_of (since w (snd (SyncConfiguration drv m config w))) =
           execs_of (since w ?wp) @ execs_of (since ?wp (snd (CreateGroup drv m grp ?wp)))"
    using step CreateGroup_extends al by (rule step_after_prefix(1))
  show "dbstate (snd (SyncConfiguration drv m config w)) = dbstate (snd (CreateGroup drv m grp ?wp))"
    using step CreateGroup_extends al by (rule step_after_prefix(2))
qed

lemma sync_group_created:
  assumes "Users config = []" "CGroups config = gs @ [grp]"
    and c: "fst (CreateGroup drv m grp (snd (SyncConfiguration drv m (config\<lparr>CGroups := gs\<rparr>) w))) = None"
  shows "fst (fst (SyncConfiguration drv m config w)) =
           (fst (fst (SyncConfiguration drv m (config\<lparr>CGroups := gs\<rparr>) w)))
             \<lparr>GroupsCreated := GroupsCreated (fst (fst (SyncConfiguration drv m (config\<lparr>CGroups := gs\<rparr>) w))) @ [Name grp],
              Errors := Errors (fst (fst (SyncConfiguration drv m (config\<lparr>CGroups := gs\<rparr>) w))) @
                (case fst (GrantPrivileges drv m (Name grp) (GPrivileges grp) (GDatabases grp)
                       (snd (CreateGroup drv m grp (snd (SyncConfiguration drv m (config\<lparr>CGroups := gs\<rparr>) w))))) of
                   None \<Rightarrow> []
                 | Some e \<Rightarrow> [Wrap (''failed to grant privileges to group '' @ Name grp @ '': '') e])\<rparr>"
    and "execs_of (since w (snd (SyncConfiguration drv m config w))) =
           execs_of (since w (snd (SyncConfiguration drv m (config\<lparr>CGroups := gs\<rparr>) w))) @
           execs_of (since (snd (SyncConfiguration drv m (config\<lparr>CGroups := gs\<rparr>) w))
             (snd (GrantPrivileges drv m (Name grp) (GPrivileges grp) (GDatabases grp)
                (snd (CreateGroup drv m grp (snd (SyncConfiguration drv m (config\<lparr>CGroups := gs\<rparr>) w)))))))"
    and "dbstate (snd (SyncConfiguration drv m config w)) =
           dbstate (snd (GrantPrivileges drv m (Name grp) (GPrivileges grp) (GDatabases grp)
                (snd (CreateGroup drv m grp (snd (SyncConfiguration drv m (config\<lparr>CGroups := gs\<rparr>) w))))))"
proof -
  let ?pre = "config\<lparr>CGroups := gs\<rparr>"
  let ?x = "sync_core drv m ?pre w"
  let ?wp = "snd (SyncConfiguration drv m ?pre w)"
  let ?cx = "CreateGroup drv m grp (snd ?x)" and ?cp = "CreateGroup drv m grp ?wp"
  let ?gx = "GrantPrivileges drv m (Name grp) (GPrivileges grp) (GDatabases grp) (snd ?cx)"
  let ?gp = "GrantPrivileges drv m (Name grp) (GPrivileges grp) (GDatabases grp) (snd ?cp)"
  have core: "sync_core drv m config w = syncGroup drv m grp ?x"
    by (rule sync_core_groups_snoc [OF assms(1,2)])
  have al: "alike (snd ?x) ?cx ?wp ?cp"
    by (rule CreateGroup_alike) (rule prefix_same_db)
  have cx: "fst ?cx = None" using alikeD(1) [OF al] c by simp
  have alg: "alike (snd ?cx) ?gx (snd ?cp) ?gp"
    by (rule GrantPrivileges_alike) (rule alikeD(2) [OF al])
  have al2: "alike (snd ?x) ?gx ?wp ?gp"
    using al alg CreateGroup_extends GrantPrivileges_extends CreateGroup_extends GrantPrivileges_extends
    by (rule alike_seq)
  show "fst (fst (SyncConfiguration drv m config w)) =
           (fst (fst (SyncConfiguration drv m ?pre w)))
             \<lparr>GroupsCreated := GroupsCreated (fst (fst (SyncConfiguration drv m ?pre w))) @ [Name grp],
              Errors := Errors (fst (fst (SyncConfiguration drv m ?pre w))) @
                (case fst ?gp of
                   None \<Rightarrow> []
                 | Some e \<Rightarrow> [Wrap (''failed to grant privileges to group '' @ Name grp @ '': '') e])\<rparr>"
    using alikeD(1) [OF alg] by (simp add: sync_core_result core syncGroup_result_pair cx)
  have step: "snd (sync_core drv m config w) = snd ?gx"
    by (simp add: core syncGroup_world_pair cx)
  have ext: "extends (snd ?x) (snd ?gx)"
    using CreateGroup_extends GrantPrivileges_extends by (rule extends_trans)
  show "execs_of (since w (snd (SyncConfiguration drv m config w))) =
           execs_of (since w ?wp) @ execs_of (since ?wp (snd ?gp))"
    using step ext al2 by (rule step_after_prefix(1))
  show "dbstate (snd (SyncConfiguration drv m config w)) = dbstate (snd ?gp)"
    using step ext al2 by (rule step_after_prefix(2))
qed

lemma sync_empty:
  assumes "Users config = []" "CGroups config = []"
  shows "fst (fst (SyncConfiguration drv m config w)) = no_result"
    and "execs_of (since w (snd (SyncConfiguration drv m config w))) = []"
    and "dbstate (snd (SyncConfiguration drv m config w)) = dbstate w"
  by (simp_all add: sync_core_result sync_world_facts sync_core_empty [OF assms])

lemma sync_user_disabled:
  assumes "Users config = us @ [user]" and d: "\<not> Enabled user"
  shows "fst (fst (SyncConfiguration drv m config w)) = fst (fst (SyncConfiguration drv m (config\<lparr>Users := us\<rparr>) w))"
    and "execs_of (since w (snd (SyncConfiguration drv m config w))) =
           execs_of (since w (snd (SyncConfiguration drv m (config\<lparr>Users := us\<rparr>) w)))"
    and "dbstate (snd (SyncConfiguration drv m config w)) =
           dbstate (snd (SyncConfiguration drv m (config\<lparr>Users := us\<rparr>) w))"
proof -
  let ?pre = "config\<lparr>Users := us\<rparr>"
  let ?x = "sync_core drv m ?pre w"
  let ?wp = "snd (SyncConfiguration drv m ?pre w)"
  let ?l = "logf Info ''User is disabled, skipping'' [(''username'', Str (Username user))]"
  have core: "sync_core drv m config w = syncUser drv m user ?x"
    by (rule sync_core_users_snoc [OF assms(1)])
  show "fst (fst (SyncConfiguration drv m config w)) = fst (fst (SyncConfiguration drv m ?pre w))"
    by (simp add: sync_core_result core syncUser_result_pair d)
  have step: "snd (sync_core drv m config w) = snd ((), ?l (snd ?x))"
    by (simp add: core syncUser_world_pair d)
  have ext: "extends (snd ?x) (snd ((), ?l (snd ?x)))" by (simp add: extends_def)
  have al: "alike (snd ?x) ((), ?l (snd ?x)) ?wp ((), ?l ?wp)"
    by (rule alikeI) (simp_all add: prefix_same_db)
  show "execs_of (since w (snd (SyncConfiguration drv m config w))) = execs_of (since w ?wp)"
    using step_after_prefix(1) [OF step ext al] by simp
  show "dbstate (snd (SyncConfiguration drv m config w)) = dbstate ?wp"
    using step_after_prefix(2) [OF step ext al] by simp
qed

lemma sync_user_failed:
  assumes "Users config = us @ [user]" and en: "Enabled user"
    and c: "fst (CreateUser drv m user (snd (SyncConfiguration drv m (config\<lparr>Users := us\<rparr>) w))) = Some e"
  shows "fst (fst (SyncConfiguration drv m config w)) =
           (fst (fst (SyncConfiguration drv m (config\<lparr>Users := us\<rparr>) w)))
             \<lparr>Errors := Errors (fst (fst (SyncConfiguration drv m (config\<lparr>Users := us\<rparr>) w))) @
                [Wrap (''failed to create user '' @ Username user @ '': '') e]\<rparr>"
    and "execs_of (since w (snd (SyncConfiguration drv m config w))) =
           execs_of (since w (snd (SyncConfiguration drv m (config\<lparr>Users := us\<rparr>) w))) @
           execs_of (since (snd (SyncConfiguration drv m (config\<lparr>Users := us\<rparr>) w))
             (snd (CreateUser drv m user (snd (SyncConfiguration drv m (config\<lparr>Users := us\<rparr>) w)))))"
    and "dbstate (snd (SyncConfiguration drv m config w)) =
           dbstate (snd (CreateUser drv m user (snd (SyncConfiguration drv m (config\<lparr>Users := us\<rparr>) w))))"
proof -
  let ?pre = "config\<lparr>Users := us\<rparr>"
  let ?x = "sync_core drv m ?pre w"
  let ?wp = "snd (SyncConfiguration drv m ?pre w)"
  have core: "sync_core drv m config w = syncUser drv m user ?x"
    by (rule sync_core_users_snoc [OF assms(1)])
  have al: "alike (snd ?x) (CreateUser drv m user (snd ?x)) ?wp (CreateUser drv m user ?wp)"
    by (rule CreateUser_alike) (rule prefix_same_db)
  have cx: "fst (CreateUser drv m user (snd ?x)) = Some e" using alikeD(1) [OF al] c by simp
  show "fst (fst (SyncConfiguration drv m config w)) =
           (fst (fst (SyncConfiguration drv m ?pre w)))
             \<lparr>Errors := Errors (fst (fst (SyncConfiguration drv m ?pre w))) @
                [Wrap (''failed to create user '' @ Username user @ '': '') e]\<rparr>"
    by (simp add: sync_core_result core syncUser_result_pair cx en)
  have step: "snd (sync_core drv m config w) = snd (CreateUser drv m user (snd ?x))"
    by (simp add: core syncUser_world_pair cx en)
  show "execs_of (since w (snd (SyncConfiguration drv m config w))) =
           execs_of (since w ?wp) @ execs_of (since ?wp (snd (CreateUser drv m user ?wp)))"
    using step CreateUser_extends al by (rule step_after_prefix(1))
  show "dbstate (snd (SyncConfiguration drv m config w)) = dbstate (snd (CreateUser drv m user ?wp))"
    using step CreateUser_extends al by (rule step_after_prefix(2))
qed

lemma sync_user_created:
  assumes "Users config = us @ [user]" and en: "Enabled user"
    and c: "fst (CreateUser drv m user (snd (SyncConfiguration drv m (config\<lparr>Users := us\<rparr>) w))) = None"
  shows "fst (fst (SyncConfiguration drv m config w)) =
           (fst (fst (SyncConfiguration drv m (config\<lparr>Users := us\<rparr>) w)))
             \<lparr>UsersCreated := UsersCreated (fst (fst (SyncConfiguration drv m (config\<lparr>Users := us\<rparr>) w))) @ [Username user],
              Errors := Errors (fst (fst (SyncConfiguration drv m (config\<lparr>Users := us\<rparr>) w))) @
                fst (add_all drv m (Username user) (Groups user)
                       (snd (CreateUser drv m user (snd (SyncConfiguration drv m (config\<lparr>Users := us\<rparr>) w))))) @
                (case fst (GrantPrivileges drv m (Username user) (Privileges user) (Databases user)
                       (snd (add_all drv m (Username user) (Groups user)
                          (snd (CreateUser drv m user (snd (SyncConfiguration drv m (config\<lparr>Users := us\<rparr>) w))))))) of
                   None \<Rightarrow> []
                 | Some e \<Rightarrow> [Wrap (''failed to grant privileges to user '' @ Username user @ '': '') e])\<rparr>"
    and "execs_of (since w (snd (SyncConfiguration drv m config w))) =
           execs_of (since w (snd (SyncConfiguration drv m (config\<lparr>Users := us\<rparr>) w))) @
           execs_of (since (snd (SyncConfiguration drv m (config\<lparr>Users := us\<rparr>) w))
             (snd (GrantPrivileges drv m (Username user) (Privileges user) (Databases user)
                (snd (add_all drv m (Username user) (Groups user)
                   (snd (CreateUser drv m user (snd (SyncConfiguration drv m (config\<lparr>Users := us\<rparr>) w)))))))))"
    and "dbstate (snd (SyncConfiguration drv m config w)) =
           dbstate (snd (GrantPrivileges drv m (Username user) (Privileges user) (Databases user)
                (snd (add_all drv m (Username user) (Groups user)
                   (snd (CreateUser drv m user (snd (SyncConfiguration drv m (config\<lparr>Users := us\<rparr>) w))))))))"
proof -
  let ?pre = "config\<lparr>Users := us\<rparr>"
  let ?x = "sync_core drv m ?pre w"
  let ?wp = "snd (SyncConfiguration drv m ?pre w)"
  let ?cx = "CreateUser drv m user (snd ?x)" and ?cp = "CreateUser drv m user ?wp"
  let ?ax = "add_all drv m (Username user) (Groups user) (snd ?cx)"
  let ?ap = "add_all drv m (Username user) (Groups user) (snd ?cp)"
  let ?gx = "GrantPrivileges drv m (Username user) (Privileges user) (Databases user) (snd ?ax)"
  let ?gp = "GrantPrivileges drv m (Username user) (Privileges user) (Databases user) (snd ?ap)"
  have core: "sync_core drv m config w = syncUser drv m user ?x"
    by (rule sync_core_users_snoc [OF assms(1)])
  have al: "alike (snd ?x) ?cx ?wp ?cp"
    by (rule CreateUser_alike) (rule prefix_same_db)
  have cx: "fst ?cx = None" using alikeD(1) [OF al] c by simp
  have ala: "alike (snd ?cx) ?ax (snd ?cp) ?ap"
    by (rule add_all_alike) (rule alikeD(2) [OF al])
  have alg: "alike (snd ?ax) ?gx (snd ?ap) ?gp"
    by (rule GrantPrivileges_alike) (rule alikeD(2) [OF ala])
  have al2: "alike (snd ?cx) ?gx (snd ?cp) ?gp"
    using ala alg add_all_extends GrantPrivileges_extends add_all_extends GrantPrivileges_extends
    by (rule alike_seq)
  have e2: "extends (snd ?cx) (snd ?gx)" "extends (snd ?cp) (snd ?gp)"
    using add_all_extends GrantPrivileges_extends by (rule extends_trans)+
  have al3: "alike (snd ?x) ?gx ?wp ?gp"
    using al al2 CreateUser_extends e2(1) CreateUser_extends e2(2) by (rule alike_seq)
  show "fst (fst (SyncConfiguration drv m config w)) =
           (fst (fst (SyncConfiguration drv m ?pre w)))
             \<lparr>UsersCreated := UsersCreated (fst (fst (SyncConfiguration drv m ?pre w))) @ [Username user],
              Errors := Errors (fst (fst (SyncConfiguration drv m ?pre w))) @ fst ?ap @
                (case fst ?gp of
                   None \<Rightarrow> []
                 | Some e \<Rightarrow> [Wrap (''failed to grant privileges to user '' @ Username user @ '': '') e])\<rparr>"
    using alikeD(1) [OF alg] alikeD(1) [OF ala] by (simp add: sync_core_result core syncUser_result_pair cx en)
  have step: "snd (sync_core drv m config w) = snd ?gx"
    by (simp add: core syncUser_world_pair cx en)
  have ext: "extends (snd ?x) (snd ?gx)"
    using CreateUser_extends e2(1) by (rule extends_trans)
  show "execs_of (since w (snd (SyncConfiguration drv m config w))) =
           execs_of (since w ?wp) @ execs_of (since ?wp (snd ?gp))"
    using step ext al3 by (rule step_after_prefix(1))
  show "dbstate (snd (SyncConfiguration drv m config w)) = dbstate (snd ?gp)"
    using step ext al3 by (rule step_after_prefix(2))
qed

lemma config_runs:
  "Users config_groups = []"
  "CGroups config_groups = [app_group] @ [bad_group]"
  "fst (CreateGroup picky m_real bad_group
          (snd (SyncConfiguration picky m_real (config_groups\<lparr>CGroups := [app_group]\<rparr>) w0))) =
     Some (Wrap ''failed to create group bad: '' (Err ''rejected''))"
  "fst (fst (SyncConfiguration picky m_real (config_groups\<lparr>CGroups := [app_group]\<rparr>) w0)) =
     no_result\<lparr>GroupsCreated := [''app_group'']\<rparr>"
  "Users config_users = [alice] @ [eve]"
  "Enabled eve"
  "fst (CreateUser picky m_real eve
          (snd (SyncConfiguration picky m_real (config_users\<lparr>Users := [alice]\<rparr>) w0))) =
     Some (Wrap ''failed to create user eve: '' (Err ''rejected''))"
  "fst (fst (SyncConfiguration picky m_real (config_users\<lparr>Users := [alice]\<rparr>) w0)) =
     no_result\<lparr>UsersCreated := [Username alice], GroupsCreated := [''app_group''],
       Errors := [Wrap ''failed to create group bad: '' (Wrap ''failed to create group bad: '' (Err ''rejected''))]\<rparr>"
  "''failed to create group '' @ Name bad_group @ '': '' = ''failed to create group bad: ''"
  "''failed to create user '' @ Username eve @ '': '' = ''failed to create user eve: ''"
  by code_simp+

subsection \<open>The CREATE USER statement\<close>

text \<open>
  C5.  For every user spec the statement built by \<open>buildCreateUserQuery\<close> is, in this
  order: \<open>CREATE USER\<close> and the quoted username; a password clause holding the escaped
  password, present exactly when the auth method is not \<open>iam\<close> and the password is not
  empty; \<open>LOGIN\<close> or \<open>NOLOGIN\<close> according to \<open>CanLogin\<close>; and, exactly when the connection
  limit is not zero, a \<open>CONNECTION LIMIT\<close> clause with the literal \<open>-1\<close> for \<open>-1\<close> and the
  limit in decimal otherwise.  For a positive limit the decimal text is a string of digits
  whose value is the limit.
\<close>

theorem buildCreateUserQuery_clauses:
  "fst (buildCreateUserQuery m user w) =
     ''CREATE USER '' @ quoteIdentifier (Username user)
     @ (if AuthMethod user = ''iam'' then []
        else if Password user = [] then []
        else '' WITH PASSWORD '' @ [squote] @ escapeString (Password user) @ [squote])
     @ (if CanLogin user then '' LOGIN'' else '' NOLOGIN'')
     @ (if ConnectionLimit user = 0 then []
        else if ConnectionLimit user = - 1 then '' CONNECTION LIMIT -1''
        else '' CONNECTION LIMIT '' @ fmt_d (ConnectionLimit user))
   \<and> (0 < ConnectionLimit user \<longrightarrow>
        list_all is_digit (fmt_d (ConnectionLimit user)) \<and>
        int (digits_value (fmt_d (ConnectionLimit user))) = ConnectionLimit user)"
  by (simp add: buildCreateUserQuery_def Let_def fmt_d_def digits_all_digit digits_value_digits
           split: prod.splits)

theorem buildCreateUserQuery_clauses_witness:
  "0 < ConnectionLimit alice \<and> AuthMethod alice \<noteq> ''iam'' \<and> Password alice \<noteq> [] \<and>
   fst (buildCreateUserQuery m_real alice w0) =
     ''CREATE USER '' @ [dquote] @ ''al'' @ [dquote, dquote] @ ''ice'' @ [dquote] @
     '' WITH PASSWORD '' @ [squote] @ ''p'' @ [squote, squote] @ ''ss'' @ [squote] @
     '' LOGIN CONNECTION LIMIT 10'' \<and>
   digits_value (fmt_d (ConnectionLimit alice)) = 10"
  using buildCreateUserQuery_clauses [of m_real alice w0]
  by (simp add: alice_def quoteIdentifier_def escapeString_def fmt_d_def digits.simps digit_def
           dquote_def squote_def)

text \<open>
  C10.  For every negative connection limit other than \<open>-1\<close> the statement still ends in a
  \<open>CONNECTION LIMIT\<close> clause, and the clause holds that negative number as it is: a minus
  sign and the digits of its absolute value.
\<close>

theorem buildCreateUserQuery_negative_limit:
  "ConnectionLimit user < 0 \<Longrightarrow> ConnectionLimit user \<noteq> - 1 \<Longrightarrow>
   fst (buildCreateUserQuery m user w) =
     ''CREATE USER '' @ quoteIdentifier (Username user)
     @ (if AuthMethod user = ''iam'' then []
        else if Password user = [] then []
        else '' WITH PASSWORD '' @ [squote] @ escapeString (Password user) @ [squote])
     @ (if CanLogin user then '' LOGIN'' else '' NOLOGIN'')
     @ '' CONNECTION LIMIT -'' @ digits (nat (- ConnectionLimit user))
   \<and> list_all is_digit (digits (nat (- ConnectionLimit user)))
   \<and> - int (digits_value (digits (nat (- ConnectionLimit user)))) = ConnectionLimit user"
  by (simp add: buildCreateUserQuery_def Let_def fmt_d_def digits_all_digit digits_value_digits
           split: prod.splits)

theorem buildCreateUserQuery_negative_limit_witness:
  "ConnectionLimit (alice\<lparr>ConnectionLimit := - 5\<rparr>) < 0 \<and>
   ConnectionLimit (alice\<lparr>ConnectionLimit := - 5\<rparr>) \<noteq> - 1 \<and>
   fst (buildCreateUserQuery m_real (alice\<lparr>ConnectionLimit := - 5\<rparr>) w0) =
     ''CREATE USER '' @ [dquote] @ ''al'' @ [dquote, dquote] @ ''ice'' @ [dquote] @
     '' WITH PASSWORD '' @ [squote] @ ''p'' @ [squote, squote] @ ''ss'' @ [squote] @
     '' LOGIN CONNECTION LIMIT -5''"
  using buildCreateUserQuery_negative_limit [of "alice\<lparr>ConnectionLimit := - 5\<rparr>" m_real w0]
  by (simp add: alice_def quoteIdentifier_def escapeString_def fmt_d_def digits.simps digit_def
           dquote_def squote_def)

subsection \<open>Privilege grants and revocations\<close>

text \<open>
  C6.  \<open>GrantPrivileges\<close> and \<open>RevokePrivileges\<close> send one statement per (database,
  privilege) pair, databases in the outer loop and privileges in the inner one, and return
  the first failure at once: the statements sent are an initial segment of the statements
  of the pairs in that order, none but the last of them was rejected, all of them were sent
  unless the last one was rejected, and the error returned is the rejection of the last
  one, wrapped in a message naming its privilege, its database and the target.  In dry-run
  mode the same statements, one per pair and in the same order, are logged instead.
\<close>

theorem privileges_cross_product:
  "(\<not> dryRun m \<longrightarrow>
      stops_at_first_failure (map (grant_stmt target) (pairs databases privileges))
        (execs_of (since w (snd (GrantPrivileges drv m target privileges databases w)))) \<and>
      fst (GrantPrivileges drv m target privileges databases w) =
        first_failure (grant_msg target) (pairs databases privileges)
          (execs_of (since w (snd (GrantPrivileges drv m target privileges databases w)))) \<and>
      stops_at_first_failure (map (revoke_stmt target) (pairs databases privileges))
        (execs_of (since w (snd (RevokePrivileges drv m target privileges databases w)))) \<and>
      fst (RevokePrivileges drv m target privileges databases w) =
        first_failure (revoke_msg target) (pairs databases privileges)
          (execs_of (since w (snd (RevokePrivileges drv m target privileges databases w)))))
   \<and> (dryRun m \<longrightarrow>
      would_execute (since w (snd (GrantPrivileges drv m target privileges databases w))) =
        map (grant_stmt target) (pairs databases privileges) \<and>
      would_execute (since w (snd (RevokePrivileges drv m target privileges databases w))) =
        map (revoke_stmt target) (pairs databases privileges))"
  by (simp add: pairs_product GrantPrivileges_real RevokePrivileges_real GrantPrivileges_dry
        RevokePrivileges_dry exec_seq_stops)

theorem privileges_cross_product_witness:
  "\<not> dryRun m_real \<and>
   execs_of (since w0 (snd (GrantPrivileges (toy [grant_stmt ''bob'' (''app'', ''CREATE'')]) m_real ''bob''
       [''CONNECT'', ''CREATE'', ''TEMP''] [''app'', ''other''] w0))) =
     [(''GRANT CONNECT ON DATABASE '' @ [dquote] @ ''app'' @ [dquote] @ '' TO '' @ [dquote] @ ''bob'' @ [dquote], None),
      (''GRANT CREATE ON DATABASE '' @ [dquote] @ ''app'' @ [dquote] @ '' TO '' @ [dquote] @ ''bob'' @ [dquote],
       Some (Err ''rejected''))] \<and>
   fst (GrantPrivileges (toy [grant_stmt ''bob'' (''app'', ''CREATE'')]) m_real ''bob''
       [''CONNECT'', ''CREATE'', ''TEMP''] [''app'', ''other''] w0) =
     Some (Wrap ''failed to grant CREATE on app to bob: '' (Err ''rejected''))"
proof -
  let ?drv = "toy [grant_stmt ''bob'' (''app'', ''CREATE'')]"
  have real: "\<not> dryRun m_real" by (simp add: m_real_def)
  have run: "fst (exec_seq ?drv (map (grant_stmt ''bob'') (List.product [''app'', ''other''] [''CONNECT'', ''CREATE'', ''TEMP'']))
                (dbstate w0)) =
     [(''GRANT CONNECT ON DATABASE '' @ [dquote] @ ''app'' @ [dquote] @ '' TO '' @ [dquote] @ ''bob'' @ [dquote], None),
      (''GRANT CREATE ON DATABASE '' @ [dquote] @ ''app'' @ [dquote] @ '' TO '' @ [dquote] @ ''bob'' @ [dquote],
       Some (Err ''rejected''))]"
    by (simp add: w0_def grant_stmt_def quoteIdentifier_def dquote_def)
  have sent: "execs_of (since w0 (snd (GrantPrivileges ?drv m_real ''bob''
       [''CONNECT'', ''CREATE'', ''TEMP''] [''app'', ''other''] w0))) =
     [(''GRANT CONNECT ON DATABASE '' @ [dquote] @ ''app'' @ [dquote] @ '' TO '' @ [dquote] @ ''bob'' @ [dquote], None),
      (''GRANT CREATE ON DATABASE '' @ [dquote] @ ''app'' @ [dquote] @ '' TO '' @ [dquote] @ ''bob'' @ [dquote],
       Some (Err ''rejected''))]"
    using GrantPrivileges_real [OF real, of w0 ?drv "''bob''" "[''CONNECT'', ''CREATE'', ''TEMP'']" "[''app'', ''other'']"]
    unfolding run by blast
  have "fst (GrantPrivileges ?drv m_real ''bob'' [''CONNECT'', ''CREATE'', ''TEMP''] [''app'', ''other''] w0) =
        first_failure (grant_msg ''bob'') (pairs [''app'', ''other''] [''CONNECT'', ''CREATE'', ''TEMP''])
          (execs_of (since w0 (snd (GrantPrivileges ?drv m_real ''bob''
             [''CONNECT'', ''CREATE'', ''TEMP''] [''app'', ''other''] w0))))"
    using privileges_cross_product [of m_real "''bob''" "[''app'', ''other'']" "[''CONNECT'', ''CREATE'', ''TEMP'']" w0 ?drv]
      real by blast
  then have "fst (GrantPrivileges ?drv m_real ''bob'' [''CONNECT'', ''CREATE'', ''TEMP''] [''app'', ''other''] w0) =
     Some (Wrap ''failed to grant CREATE on app to bob: '' (Err ''rejected''))"
    unfolding sent by (simp add: first_failure_def grant_msg_def pairs_def)
  with real sent show ?thesis by blast
qed

subsection \<open>Catalog reads\<close>

text \<open>
  C9.  Every catalog read sends the queried name as the bound parameter of a fixed query
  text: \<open>UserExists\<close>, \<open>GroupExists\<close> and \<open>GetUserInfo\<close> (its existence check and its
  membership query) issue query texts that do not depend on the name, with the name as the
  only argument, and they send no statement.  When the server answers the existence query
  with no rows, \<open>UserExists\<close> and \<open>GroupExists\<close> return false without an error and
  \<open>GetUserInfo\<close> returns a record with \<open>Exists = False\<close> and no groups.
\<close>

theorem catalog_reads_bind_the_name:
  "reads_of (since w (snd (UserExists drv m name w))) = [(user_query, [name])] \<and>
   reads_of (since w (snd (GroupExists drv m name w))) = [(role_query, [name])] \<and>
   reads_of (since w (snd (GetUserInfo drv m now name w))) =
     (if drv_queryRow drv (dbstate w) user_query [name] = None
      then [(user_query, [name]), (groupQuery, [name])]
      else [(user_query, [name])]) \<and>
   execs_of (since w (snd (UserExists drv m name w))) = [] \<and>
   execs_of (since w (snd (GroupExists drv m name w))) = [] \<and>
   execs_of (since w (snd (GetUserInfo drv m now name w))) = [] \<and>
   (drv_queryRow drv (dbstate w) user_query [name] = Some ErrNoRows \<longrightarrow>
      fst (UserExists drv m name w) = (False, None) \<and>
      fst (GetUserInfo drv m now name w) =
        Ok \<lparr>DUsername = name, DGroups = [], DPrivileges = [], DDatabases = [], Exists = False,
            LastChecked = now\<rparr>) \<and>
   (drv_queryRow drv (dbstate w) role_query [name] = Some ErrNoRows \<longrightarrow>
      fst (GroupExists drv m name w) = (False, None))"
  by (simp add: UserExists_reads GroupExists_reads GetUserInfo_execs GetUserInfo_reads
        GetUserInfo_absent UserExists_result GroupExists_result user_query_def role_query_def
      split: option.splits)

theorem catalog_reads_bind_the_name_witness:
  "drv_queryRow (toy []) (dbstate w0) user_query [obrien] = Some ErrNoRows \<and>
   drv_queryRow (toy []) (dbstate w0) role_query [obrien] = Some ErrNoRows \<and>
   reads_of (since w0 (snd (GetUserInfo (toy []) m_real 0 obrien w0))) =
     [(''SELECT 1 FROM pg_user WHERE usename = $1'', [obrien])] \<and>
   fst (UserExists (toy []) m_real obrien w0) = (False, None) \<and>
   fst (GroupExists (toy []) m_real obrien w0) = (False, None) \<and>
   fst (GetUserInfo (toy []) m_real 0 obrien w0) =
     Ok \<lparr>DUsername = obrien, DGroups = [], DPrivileges = [], DDatabases = [], Exists = False,
         LastChecked = 0\<rparr>"
proof -
  have absent: "drv_queryRow (toy []) (dbstate w0) user_query [obrien] = Some ErrNoRows"
    "drv_queryRow (toy []) (dbstate w0) role_query [obrien] = Some ErrNoRows"
    by (simp_all add: w0_def)
  show ?thesis
    using catalog_reads_bind_the_name [of w0 "toy []" m_real obrien 0] absent
    by (simp add: user_query_def)
qed

subsection \<open>Dry-run mode\<close>

text \<open>
  C3, as stated, fails: in dry-run mode the three guarded operations still run their
  existence query, and when that query fails they return its error.  Here the connection
  is down and \<open>CreateUser\<close> in dry-run mode returns an error.
\<close>

theorem dry_run_CreateUser_fails_counterexample:
  "dryRun m_dry \<and>
   fst (CreateUser down m_dry alice w0) =
     Some (Wrap ''failed to check if user exists: '' (Err ''connection refused''))"
  by (simp add: CreateUser_dry_result m_dry_def down_def)

text \<open>
  C3, amended.  In dry-run mode none of the seven mutating operations sends a statement,
  and the state of the server is the same after the call as before.  \<open>GrantPrivileges\<close>,
  \<open>RevokePrivileges\<close>, \<open>AddUserToGroup\<close> and \<open>RemoveUserFromGroup\<close> return no error.
  \<open>CreateUser\<close>, \<open>DropUser\<close> and \<open>CreateGroup\<close> send their existence query, and return no
  error unless that query fails with an error other than "no rows", which they return
  wrapped.
\<close>

theorem dry_run_executes_nothing:
  assumes "dryRun m"
  shows
  "execs_of (since w (snd (CreateUser drv m user w))) = [] \<and>
   dbstate (snd (CreateUser drv m user w)) = dbstate w \<and>
   reads_of (since w (snd (CreateUser drv m user w))) = [(user_query, [Username user])] \<and>
   fst (CreateUser drv m user w) =
     (case drv_queryRow drv (dbstate w) user_query [Username user] of
        None \<Rightarrow> None
      | Some e \<Rightarrow> if e = ErrNoRows then None else Some (Wrap ''failed to check if user exists: '' e)) \<and>
   execs_of (since w (snd (DropUser drv m username w))) = [] \<and>
   dbstate (snd (DropUser drv m username w)) = dbstate w \<and>
   reads_of (since w (snd (DropUser drv m username w))) = [(user_query, [username])] \<and>
   fst (DropUser drv m username w) =
     (case drv_queryRow drv (dbstate w) user_query [username] of
        None \<Rightarrow> None
      | Some e \<Rightarrow> if e = ErrNoRows then None else Some (Wrap ''failed to check if user exists: '' e)) \<and>
   execs_of (since w (snd (CreateGroup drv m grp w))) = [] \<and>
   dbstate (snd (CreateGroup drv m grp w)) = dbstate w \<and>
   reads_of (since w (snd (CreateGroup drv m grp w))) = [(role_query, [Name grp])] \<and>
   fst (CreateGroup drv m grp w) =
     (case drv_queryRow drv (dbstate w) role_query [Name grp] of
        None \<Rightarrow> None
      | Some e \<Rightarrow> if e = ErrNoRows then None else Some (Wrap ''failed to check if group exists: '' e)) \<and>
   execs_of (since w (snd (GrantPrivileges drv m target privileges databases w))) = [] \<and>
   dbstate (snd (GrantPrivileges drv m target privileges databases w)) = dbstate w \<and>
   fst (GrantPrivileges drv m target privileges databases w) = None \<and>
   execs_of (since w (snd (RevokePrivileges drv m target privileges databases w))) = [] \<and>
   dbstate (snd (RevokePrivileges drv m target privileges databases w)) = dbstate w \<and>
   fst (RevokePrivileges drv m target privileges databases w) = None \<and>
   execs_of (since w (snd (AddUserToGroup drv m username groupName w))) = [] \<and>
   dbstate (snd (AddUserToGroup drv m username groupName w)) = dbstate w \<and>
   fst (AddUserToGroup drv m username groupName w) = None \<and>
   execs_of (since w (snd (RemoveUserFromGroup drv m username groupName w))) = [] \<and>
   dbstate (snd (RemoveUserFromGroup drv m username groupName w)) = dbstate w \<and>
   fst (RemoveUserFromGroup drv m username groupName w) = None"
  using assms
  by (simp add: CreateUser_dry CreateUser_reads CreateUser_dry_result DropUser_dry DropUser_reads
        DropUser_dry_result CreateGroup_dry CreateGroup_reads CreateGroup_dry_result
        GrantPrivileges_dry RevokePrivileges_dry AddUserToGroup_dry RemoveUserFromGroup_dry)

theorem dry_run_executes_nothing_witness:
  "dryRun m_dry \<and>
   fst (CreateUser (toy []) m_dry alice w0) = None \<and>
   execs_of (since w0 (snd (CreateUser (toy []) m_dry alice w0))) = [] \<and>
   dbstate (snd (CreateUser (toy []) m_dry alice w0)) = [] \<and>
   reads_of (since w0 (snd (CreateUser (toy []) m_dry alice w0))) =
     [(''SELECT 1 FROM pg_user WHERE usename = $1'', [Username alice])] \<and>
   fst (GrantPrivileges (toy []) m_dry ''bob'' [''CONNECT''] [''app''] w0) = None \<and>
   dbstate (snd (GrantPrivileges (toy []) m_dry ''bob'' [''CONNECT''] [''app''] w0)) = []"
proof -
  have dry: "dryRun m_dry" by (simp add: m_dry_def)
  show ?thesis
    using dry_run_executes_nothing [OF dry, of w0 "toy []" alice "''bob''" app_group "''bob''" "[''CONNECT'']" "[''app'']" "''g''"] dry
    by (simp add: w0_def user_query_def)
qed

subsection \<open>The orchestrator\<close>

text \<open>
  C1.  For every configuration \<open>SyncConfiguration\<close> returns a result with a nil error, and
  it walks the whole configuration: the existence queries it sends are, in order, one for
  every group and then one for every enabled user, whatever failed on the way.  What it
  returns and what it sends is fixed entity by entity.  For the empty configuration the
  result is empty and no statement is sent.  For a configuration of groups only, with
  \<open>grp\<close> the last of them: let \<open>P\<close> be the run on the groups before \<open>grp\<close>, and create
  \<open>grp\<close> on the server as \<open>P\<close> left it.  If the creation fails, the result is that of
  \<open>P\<close> with the error, prefixed with the group's name, appended to its error list; the
  statements sent are those of \<open>P\<close> followed by those of the failed creation, which can
  only be the \<open>CREATE ROLE\<close> of \<open>grp\<close>, so no privilege is granted.  If it succeeds, the
  result is that of \<open>P\<close> with the group appended to \<open>GroupsCreated\<close> and with the error of
  the privilege grant, if there is one; the statements sent are those of \<open>P\<close>, of the
  creation and of the grant.  For a configuration whose last user is \<open>user\<close>, with \<open>P\<close>
  the run without that user: a disabled user changes neither the result nor the statements
  sent; if the creation fails, the error, prefixed with the user's name, is appended and
  the statements sent are those of \<open>P\<close> followed by those of the failed creation only, so
  there is no membership and no privilege statement; if it succeeds, the user is appended
  to \<open>UsersCreated\<close>, every membership is attempted and every failed one appended as an
  error, then the error of the privilege grant if there is one, and the statements sent
  are those of \<open>P\<close>, of the creation, of the memberships and of the grant.  So a failure
  on one entity changes nothing in how the entities before it or after it are processed.
\<close>

theorem SyncConfiguration_completes:
  "snd (fst (SyncConfiguration drv m config w)) = None \<and>
   reads_of (since w (snd (SyncConfiguration drv m config w))) =
     map (\<lambda>g. (role_query, [Name g])) (CGroups config) @
     map (\<lambda>u. (user_query, [Username u])) (filter Enabled (Users config)) \<and>
   (Users config = [] \<and> CGroups config = [] \<longrightarrow>
      fst (fst (SyncConfiguration drv m config w)) = no_result \<and>
      execs_of (since w (snd (SyncConfiguration drv m config w))) = [] \<and>
      dbstate (snd (SyncConfiguration drv m config w)) = dbstate w) \<and>
   (Users config = [] \<and> CGroups config = gs @ [grp] \<longrightarrow>
      (let R = SyncConfiguration drv m config w;
           P = SyncConfiguration drv m (config\<lparr>CGroups := gs\<rparr>) w;
           C = CreateGroup drv m grp (snd P);
           G = GrantPrivileges drv m (Name grp) (GPrivileges grp) (GDatabases grp) (snd C)
       in case fst C of
            Some e \<Rightarrow>
              fst (fst R) =
                (fst (fst P))\<lparr>Errors := Errors (fst (fst P)) @
                   [Wrap (''failed to create group '' @ Name grp @ '': '') e]\<rparr> \<and>
              execs_of (since w (snd R)) = execs_of (since w (snd P)) @ execs_of (since (snd P) (snd C)) \<and>
              set (map fst (execs_of (since (snd P) (snd C)))) \<subseteq> {create_role_stmt grp} \<and>
              dbstate (snd R) = dbstate (snd C)
          | None \<Rightarrow>
              fst (fst R) =
                (fst (fst P))\<lparr>GroupsCreated := GroupsCreated (fst (fst P)) @ [Name grp],
                   Errors := Errors (fst (fst P)) @
                     (case fst G of
                        None \<Rightarrow> []
                      | Some e \<Rightarrow> [Wrap (''failed to grant privileges to group '' @ Name grp @ '': '') e])\<rparr> \<and>
              execs_of (since w (snd R)) = execs_of (since w (snd P)) @ execs_of (since (snd P) (snd G)) \<and>
              dbstate (snd R) = dbstate (snd G))) \<and>
   (Users config = us @ [user] \<longrightarrow>
      (let R = SyncConfiguration drv m config w;
           P = SyncConfiguration drv m (config\<lparr>Users := us\<rparr>) w;
           C = CreateUser drv m user (snd P);
           A = add_all drv m (Username user) (Groups user) (snd C);
           G = GrantPrivileges drv m (Username user) (Privileges user) (Databases user) (snd A)
       in if \<not> Enabled user
          then fst (fst R) = fst (fst P) \<and>
               execs_of (since w (snd R)) = execs_of (since w (snd P)) \<and>
               dbstate (snd R) = dbstate (snd P)
          else case fst C of
            Some e \<Rightarrow>
              fst (fst R) =
                (fst (fst P))\<lparr>Errors := Errors (fst (fst P)) @
                   [Wrap (''failed to create user '' @ Username user @ '': '') e]\<rparr> \<and>
              execs_of (since w (snd R)) = execs_of (since w (snd P)) @ execs_of (since (snd P) (snd C)) \<and>
              set (map fst (execs_of (since (snd P) (snd C)))) \<subseteq>
                {create_user_stmt user, rds_iam_stmt (Username user)} \<and>
              dbstate (snd R) = dbstate (snd C)
          | None \<Rightarrow>
              fst (fst R) =
                (fst (fst P))\<lparr>UsersCreated := UsersCreated (fst (fst P)) @ [Username user],
                   Errors := Errors (fst (fst P)) @ fst A @
                     (case fst G of
                        None \<Rightarrow> []
                      | Some e \<Rightarrow> [Wrap (''failed to grant privileges to user '' @ Username user @ '': '') e])\<rparr> \<and>
              execs_of (since w (snd R)) = execs_of (since w (snd P)) @ execs_of (since (snd P) (snd G)) \<and>
              dbstate (snd R) = dbstate (snd G)))"
proof -
  have 1: "snd (fst (SyncConfiguration drv m config w)) = None"
    by (simp add: SyncConfiguration_def split_def Let_def)
  note 2 = SyncConfiguration_reads [of w drv m config]
  have 3: "Users config = [] \<and> CGroups config = [] \<longrightarrow>
      fst (fst (SyncConfiguration drv m config w)) = no_result \<and>
      execs_of (since w (snd (SyncConfiguration drv m config w))) = [] \<and>
      dbstate (snd (SyncConfiguration drv m config w)) = dbstate w"
    using sync_empty [where config = config and drv = drv and m = m and w = w] by blast
  have 4: "Users config = [] \<and> CGroups config = gs @ [grp] \<longrightarrow>
      (let R = SyncConfiguration drv m config w;
           P = SyncConfiguration drv m (config\<lparr>CGroups := gs\<rparr>) w;
           C = CreateGroup drv m grp (snd P);
           G = GrantPrivileges drv m (Name grp) (GPrivileges grp) (GDatabases grp) (snd C)
       in case fst C of
            Some e \<Rightarrow>
              fst (fst R) =
                (fst (fst P))\<lparr>Errors := Errors (fst (fst P)) @
                   [Wrap (''failed to create group '' @ Name grp @ '': '') e]\<rparr> \<and>
              execs_of (since w (snd R)) = execs_of (since w (snd P)) @ execs_of (since (snd P) (snd C)) \<and>
              set (map fst (execs_of (since (snd P) (snd C)))) \<subseteq> {create_role_stmt grp} \<and>
              dbstate (snd R) = dbstate (snd C)
          | None \<Rightarrow>
              fst (fst R) =
                (fst (fst P))\<lparr>GroupsCreated := GroupsCreated (fst (fst P)) @ [Name grp],
                   Errors := Errors (fst (fst P)) @
                     (case fst G of
                        None \<Rightarrow> []
                      | Some e \<Rightarrow> [Wrap (''failed to grant privileges to group '' @ Name grp @ '': '') e])\<rparr> \<and>
              execs_of (since w (snd R)) = execs_of (since w (snd P)) @ execs_of (since (snd P) (snd G)) \<and>
              dbstate (snd R) = dbstate (snd G))"
  proof (intro impI, elim conjE)
    assume a: "Users config = []" "CGroups config = gs @ [grp]"
    show "let R = SyncConfiguration drv m config w;
           P = SyncConfiguration drv m (config\<lparr>CGroups := gs\<rparr>) w;
           C = CreateGroup drv m grp (snd P);
           G = GrantPrivileges drv m (Name grp) (GPrivileges grp) (GDatabases grp) (snd C)
       in case fst C of
            Some e \<Rightarrow>
              fst (fst R) =
                (fst (fst P))\<lparr>Errors := Errors (fst (fst P)) @
                   [Wrap (''failed to create group '' @ Name grp @ '': '') e]\<rparr> \<and>
              execs_of (since w (snd R)) = execs_of (since w (snd P)) @ execs_of (since (snd P) (snd C)) \<and>
              set (map fst (execs_of (since (snd P) (snd C)))) \<subseteq> {create_role_stmt grp} \<and>
              dbstate (snd R) = dbstate (snd C)
          | None \<Rightarrow>
              fst (fst R) =
                (fst (fst P))\<lparr>GroupsCreated := GroupsCreated (fst (fst P)) @ [Name grp],
                   Errors := Errors (fst (fst P)) @
                     (case fst G of
                        None \<Rightarrow> []
                      | Some e \<Rightarrow> [Wrap (''failed to grant privileges to group '' @ Name grp @ '': '') e])\<rparr> \<and>
              execs_of (since w (snd R)) = execs_of (since w (snd P)) @ execs_of (since (snd P) (snd G)) \<and>
              dbstate (snd R) = dbstate (snd G)"
    proof (cases "fst (CreateGroup drv m grp (snd (SyncConfiguration drv m (config\<lparr>CGroups := gs\<rparr>) w)))")
      case None
      show ?thesis
        unfolding Let_def None option.case
        by (simp add: sync_group_created [OF a None])
    next
      case (Some e)
      show ?thesis
        unfolding Let_def Some option.case
        using CreateGroup_execs(1) [of "snd (SyncConfiguration drv m (config\<lparr>CGroups := gs\<rparr>) w)" drv m grp]
        by (simp add: sync_group_failed [OF a Some])
    qed
  qed
  have 5: "Users config = us @ [user] \<longrightarrow>
      (let R = SyncConfiguration drv m config w;
           P = SyncConfiguration drv m (config\<lparr>Users := us\<rparr>) w;
           C = CreateUser drv m user (snd P);
           A = add_all drv m (Username user) (Groups user) (snd C);
           G = GrantPrivileges drv m (Username user) (Privileges user) (Databases user) (snd A)
       in if \<not> Enabled user
          then fst (fst R) = fst (fst P) \<and>
               execs_of (since w (snd R)) = execs_of (since w (snd P)) \<and>
               dbstate (snd R) = dbstate (snd P)
          else case fst C of
            Some e \<Rightarrow>
              fst (fst R) =
                (fst (fst P))\<lparr>Errors := Errors (fst (fst P)) @
                   [Wrap (''failed to create user '' @ Username user @ '': '') e]\<rparr> \<and>
              execs_of (since w (snd R)) = execs_of (since w (snd P)) @ execs_of (since (snd P) (snd C)) \<and>
              set (map fst (execs_of (since (snd P) (snd C)))) \<subseteq>
                {create_user_stmt user, rds_iam_stmt (Username user)} \<and>
              dbstate (snd R) = dbstate (snd C)
          | None \<Rightarrow>
              fst (fst R) =
                (fst (fst P))\<lparr>UsersCreated := UsersCreated (fst (fst P)) @ [Username user],
                   Errors := Errors (fst (fst P)) @ fst A @
                     (case fst G of
                        None \<Rightarrow> []
                      | Some e \<Rightarrow> [Wrap (''failed to grant privileges to user '' @ Username user @ '': '') e])\<rparr> \<and>
              execs_of (since w (snd R)) = execs_of (since w (snd P)) @ execs_of (since (snd P) (snd G)) \<and>
              dbstate (snd R) = dbstate (snd G))"
  proof
    assume a: "Users config = us @ [user]"
    show "let R = SyncConfiguration drv m config w;
           P = SyncConfiguration drv m (config\<lparr>Users := us\<rparr>) w;
           C = CreateUser drv m user (snd P);
           A = add_all drv m (Username user) (Groups user) (snd C);
           G = GrantPrivileges drv m (Username user) (Privileges user) (Databases user) (snd A)
       in if \<not> Enabled user
          then fst (fst R) = fst (fst P) \<and>
               execs_of (since w (snd R)) = execs_of (since w (snd P)) \<and>
               dbstate (snd R) = dbstate (snd P)
          else case fst C of
            Some e \<Rightarrow>
              fst (fst R) =
                (fst (fst P))\<lparr>Errors := Errors (fst (fst P)) @
                   [Wrap (''failed to create user '' @ Username user @ '': '') e]\<rparr> \<and>
              execs_of (since w (snd R)) = execs_of (since w (snd P)) @ execs_of (since (snd P) (snd C)) \<and>
              set (map fst (execs_of (since (snd P) (snd C)))) \<subseteq>
                {create_user_stmt user, rds_iam_stmt (Username user)} \<and>
              dbstate (snd R) = dbstate (snd C)
          | None \<Rightarrow>
              fst (fst R) =
                (fst (fst P))\<lparr>UsersCreated := UsersCreated (fst (fst P)) @ [Username user],
                   Errors := Errors (fst (fst P)) @ fst A @
                     (case fst G of
                        None \<Rightarrow> []
                      | Some e \<Rightarrow> [Wrap (''failed to grant privileges to user '' @ Username user @ '': '') e])\<rparr> \<and>
              execs_of (since w (snd R)) = execs_of (since w (snd P)) @ execs_of (since (snd P) (snd G)) \<and>
              dbstate (snd R) = dbstate (snd G)"
    proof (cases "Enabled user")
      case False
      show ?thesis
        unfolding Let_def using False by (simp add: sync_user_disabled [OF a False])
    next
      case True
      show ?thesis
      proof (cases "fst (CreateUser drv m user (snd (SyncConfiguration drv m (config\<lparr>Users := us\<rparr>) w)))")
        case None
        show ?thesis
          unfolding Let_def None option.case
          using True by (simp add: sync_user_created [OF a True None])
      next
        case (Some e)
        show ?thesis
          unfolding Let_def Some option.case
          using True
            CreateUser_execs [of "snd (SyncConfiguration drv m (config\<lparr>Users := us\<rparr>) w)" drv m user]
          by (simp add: sync_user_failed [OF a True Some])
      qed
    qed
  qed
  show ?thesis using 1 2 3 4 5 by blast
qed

theorem SyncConfiguration_completes_witness:
  "Users config_groups = [] \<and> CGroups config_groups = [app_group] @ [bad_group] \<and>
   fst (CreateGroup picky m_real bad_group
          (snd (SyncConfiguration picky m_real (config_groups\<lparr>CGroups := [app_group]\<rparr>) w0))) =
     Some (Wrap ''failed to create group bad: '' (Err ''rejected'')) \<and>
   fst (fst (SyncConfiguration picky m_real config_groups w0)) =
     no_result\<lparr>GroupsCreated := [''app_group''],
       Errors := [Wrap ''failed to create group bad: '' (Wrap ''failed to create group bad: '' (Err ''rejected''))]\<rparr> \<and>
   snd (fst (SyncConfiguration picky m_real config_groups w0)) = None \<and>
   Users config_users = [alice] @ [eve] \<and> Enabled eve \<and>
   fst (CreateUser picky m_real eve
          (snd (SyncConfiguration picky m_real (config_users\<lparr>Users := [alice]\<rparr>) w0))) =
     Some (Wrap ''failed to create user eve: '' (Err ''rejected'')) \<and>
   fst (fst (SyncConfiguration picky m_real config_users w0)) =
     no_result\<lparr>UsersCreated := [Username alice], GroupsCreated := [''app_group''],
       Errors := [Wrap ''failed to create group bad: '' (Wrap ''failed to create group bad: '' (Err ''rejected'')),
                  Wrap ''failed to create user eve: '' (Wrap ''failed to create user eve: '' (Err ''rejected''))]\<rparr>"
proof -
  note A = SyncConfiguration_completes [of picky m_real config_groups w0 "[app_group]" bad_group "[]" eve]
  note B = SyncConfiguration_completes [of picky m_real config_users w0 "[]" bad_group "[alice]" eve]
  have a: "fst (fst (SyncConfiguration picky m_real config_groups w0)) =
     no_result\<lparr>GroupsCreated := [''app_group''],
       Errors := [Wrap ''failed to create group bad: '' (Wrap ''failed to create group bad: '' (Err ''rejected''))]\<rparr>"
    using A config_runs(1,2) by (simp add: Let_def config_runs(3,4) no_result_def) (simp add: bad_group_def)
  have a2: "snd (fst (SyncConfiguration picky m_real config_groups w0)) = None" using A by blast
  have b: "fst (fst (SyncConfiguration picky m_real config_users w0)) =
     no_result\<lparr>UsersCreated := [Username alice], GroupsCreated := [''app_group''],
       Errors := [Wrap ''failed to create group bad: '' (Wrap ''failed to create group bad: '' (Err ''rejected'')),
                  Wrap ''failed to create user eve: '' (Wrap ''failed to create user eve: '' (Err ''rejected''))]\<rparr>"
    using B config_runs(5,6) by (simp add: Let_def config_runs(7,8) no_result_def) (simp add: eve_def)
  show ?thesis using a a2 b config_runs(1,2,3,5,6,7) by blast
qed

text \<open>
  C7.  \<open>AddUserToGroup\<close> and \<open>RemoveUserFromGroup\<close> send no existence query.  Outside
  dry-run mode they send their one statement, and the server's answer is what they
  return, wrapped when it is an error.  The membership loop of \<open>SyncConfiguration\<close> sends
  the statement of every group of the user, whatever the answers to the earlier ones, and
  appends one error for each rejected statement.  A user whose creation returned no error
  is appended to \<open>UsersCreated\<close>, whatever happens to the memberships, and the statements
  sent for the user are those of the creation, then those of all the user's groups, then
  an initial segment of those of the user's privilege grants.
\<close>

theorem membership_not_guarded:
  "reads_of (since w (snd (AddUserToGroup drv m username groupName w))) = [] \<and>
   reads_of (since w (snd (RemoveUserFromGroup drv m username groupName w))) = [] \<and>
   (\<not> dryRun m \<longrightarrow>
      execs_of (since w (snd (AddUserToGroup drv m username groupName w))) =
        [(member_stmt username groupName, fst (drv_exec drv (dbstate w) (member_stmt username groupName)))] \<and>
      fst (AddUserToGroup drv m username groupName w) =
        map_option (Wrap (member_msg username groupName))
          (fst (drv_exec drv (dbstate w) (member_stmt username groupName))) \<and>
      execs_of (since w (snd (RemoveUserFromGroup drv m username groupName w))) =
        [(unmember_stmt username groupName, fst (drv_exec drv (dbstate w) (unmember_stmt username groupName)))] \<and>
      fst (RemoveUserFromGroup drv m username groupName w) =
        map_option (Wrap (unmember_msg username groupName))
          (fst (drv_exec drv (dbstate w) (unmember_stmt username groupName))) \<and>
      map fst (execs_of (since w (snd (fold (syncMembership drv m user) gs (res, w))))) =
        map (member_stmt (Username user)) gs \<and>
      fst (fold (syncMembership drv m user) gs (res, w)) =
        res\<lparr>Errors := Errors res @
          membership_errors (Username user) gs
            (execs_of (since w (snd (fold (syncMembership drv m user) gs (res, w)))))\<rparr>) \<and>
   (Enabled user \<and> fst (CreateUser drv m user w) = None \<longrightarrow>
      UsersCreated (fst (syncUser drv m user (res, w))) = UsersCreated res @ [Username user] \<and>
      (\<not> dryRun m \<longrightarrow>
         (\<exists>ys. map fst (execs_of (since w (snd (syncUser drv m user (res, w))))) =
            map fst (execs_of (since w (snd (CreateUser drv m user w)))) @
            map (member_stmt (Username user)) (Groups user) @ ys \<and>
            prefix ys (map (grant_stmt (Username user)) (pairs (Databases user) (Privileges user))))))"
proof -
  have "\<not> dryRun m \<longrightarrow>
      execs_of (since w (snd (AddUserToGroup drv m username groupName w))) =
        [(member_stmt username groupName, fst (drv_exec drv (dbstate w) (member_stmt username groupName)))] \<and>
      fst (AddUserToGroup drv m username groupName w) =
        map_option (Wrap (member_msg username groupName))
          (fst (drv_exec drv (dbstate w) (member_stmt username groupName))) \<and>
      execs_of (since w (snd (RemoveUserFromGroup drv m username groupName w))) =
        [(unmember_stmt username groupName, fst (drv_exec drv (dbstate w) (unmember_stmt username groupName)))] \<and>
      fst (RemoveUserFromGroup drv m username groupName w) =
        map_option (Wrap (unmember_msg username groupName))
          (fst (drv_exec drv (dbstate w) (unmember_stmt username groupName)))"
    by (simp add: AddUserToGroup_real RemoveUserFromGroup_real member_stmt_def member_msg_def
          unmember_stmt_def unmember_msg_def)
  moreover have "\<not> dryRun m \<longrightarrow>
      map fst (execs_of (since w (snd (fold (syncMembership drv m user) gs (res, w))))) =
        map (member_stmt (Username user)) gs \<and>
      fst (fold (syncMembership drv m user) gs (res, w)) =
        res\<lparr>Errors := Errors res @
          membership_errors (Username user) gs
            (execs_of (since w (snd (fold (syncMembership drv m user) gs (res, w)))))\<rparr>"
    using memberships_real [of m w drv user gs res] memberships_result [of m drv user gs res w] by blast
  moreover have "Enabled user \<and> fst (CreateUser drv m user w) = None \<longrightarrow>
      UsersCreated (fst (syncUser drv m user (res, w))) = UsersCreated res @ [Username user] \<and>
      (\<not> dryRun m \<longrightarrow>
         (\<exists>ys. map fst (execs_of (since w (snd (syncUser drv m user (res, w))))) =
            map fst (execs_of (since w (snd (CreateUser drv m user w)))) @
            map (member_stmt (Username user)) (Groups user) @ ys \<and>
            prefix ys (map (grant_stmt (Username user)) (pairs (Databases user) (Privileges user)))))"
    using syncUser_created [of user drv m w res] syncUser_execs [of user drv m w res] by blast
  ultimately show ?thesis
    using AddUserToGroup_reads [of w drv m username groupName]
      RemoveUserFromGroup_reads [of w drv m username groupName]
    by blast
qed

theorem membership_not_guarded_witness:
  "\<not> dryRun m_real \<and> Enabled dave \<and> fst (CreateUser strict m_real dave w0) = None \<and>
   fst (AddUserToGroup strict m_real ''dave'' ''doesNotExist'' w0) =
     Some (Wrap ''failed to add user dave to group doesNotExist: '' (Err ''rejected'')) \<and>
   reads_of (since w0 (snd (AddUserToGroup strict m_real ''dave'' ''doesNotExist'' w0))) = [] \<and>
   UsersCreated (fst (syncUser strict m_real dave (no_result, w0))) = [''dave''] \<and>
   Errors (fst (syncUser strict m_real dave (no_result, w0))) =
     [Wrap ''failed to add user dave to group doesNotExist: ''
        (Wrap ''failed to add user dave to group doesNotExist: '' (Err ''rejected''))] \<and>
   map fst (execs_of (events (snd (syncUser strict m_real dave (no_result, w0))))) =
     [create_user_stmt dave, member_stmt ''dave'' ''doesNotExist'', member_stmt ''dave'' ''app_group'',
      grant_stmt ''dave'' (''app'', ''CONNECT'')]"
proof -
  note inst = membership_not_guarded [of w0 strict m_real "''dave''" "''doesNotExist''" dave "Groups dave" no_result]
  have "reads_of (since w0 (snd (AddUserToGroup strict m_real ''dave'' ''doesNotExist'' w0))) = []"
    using inst by blast
  moreover have "UsersCreated (fst (syncUser strict m_real dave (no_result, w0))) = UsersCreated no_result @ [Username dave]"
    using inst dave_run(2,3) by blast
  moreover have "UsersCreated no_result @ [Username dave] = [''dave'']" by code_simp
  moreover have "Errors (fst (syncUser strict m_real dave (no_result, w0))) =
     [Wrap ''failed to add user dave to group doesNotExist: ''
        (Wrap ''failed to add user dave to group doesNotExist: '' (Err ''rejected''))]"
    unfolding dave_run(5) by (simp add: no_result_def)
  ultimately show ?thesis using dave_run(1,2,3,4,6) by simp
qed

subsection \<open>Idempotent creation\<close>

text \<open>
  C2 does not hold of \<open>CreateUser\<close> for a user that cannot log in.  \<open>UserExists\<close> asks
  \<open>pg_user\<close>, which does not list such a role, so after a first call that created the
  role the existence check still answers false: the second call sends \<open>CREATE USER\<close>
  again and returns the server's error that the role already exists.  For a user that can
  log in, and for a group, whose check asks \<open>pg_roles\<close>, the second call is the no-op
  the claim describes.
\<close>

theorem CreateUser_nologin_twice:
  "fst (CreateUser pg m_real nologin_user pg_w0) = None \<and>
   dbstate (snd (CreateUser pg m_real nologin_user pg_w0)) = [(''nologin_user'', False)] \<and>
   fst (UserExists pg m_real ''nologin_user'' (snd (CreateUser pg m_real nologin_user pg_w0))) = (False, None) \<and>
   fst (CreateUser pg m_real nologin_user (snd (CreateUser pg m_real nologin_user pg_w0))) =
     Some (Wrap ''failed to create user nologin_user: ''
             (Err (''pq: role '' @ [dquote] @ ''nologin_user'' @ [dquote] @ '' already exists''))) \<and>
   execs_of (events (snd (CreateUser pg m_real nologin_user (snd (CreateUser pg m_real nologin_user pg_w0))))) =
     [(create_user_stmt nologin_user, None),
      (create_user_stmt nologin_user,
       Some (Err (''pq: role '' @ [dquote] @ ''nologin_user'' @ [dquote] @ '' already exists'')))] \<and>
   fst (CreateUser pg m_real login_user (snd (CreateUser pg m_real login_user pg_w0))) = None \<and>
   execs_of (events (snd (CreateUser pg m_real login_user (snd (CreateUser pg m_real login_user pg_w0))))) =
     [(create_user_stmt login_user, None)] \<and>
   fst (CreateGroup pg m_real app_group (snd (CreateGroup pg m_real app_group pg_w0))) = None \<and>
   execs_of (events (snd (CreateGroup pg m_real app_group (snd (CreateGroup pg m_real app_group pg_w0))))) =
     [(create_role_stmt app_group, None)]"
  by code_simp

subsection \<open>Quoting of names in statement text\<close>

text \<open>
  C4, as stated, fails for privilege keywords: \<open>GrantPrivileges\<close> puts the keyword into the
  statement text as it is.  Here the keyword holds both quote characters, and the text
  sent is neither the one with the keyword passed through \<open>quoteIdentifier\<close> nor the one
  with it passed through \<open>escapeString\<close>.
\<close>

theorem privilege_keyword_raw_counterexample:
  "map fst (execs_of (events (snd (GrantPrivileges (toy []) m_real ''bob'' [obrien] [''app''] w0)))) =
     [''GRANT '' @ obrien @ '' ON DATABASE '' @ quoteIdentifier ''app'' @ '' TO '' @ quoteIdentifier ''bob''] \<and>
   ''GRANT '' @ obrien @ '' ON DATABASE '' @ quoteIdentifier ''app'' @ '' TO '' @ quoteIdentifier ''bob'' \<noteq>
   ''GRANT '' @ quoteIdentifier obrien @ '' ON DATABASE '' @ quoteIdentifier ''app'' @ '' TO '' @ quoteIdentifier ''bob'' \<and>
   ''GRANT '' @ obrien @ '' ON DATABASE '' @ quoteIdentifier ''app'' @ '' TO '' @ quoteIdentifier ''bob'' \<noteq>
   ''GRANT '' @ escapeString obrien @ '' ON DATABASE '' @ quoteIdentifier ''app'' @ '' TO '' @ quoteIdentifier ''bob''"
  by code_simp

text \<open>
  C4, amended.  In every statement the mutator sends or, in dry-run mode, logs, each user
  name, group name, database name and grant target is passed through \<open>quoteIdentifier\<close>
  and the password is passed through \<open>escapeString\<close> between single quotes; the privilege
  keyword of \<open>GrantPrivileges\<close> and \<open>RevokePrivileges\<close> is the one value put into the text
  as it is.  A name quoted by \<open>quoteIdentifier\<close>, followed by anything that does not start
  with a double quote, is read back as one identifier holding exactly that name, and an
  escaped password between single quotes is read back as one literal holding exactly that
  password.
\<close>

theorem names_are_quoted:
  "(\<forall>q \<in> statements w (snd (CreateUser drv m user w)).
      q = ''CREATE USER '' @ quoteIdentifier (Username user)
          @ (if AuthMethod user = ''iam'' then []
             else if Password user = [] then []
             else '' WITH PASSWORD '' @ [squote] @ escapeString (Password user) @ [squote])
          @ (if CanLogin user then '' LOGIN'' else '' NOLOGIN'')
          @ (if ConnectionLimit user = 0 then []
             else if ConnectionLimit user = - 1 then '' CONNECTION LIMIT -1''
             else '' CONNECTION LIMIT '' @ fmt_d (ConnectionLimit user))
      \<or> q = ''GRANT rds_iam TO '' @ quoteIdentifier (Username user)) \<and>
   (\<forall>q \<in> statements w (snd (DropUser drv m username w)). q = ''DROP USER '' @ quoteIdentifier username) \<and>
   (\<forall>q \<in> statements w (snd (CreateGroup drv m grp w)).
      q = ''CREATE ROLE '' @ quoteIdentifier (Name grp) @ (if Inherit grp then '' INHERIT'' else '' NOINHERIT'')) \<and>
   (\<forall>q \<in> statements w (snd (AddUserToGroup drv m username groupName w)).
      q = ''GRANT '' @ quoteIdentifier groupName @ '' TO '' @ quoteIdentifier username) \<and>
   (\<forall>q \<in> statements w (snd (RemoveUserFromGroup drv m username groupName w)).
      q = ''REVOKE '' @ quoteIdentifier groupName @ '' FROM '' @ quoteIdentifier username) \<and>
   (\<forall>q \<in> statements w (snd (GrantPrivileges drv m target privileges databases w)).
      \<exists>dbname \<in> set databases. \<exists>priv \<in> set privileges.
        q = ''GRANT '' @ priv @ '' ON DATABASE '' @ quoteIdentifier dbname @ '' TO '' @ quoteIdentifier target) \<and>
   (\<forall>q \<in> statements w (snd (RevokePrivileges drv m target privileges databases w)).
      \<exists>dbname \<in> set databases. \<exists>priv \<in> set privileges.
        q = ''REVOKE '' @ priv @ '' ON DATABASE '' @ quoteIdentifier dbname @ '' FROM '' @ quoteIdentifier target) \<and>
   (\<forall>name rest. rest = [] \<or> hd rest \<noteq> dquote \<longrightarrow>
      scan_token dquote (quoteIdentifier name @ rest) = Some (name, rest)) \<and>
   (\<forall>s rest. rest = [] \<or> hd rest \<noteq> squote \<longrightarrow>
      scan_token squote ([squote] @ escapeString s @ [squote] @ rest) = Some (s, rest))"
proof -
  have 1: "\<forall>q \<in> statements w (snd (CreateUser drv m user w)).
      q = create_user_stmt user \<or> q = rds_iam_stmt (Username user)"
    using CreateUser_execs [of w drv m user] CreateUser_would_execute [of w drv m user]
    by (auto simp: statements_def)
  have 2: "\<forall>q \<in> statements w (snd (DropUser drv m username w)). q = drop_user_stmt username"
    using DropUser_execs [of w drv m username] by (auto simp: statements_def)
  have 3: "\<forall>q \<in> statements w (snd (CreateGroup drv m grp w)). q = create_role_stmt grp"
    using CreateGroup_execs [of w drv m grp] by (auto simp: statements_def)
  have 4: "\<forall>q \<in> statements w (snd (AddUserToGroup drv m username groupName w)). q = member_stmt username groupName"
    using membership_execs(1,2) [of w drv m username groupName] by (auto simp: statements_def)
  have 5: "\<forall>q \<in> statements w (snd (RemoveUserFromGroup drv m username groupName w)). q = unmember_stmt username groupName"
    using membership_execs(3,4) [of w drv m username groupName] by (auto simp: statements_def)
  have 6: "\<forall>q \<in> statements w (snd (GrantPrivileges drv m target privileges databases w)).
      \<exists>dbname \<in> set databases. \<exists>priv \<in> set privileges. q = grant_stmt target (dbname, priv)"
  proof
    fix q
    assume "q \<in> statements w (snd (GrantPrivileges drv m target privileges databases w))"
    then have "q \<in> grant_stmt target ` set (pairs databases privileges)"
      using GrantPrivileges_stmts [of w drv m target privileges databases] by (auto simp: statements_def)
    then have "q \<in> grant_stmt target ` (set databases \<times> set privileges)"
      by (simp only: set_pairs)
    then show "\<exists>dbname \<in> set databases. \<exists>priv \<in> set privileges. q = grant_stmt target (dbname, priv)"
      by auto
  qed
  have 7: "\<forall>q \<in> statements w (snd (RevokePrivileges drv m target privileges databases w)).
      \<exists>dbname \<in> set databases. \<exists>priv \<in> set privileges. q = revoke_stmt target (dbname, priv)"
  proof
    fix q
    assume "q \<in> statements w (snd (RevokePrivileges drv m target privileges databases w))"
    then have "q \<in> revoke_stmt target ` set (pairs databases privileges)"
      using RevokePrivileges_stmts [of w drv m target privileges databases] by (auto simp: statements_def)
    then have "q \<in> revoke_stmt target ` (set databases \<times> set privileges)"
      by (simp only: set_pairs)
    then show "\<exists>dbname \<in> set databases. \<exists>priv \<in> set privileges. q = revoke_stmt target (dbname, priv)"
      by auto
  qed
  have 8: "\<forall>name rest. rest = [] \<or> hd rest \<noteq> dquote \<longrightarrow>
      scan_token dquote (quoteIdentifier name @ rest) = Some (name, rest)"
    using quoteIdentifier_scans_back by blast
  have 9: "\<forall>s rest. rest = [] \<or> hd rest \<noteq> squote \<longrightarrow>
      scan_token squote ([squote] @ escapeString s @ [squote] @ rest) = Some (s, rest)"
    using escapeString_scans_back by blast
  note a = 1 [unfolded create_user_stmt_def rds_iam_stmt_def]
  note b = 2 [unfolded drop_user_stmt_def]
  note c = 3 [unfolded create_role_stmt_def]
  note d = 4 [unfolded member_stmt_def]
  note e = 5 [unfolded unmember_stmt_def]
  note f = 6 [unfolded grant_stmt_def prod.case]
  note g = 7 [unfolded revoke_stmt_def prod.case]
  show ?thesis
    apply (intro conjI)
            apply (rule a)
           apply (rule b)
          apply (rule c)
         apply (rule d)
        apply (rule e)
       apply (rule f)
      apply (rule g)
     apply (rule 8)
    apply (rule 9)
    done
qed

theorem names_are_quoted_witness:
  "create_user_stmt alice \<in> statements w0 (snd (CreateUser (toy []) m_real alice w0)) \<and>
   grant_stmt obrien (''app'', ''CONNECT'') \<in>
     statements w0 (snd (GrantPrivileges (toy []) m_dry obrien [''CONNECT''] [''app''] w0)) \<and>
   (\<exists>dbname \<in> set [''app'']. \<exists>priv \<in> set [''CONNECT''].
      grant_stmt obrien (''app'', ''CONNECT'') =
        ''GRANT '' @ priv @ '' ON DATABASE '' @ quoteIdentifier dbname @ '' TO '' @ quoteIdentifier obrien) \<and>
   ('' LOGIN'' = [] \<or> hd '' LOGIN'' \<noteq> dquote) \<and>
   scan_token dquote (quoteIdentifier obrien @ '' LOGIN'') = Some (obrien, '' LOGIN'') \<and>
   scan_token squote ([squote] @ escapeString obrien @ [squote] @ '' LOGIN'') = Some (obrien, '' LOGIN'')"
proof -
  note inst = names_are_quoted [of w0 "toy []" m_dry alice "''x''" app_group "''g''" obrien "[''CONNECT'']" "[''app'']"]
  have "\<exists>dbname \<in> set [''app'']. \<exists>priv \<in> set [''CONNECT''].
      grant_stmt obrien (''app'', ''CONNECT'') =
        ''GRANT '' @ priv @ '' ON DATABASE '' @ quoteIdentifier dbname @ '' TO '' @ quoteIdentifier obrien"
    using inst quoting_run(2) by blast
  moreover have "scan_token dquote (quoteIdentifier obrien @ '' LOGIN'') = Some (obrien, '' LOGIN'')"
    using inst quoting_run(3) by blast
  moreover have "scan_token squote ([squote] @ escapeString obrien @ [squote] @ '' LOGIN'') = Some (obrien, '' LOGIN'')"
    using inst quoting_run(4) by blast
  ultimately show ?thesis using quoting_run by blast
qed

subsection \<open>The password check\<close>

text \<open>
  C8.  When IAM authentication is not enabled (\<open>POSTGRES_IAM_AUTH\<close> is not \<open>true\<close>) and
  the password is missing (\<open>POSTGRES_PASSWORD\<close> is empty or not set), reading the connection
  parameters fails with a configuration error, and every command that would connect
  (\<open>sync\<close>, \<open>create-user\<close>, \<open>drop-user\<close>, \<open>list-users\<close>) returns an error before any
  connection attempt: it makes no call on the driver at all, so no connection is opened,
  and the state of the server is untouched.  The error is the one about the password
  (or about the port, when the port does not parse), wrapped by the command; \<open>sync\<close>
  fails earlier still when the configuration file cannot be loaded, and \<open>create-user\<close>
  when the auth method is invalid.
\<close>

theorem empty_password_stops_before_connecting:
  assumes "getEnvOrDefault env ''POSTGRES_IAM_AUTH'' ''false'' \<noteq> ''true''" and "env ''POSTGRES_PASSWORD'' = []"
  shows
  "GetDatabaseConnection env = Failed (password_error env) \<and>
   fst (runSync drv env dry (Ok cfg) w) = Some (Wrap ''failed to get database connection: '' (password_error env)) \<and>
   driver_calls (since w (snd (runSync drv env dry (Ok cfg) w))) = [] \<and>
   dbstate (snd (runSync drv env dry (Ok cfg) w)) = dbstate w \<and>
   fst (runSync drv env dry (Failed e0) w) = Some (Wrap ''failed to load configuration: '' e0) \<and>
   driver_calls (since w (snd (runSync drv env dry (Failed e0) w))) = [] \<and>
   dbstate (snd (runSync drv env dry (Failed e0) w)) = dbstate w \<and>
   (\<exists>e. fst (runCreateUser drv env dry username flags w) = Some e) \<and>
   (flag_auth_method flags = ''password'' \<or> flag_auth_method flags = ''iam'' \<longrightarrow>
      fst (runCreateUser drv env dry username flags w) =
        Some (Wrap ''failed to get database connection: '' (password_error env))) \<and>
   driver_calls (since w (snd (runCreateUser drv env dry username flags w))) = [] \<and>
   dbstate (snd (runCreateUser drv env dry username flags w)) = dbstate w \<and>
   fst (runDropUser drv env dry username w) = Some (Wrap ''failed to get database connection: '' (password_error env)) \<and>
   driver_calls (since w (snd (runDropUser drv env dry username w))) = [] \<and>
   dbstate (snd (runDropUser drv env dry username w)) = dbstate w \<and>
   fst (runListUsers drv env dry w) = Some (Wrap ''failed to get database connection: '' (password_error env)) \<and>
   driver_calls (since w (snd (runListUsers drv env dry w))) = [] \<and>
   dbstate (snd (runListUsers drv env dry w)) = dbstate w"
proof -
  note g = GetDatabaseConnection_no_password [OF assms]
  have s: "fst (runSync drv env dry (Ok cfg) w) = Some (Wrap ''failed to get database connection: '' (password_error env)) \<and>
   driver_calls (since w (snd (runSync drv env dry (Ok cfg) w))) = [] \<and>
   dbstate (snd (runSync drv env dry (Ok cfg) w)) = dbstate w \<and>
   fst (runSync drv env dry (Failed e0) w) = Some (Wrap ''failed to load configuration: '' e0) \<and>
   driver_calls (since w (snd (runSync drv env dry (Failed e0) w))) = [] \<and>
   dbstate (snd (runSync drv env dry (Failed e0) w)) = dbstate w"
    by (simp add: runSync_def g Let_def)
  have c: "(\<exists>e. fst (runCreateUser drv env dry username flags w) = Some e) \<and>
   (flag_auth_method flags = ''password'' \<or> flag_auth_method flags = ''iam'' \<longrightarrow>
      fst (runCreateUser drv env dry username flags w) =
        Some (Wrap ''failed to get database connection: '' (password_error env))) \<and>
   driver_calls (since w (snd (runCreateUser drv env dry username flags w))) = [] \<and>
   dbstate (snd (runCreateUser drv env dry username flags w)) = dbstate w"
    by (simp add: runCreateUser_def g Let_def since_def)
  have d: "fst (runDropUser drv env dry username w) = Some (Wrap ''failed to get database connection: '' (password_error env)) \<and>
   driver_calls (since w (snd (runDropUser drv env dry username w))) = [] \<and>
   dbstate (snd (runDropUser drv env dry username w)) = dbstate w"
    by (simp add: runDropUser_def g Let_def)
  have l: "fst (runListUsers drv env dry w) = Some (Wrap ''failed to get database connection: '' (password_error env)) \<and>
   driver_calls (since w (snd (runListUsers drv env dry w))) = [] \<and>
   dbstate (snd (runListUsers drv env dry w)) = dbstate w"
    by (simp add: runListUsers_def g Let_def)
  show ?thesis using g s c d l by blast
qed

theorem empty_password_stops_before_connecting_witness:
  "getEnvOrDefault env0 ''POSTGRES_IAM_AUTH'' ''false'' \<noteq> ''true'' \<and> env0 ''POSTGRES_PASSWORD'' = [] \<and>
   GetDatabaseConnection env0 =
     Failed (Err ''POSTGRES_PASSWORD environment variable is required for password authentication'') \<and>
   fst (runSync (toy []) env0 False (Ok config1) w0) =
     Some (Wrap ''failed to get database connection: ''
             (Err ''POSTGRES_PASSWORD environment variable is required for password authentication'')) \<and>
   driver_calls (since w0 (snd (runSync (toy []) env0 False (Ok config1) w0))) = [] \<and>
   fst (runDropUser (toy []) env0 False ''bob'' w0) =
     Some (Wrap ''failed to get database connection: ''
             (Err ''POSTGRES_PASSWORD environment variable is required for password authentication'')) \<and>
   snd (runDropUser (toy []) env0 False ''bob'' w0) =
     \<lparr>dbstate = [], events = [Log Info ''Dropping user'' [(''username'', Str ''bob'')]]\<rparr>"
  using empty_password_stops_before_connecting [OF env0_run(1,2), of "toy []" False config1 w0 _ "''bob''"]
    env0_run
  by simp
end
